theory Spec2Isabelle
  imports Main "HOL-Library.Word"
begin

unbundle bit_operations_syntax

section \<open>Configuration properties of the HTML tidying library (config.c)\<close>

text \<open>
  The development follows \<^verbatim>\<open>src/config.c\<close>.  Platform facts the C text leaves to
  its headers are fixed as follows: \<^verbatim>\<open>unsigned long\<close> and data pointers are 64 bits wide
  (LP64), \<^verbatim>\<open>unsigned int\<close> and enumerations are 32 bits wide, memory is little-endian,
  and the null pointer is the all-zero bit pattern.
\<close>

subsection \<open>Basic types\<close>

type_synonym ulong = "64 word"
type_synonym uint = "32 word"

text \<open>\<^verbatim>\<open>Bool\<close> is the enumeration \<^verbatim>\<open>{ no, yes }\<close>; a cast from \<^verbatim>\<open>ulong\<close> keeps the
  low 32 bits, and a condition tests the result against zero.\<close>

type_synonym Bool = "32 word"

definition no :: Bool where "no = 0"
definition yes :: Bool where "yes = 1"

text \<open>\<^verbatim>\<open>tchar\<close> is an unsigned 32-bit character code.  No arithmetic that could wrap is
  done on it, so it is a natural number here; \<^verbatim>\<open>EndOfStream\<close> is \<^verbatim>\<open>~0u\<close>.\<close>

type_synonym tchar = nat

definition EndOfStream :: tchar where "EndOfStream = 4294967295"

text \<open>A \<^verbatim>\<open>tmbstr\<close> is a pointer to a NUL-terminated byte string.  It is modelled as
  \<open>None\<close> for the null pointer and \<open>Some (a, s)\<close> for the address \<open>a\<close> of a block that
  holds the characters \<open>s\<close> (without the terminator).  Pointer comparison compares
  addresses; \<^verbatim>\<open>tmbstrcmp\<close> compares the characters.\<close>

type_synonym tmbstr = "(nat \<times> string) option"

text \<open>\<^verbatim>\<open>TidyOptionValue\<close> is the union \<^verbatim>\<open>{ ulong v; char *p; }\<close>.  The constructor records
  which member was written last; reading the other member reinterprets the same 64 bits.
  The characters behind an integer read as a pointer are not defined by C; the model
  reads the empty string there.\<close>

datatype TidyOptionValue = Val_v ulong | Val_p tmbstr

fun get_v :: "TidyOptionValue \<Rightarrow> ulong" where
  "get_v (Val_v n) = n"
| "get_v (Val_p None) = 0"
| "get_v (Val_p (Some (a, s))) = of_nat a"

fun get_p :: "TidyOptionValue \<Rightarrow> tmbstr" where
  "get_p (Val_p q) = q"
| "get_p (Val_v n) = (if n = 0 then None else Some (unat n, []))"

text \<open>Pointer equality \<^verbatim>\<open>p == q\<close>: equality of addresses.\<close>

fun ptr_eq :: "tmbstr \<Rightarrow> tmbstr \<Rightarrow> bool" where
  "ptr_eq None None = True"
| "ptr_eq (Some (a, s)) (Some (b, t)) = (a = b)"
| "ptr_eq _ _ = False"

subsection \<open>Enumerations of the public headers\<close>

type_synonym TidyOptionId = nat

datatype TidyConfigCategory =
  TidyMarkup | TidyDiagnostics | TidyPrettyPrint | TidyEncoding | TidyMiscellaneous
  | TidyInternalCategory

datatype TidyOptionType = TidyString | TidyInteger | TidyBoolean

text \<open>The option identifiers, in the order of the table \<open>option_defs\<close> below
  (\<^verbatim>\<open>Ensure struct order is same order as tidyenum.h:TidyOptionId\<close>), for a build with
  accessibility checks, UTF-16 and Asian encodings.\<close>

abbreviation (input) TidyUnknownOption :: TidyOptionId where "TidyUnknownOption \<equiv> 0"
abbreviation (input) TidyAccessibilityCheckLevel :: TidyOptionId where "TidyAccessibilityCheckLevel \<equiv> 1"
abbreviation (input) TidyAltText :: TidyOptionId where "TidyAltText \<equiv> 2"
abbreviation (input) TidyAnchorAsName :: TidyOptionId where "TidyAnchorAsName \<equiv> 3"
abbreviation (input) TidyAsciiChars :: TidyOptionId where "TidyAsciiChars \<equiv> 4"
abbreviation (input) TidyBlockTags :: TidyOptionId where "TidyBlockTags \<equiv> 5"
abbreviation (input) TidyBodyOnly :: TidyOptionId where "TidyBodyOnly \<equiv> 6"
abbreviation (input) TidyBreakBeforeBR :: TidyOptionId where "TidyBreakBeforeBR \<equiv> 7"
abbreviation (input) TidyCharEncoding :: TidyOptionId where "TidyCharEncoding \<equiv> 8"
abbreviation (input) TidyCoerceEndTags :: TidyOptionId where "TidyCoerceEndTags \<equiv> 9"
abbreviation (input) TidyCSSPrefix :: TidyOptionId where "TidyCSSPrefix \<equiv> 10"
abbreviation (input) TidyCustomTags :: TidyOptionId where "TidyCustomTags \<equiv> 11"
abbreviation (input) TidyDecorateInferredUL :: TidyOptionId where "TidyDecorateInferredUL \<equiv> 12"
abbreviation (input) TidyDoctype :: TidyOptionId where "TidyDoctype \<equiv> 13"
abbreviation (input) TidyDoctypeMode :: TidyOptionId where "TidyDoctypeMode \<equiv> 14"
abbreviation (input) TidyDropEmptyElems :: TidyOptionId where "TidyDropEmptyElems \<equiv> 15"
abbreviation (input) TidyDropEmptyParas :: TidyOptionId where "TidyDropEmptyParas \<equiv> 16"
abbreviation (input) TidyDropPropAttrs :: TidyOptionId where "TidyDropPropAttrs \<equiv> 17"
abbreviation (input) TidyDuplicateAttrs :: TidyOptionId where "TidyDuplicateAttrs \<equiv> 18"
abbreviation (input) TidyEmacs :: TidyOptionId where "TidyEmacs \<equiv> 19"
abbreviation (input) TidyEmacsFile :: TidyOptionId where "TidyEmacsFile \<equiv> 20"
abbreviation (input) TidyEmptyTags :: TidyOptionId where "TidyEmptyTags \<equiv> 21"
abbreviation (input) TidyEncloseBlockText :: TidyOptionId where "TidyEncloseBlockText \<equiv> 22"
abbreviation (input) TidyEncloseBodyText :: TidyOptionId where "TidyEncloseBodyText \<equiv> 23"
abbreviation (input) TidyErrFile :: TidyOptionId where "TidyErrFile \<equiv> 24"
abbreviation (input) TidyEscapeCdata :: TidyOptionId where "TidyEscapeCdata \<equiv> 25"
abbreviation (input) TidyEscapeScripts :: TidyOptionId where "TidyEscapeScripts \<equiv> 26"
abbreviation (input) TidyFixBackslash :: TidyOptionId where "TidyFixBackslash \<equiv> 27"
abbreviation (input) TidyFixComments :: TidyOptionId where "TidyFixComments \<equiv> 28"
abbreviation (input) TidyFixUri :: TidyOptionId where "TidyFixUri \<equiv> 29"
abbreviation (input) TidyForceOutput :: TidyOptionId where "TidyForceOutput \<equiv> 30"
abbreviation (input) TidyGDocClean :: TidyOptionId where "TidyGDocClean \<equiv> 31"
abbreviation (input) TidyHideComments :: TidyOptionId where "TidyHideComments \<equiv> 32"
abbreviation (input) TidyHtmlOut :: TidyOptionId where "TidyHtmlOut \<equiv> 33"
abbreviation (input) TidyInCharEncoding :: TidyOptionId where "TidyInCharEncoding \<equiv> 34"
abbreviation (input) TidyIndentAttributes :: TidyOptionId where "TidyIndentAttributes \<equiv> 35"
abbreviation (input) TidyIndentCdata :: TidyOptionId where "TidyIndentCdata \<equiv> 36"
abbreviation (input) TidyIndentContent :: TidyOptionId where "TidyIndentContent \<equiv> 37"
abbreviation (input) TidyIndentSpaces :: TidyOptionId where "TidyIndentSpaces \<equiv> 38"
abbreviation (input) TidyInlineTags :: TidyOptionId where "TidyInlineTags \<equiv> 39"
abbreviation (input) TidyJoinClasses :: TidyOptionId where "TidyJoinClasses \<equiv> 40"
abbreviation (input) TidyJoinStyles :: TidyOptionId where "TidyJoinStyles \<equiv> 41"
abbreviation (input) TidyKeepFileTimes :: TidyOptionId where "TidyKeepFileTimes \<equiv> 42"
abbreviation (input) TidyLiteralAttribs :: TidyOptionId where "TidyLiteralAttribs \<equiv> 43"
abbreviation (input) TidyLogicalEmphasis :: TidyOptionId where "TidyLogicalEmphasis \<equiv> 44"
abbreviation (input) TidyLowerLiterals :: TidyOptionId where "TidyLowerLiterals \<equiv> 45"
abbreviation (input) TidyMakeBare :: TidyOptionId where "TidyMakeBare \<equiv> 46"
abbreviation (input) TidyMakeClean :: TidyOptionId where "TidyMakeClean \<equiv> 47"
abbreviation (input) TidyMark :: TidyOptionId where "TidyMark \<equiv> 48"
abbreviation (input) TidyMergeDivs :: TidyOptionId where "TidyMergeDivs \<equiv> 49"
abbreviation (input) TidyMergeEmphasis :: TidyOptionId where "TidyMergeEmphasis \<equiv> 50"
abbreviation (input) TidyMergeSpans :: TidyOptionId where "TidyMergeSpans \<equiv> 51"
abbreviation (input) TidyMetaCharset :: TidyOptionId where "TidyMetaCharset \<equiv> 52"
abbreviation (input) TidyNCR :: TidyOptionId where "TidyNCR \<equiv> 53"
abbreviation (input) TidyNewline :: TidyOptionId where "TidyNewline \<equiv> 54"
abbreviation (input) TidyNumEntities :: TidyOptionId where "TidyNumEntities \<equiv> 55"
abbreviation (input) TidyOmitOptionalTags :: TidyOptionId where "TidyOmitOptionalTags \<equiv> 56"
abbreviation (input) TidyOutCharEncoding :: TidyOptionId where "TidyOutCharEncoding \<equiv> 57"
abbreviation (input) TidyOutFile :: TidyOptionId where "TidyOutFile \<equiv> 58"
abbreviation (input) TidyOutputBOM :: TidyOptionId where "TidyOutputBOM \<equiv> 59"
abbreviation (input) TidyPPrintTabs :: TidyOptionId where "TidyPPrintTabs \<equiv> 60"
abbreviation (input) TidyPreserveEntities :: TidyOptionId where "TidyPreserveEntities \<equiv> 61"
abbreviation (input) TidyPreTags :: TidyOptionId where "TidyPreTags \<equiv> 62"
abbreviation (input) TidyPunctWrap :: TidyOptionId where "TidyPunctWrap \<equiv> 63"
abbreviation (input) TidyQuiet :: TidyOptionId where "TidyQuiet \<equiv> 64"
abbreviation (input) TidyQuoteAmpersand :: TidyOptionId where "TidyQuoteAmpersand \<equiv> 65"
abbreviation (input) TidyQuoteMarks :: TidyOptionId where "TidyQuoteMarks \<equiv> 66"
abbreviation (input) TidyQuoteNbsp :: TidyOptionId where "TidyQuoteNbsp \<equiv> 67"
abbreviation (input) TidyReplaceColor :: TidyOptionId where "TidyReplaceColor \<equiv> 68"
abbreviation (input) TidyShowErrors :: TidyOptionId where "TidyShowErrors \<equiv> 69"
abbreviation (input) TidyShowInfo :: TidyOptionId where "TidyShowInfo \<equiv> 70"
abbreviation (input) TidyShowMarkup :: TidyOptionId where "TidyShowMarkup \<equiv> 71"
abbreviation (input) TidyShowMetaChange :: TidyOptionId where "TidyShowMetaChange \<equiv> 72"
abbreviation (input) TidyShowWarnings :: TidyOptionId where "TidyShowWarnings \<equiv> 73"
abbreviation (input) TidySkipNested :: TidyOptionId where "TidySkipNested \<equiv> 74"
abbreviation (input) TidySortAttributes :: TidyOptionId where "TidySortAttributes \<equiv> 75"
abbreviation (input) TidyStrictTagsAttr :: TidyOptionId where "TidyStrictTagsAttr \<equiv> 76"
abbreviation (input) TidyStyleTags :: TidyOptionId where "TidyStyleTags \<equiv> 77"
abbreviation (input) TidyTabSize :: TidyOptionId where "TidyTabSize \<equiv> 78"
abbreviation (input) TidyUpperCaseAttrs :: TidyOptionId where "TidyUpperCaseAttrs \<equiv> 79"
abbreviation (input) TidyUpperCaseTags :: TidyOptionId where "TidyUpperCaseTags \<equiv> 80"
abbreviation (input) TidyUseCustomTags :: TidyOptionId where "TidyUseCustomTags \<equiv> 81"
abbreviation (input) TidyVertSpace :: TidyOptionId where "TidyVertSpace \<equiv> 82"
abbreviation (input) TidyWarnPropAttrs :: TidyOptionId where "TidyWarnPropAttrs \<equiv> 83"
abbreviation (input) TidyWord2000 :: TidyOptionId where "TidyWord2000 \<equiv> 84"
abbreviation (input) TidyWrapAsp :: TidyOptionId where "TidyWrapAsp \<equiv> 85"
abbreviation (input) TidyWrapAttVals :: TidyOptionId where "TidyWrapAttVals \<equiv> 86"
abbreviation (input) TidyWrapJste :: TidyOptionId where "TidyWrapJste \<equiv> 87"
abbreviation (input) TidyWrapLen :: TidyOptionId where "TidyWrapLen \<equiv> 88"
abbreviation (input) TidyWrapPhp :: TidyOptionId where "TidyWrapPhp \<equiv> 89"
abbreviation (input) TidyWrapScriptlets :: TidyOptionId where "TidyWrapScriptlets \<equiv> 90"
abbreviation (input) TidyWrapSection :: TidyOptionId where "TidyWrapSection \<equiv> 91"
abbreviation (input) TidyWriteBack :: TidyOptionId where "TidyWriteBack \<equiv> 92"
abbreviation (input) TidyXhtmlOut :: TidyOptionId where "TidyXhtmlOut \<equiv> 93"
abbreviation (input) TidyXmlDecl :: TidyOptionId where "TidyXmlDecl \<equiv> 94"
abbreviation (input) TidyXmlOut :: TidyOptionId where "TidyXmlOut \<equiv> 95"
abbreviation (input) TidyXmlPIs :: TidyOptionId where "TidyXmlPIs \<equiv> 96"
abbreviation (input) TidyXmlSpace :: TidyOptionId where "TidyXmlSpace \<equiv> 97"
abbreviation (input) TidyXmlTags :: TidyOptionId where "TidyXmlTags \<equiv> 98"
abbreviation (input) N_TIDY_OPTIONS :: TidyOptionId where "N_TIDY_OPTIONS \<equiv> 99"

text \<open>Modelled from the spec: the values of the enumerations of \<^verbatim>\<open>tidyenum.h\<close> and of the
  encoding identifiers of \<^verbatim>\<open>streamio.h\<close>, which are not part of \<^verbatim>\<open>config.c\<close>.  The pick
  lists of \<^verbatim>\<open>config.c\<close> are populated in enumeration order, which fixes the values.\<close>

definition TidyNoState :: uint where "TidyNoState = 0"
definition TidyYesState :: uint where "TidyYesState = 1"
definition TidyAutoState :: uint where "TidyAutoState = 2"
definition TidyKeepFirst :: uint where "TidyKeepFirst = 0"
definition TidyKeepLast :: uint where "TidyKeepLast = 1"
definition TidyLF :: uint where "TidyLF = 0"
definition TidyCRLF :: uint where "TidyCRLF = 1"
definition TidyCR :: uint where "TidyCR = 2"
definition DLF :: uint where "DLF = TidyLF"
definition TidyDoctypeHtml5 :: uint where "TidyDoctypeHtml5 = 0"
definition TidyDoctypeOmit :: uint where "TidyDoctypeOmit = 1"
definition TidyDoctypeAuto :: uint where "TidyDoctypeAuto = 2"
definition TidyDoctypeStrict :: uint where "TidyDoctypeStrict = 3"
definition TidyDoctypeLoose :: uint where "TidyDoctypeLoose = 4"
definition TidyDoctypeUser :: uint where "TidyDoctypeUser = 5"
definition TidySortAttrNone :: uint where "TidySortAttrNone = 0"
definition TidySortAttrAlpha :: uint where "TidySortAttrAlpha = 1"
definition TidyCustomNo :: uint where "TidyCustomNo = 0"
definition TidyCustomBlocklevel :: uint where "TidyCustomBlocklevel = 1"
definition TidyCustomEmpty :: uint where "TidyCustomEmpty = 2"
definition TidyCustomInline :: uint where "TidyCustomInline = 3"
definition TidyCustomPre :: uint where "TidyCustomPre = 4"
definition TidyUppercaseNo :: uint where "TidyUppercaseNo = 0"
definition TidyUppercaseYes :: uint where "TidyUppercaseYes = 1"
definition TidyUppercasePreserve :: uint where "TidyUppercasePreserve = 2"

definition RAW :: int where "RAW = 0"
definition ASCII :: int where "ASCII = 1"
definition LATIN0 :: int where "LATIN0 = 2"
definition LATIN1 :: int where "LATIN1 = 3"
definition UTF8 :: int where "UTF8 = 4"
definition ISO2022 :: int where "ISO2022 = 5"
definition MACROMAN :: int where "MACROMAN = 6"
definition WIN1252 :: int where "WIN1252 = 7"
definition IBM858 :: int where "IBM858 = 8"
definition UTF16LE :: int where "UTF16LE = 9"
definition UTF16BE :: int where "UTF16BE = 10"
definition UTF16 :: int where "UTF16 = 11"
definition BIG5 :: int where "BIG5 = 12"
definition SHIFTJIS :: int where "SHIFTJIS = 13"


subsection \<open>Pick lists and the option table\<close>

text \<open>A pick list is an array of items closed by an item with a null label; each item has
  a label and a null-terminated array of accepted inputs.  The arrays are lists here and
  the closing entries are the ends of the lists.  The \<^verbatim>\<open>value\<close> member of an item is
  left out: the source says it is not used in code.\<close>

record PickListItem =
  label :: string
  inputs :: "string list"

type_synonym PickListItems = "PickListItem list"

definition boolPicks :: PickListItems where
  "boolPicks =
    [\<lparr>label = ''no'', inputs = [''0'', ''n'', ''f'', ''no'', ''false'']\<rparr>,
     \<lparr>label = ''yes'', inputs = [''1'', ''y'', ''t'', ''yes'', ''true'']\<rparr>]"

definition autoBoolPicks :: PickListItems where
  "autoBoolPicks =
    [\<lparr>label = ''no'', inputs = [''0'', ''n'', ''f'', ''no'', ''false'']\<rparr>,
     \<lparr>label = ''yes'', inputs = [''1'', ''y'', ''t'', ''yes'', ''true'']\<rparr>,
     \<lparr>label = ''auto'', inputs = [''auto'']\<rparr>]"

definition repeatAttrPicks :: PickListItems where
  "repeatAttrPicks =
    [\<lparr>label = ''keep-first'', inputs = [''keep-first'']\<rparr>,
     \<lparr>label = ''keep-last'', inputs = [''keep-last'']\<rparr>]"

definition accessPicks :: PickListItems where
  "accessPicks =
    [\<lparr>label = ''0 (Tidy Classic)'', inputs = [''0'', ''0 (Tidy Classic)'']\<rparr>,
     \<lparr>label = ''1 (Priority 1 Checks)'', inputs = [''1'', ''1 (Priority 1 Checks)'']\<rparr>,
     \<lparr>label = ''2 (Priority 2 Checks)'', inputs = [''2'', ''2 (Priority 2 Checks)'']\<rparr>,
     \<lparr>label = ''3 (Priority 3 Checks)'', inputs = [''3'', ''3 (Priority 3 Checks)'']\<rparr>]"

definition charEncPicks :: PickListItems where
  "charEncPicks =
    [\<lparr>label = ''raw'', inputs = [''raw'']\<rparr>,
     \<lparr>label = ''ascii'', inputs = [''ascii'']\<rparr>,
     \<lparr>label = ''latin0'', inputs = [''latin0'']\<rparr>,
     \<lparr>label = ''latin1'', inputs = [''latin1'']\<rparr>,
     \<lparr>label = ''utf8'', inputs = [''utf8'']\<rparr>,
     \<lparr>label = ''iso2022'', inputs = [''iso2022'']\<rparr>,
     \<lparr>label = ''mac'', inputs = [''mac'']\<rparr>,
     \<lparr>label = ''win1252'', inputs = [''win1252'']\<rparr>,
     \<lparr>label = ''ibm858'', inputs = [''ibm858'']\<rparr>,
     \<lparr>label = ''utf16le'', inputs = [''utf16le'']\<rparr>,
     \<lparr>label = ''utf16be'', inputs = [''utf16be'']\<rparr>,
     \<lparr>label = ''utf16'', inputs = [''utf16'']\<rparr>,
     \<lparr>label = ''big5'', inputs = [''big5'']\<rparr>,
     \<lparr>label = ''shiftjis'', inputs = [''shiftjis'']\<rparr>]"

definition newlinePicks :: PickListItems where
  "newlinePicks =
    [\<lparr>label = ''LF'', inputs = [''lf'']\<rparr>,
     \<lparr>label = ''CRLF'', inputs = [''crlf'']\<rparr>,
     \<lparr>label = ''CR'', inputs = [''cr'']\<rparr>]"

definition doctypePicks :: PickListItems where
  "doctypePicks =
    [\<lparr>label = ''html5'', inputs = [''html5'']\<rparr>,
     \<lparr>label = ''omit'', inputs = [''omit'']\<rparr>,
     \<lparr>label = ''auto'', inputs = [''auto'']\<rparr>,
     \<lparr>label = ''strict'', inputs = [''strict'']\<rparr>,
     \<lparr>label = ''transitional'', inputs = [''loose'', ''transitional'']\<rparr>,
     \<lparr>label = ''user'', inputs = [''user'']\<rparr>]"

definition sorterPicks :: PickListItems where
  "sorterPicks =
    [\<lparr>label = ''none'', inputs = [''none'']\<rparr>,
     \<lparr>label = ''alpha'', inputs = [''alpha'']\<rparr>]"

definition customTagsPicks :: PickListItems where
  "customTagsPicks =
    [\<lparr>label = ''no'', inputs = [''no'', ''n'']\<rparr>,
     \<lparr>label = ''blocklevel'', inputs = [''blocklevel'']\<rparr>,
     \<lparr>label = ''empty'', inputs = [''empty'']\<rparr>,
     \<lparr>label = ''inline'', inputs = [''inline'', ''y'', ''yes'']\<rparr>,
     \<lparr>label = ''pre'', inputs = [''pre'']\<rparr>]"

definition attributeCasePicks :: PickListItems where
  "attributeCasePicks =
    [\<lparr>label = ''no'', inputs = [''0'', ''n'', ''f'', ''no'', ''false'']\<rparr>,
     \<lparr>label = ''yes'', inputs = [''1'', ''y'', ''t'', ''yes'', ''true'']\<rparr>,
     \<lparr>label = ''preserve'', inputs = [''preserve'']\<rparr>]"

text \<open>The \<^verbatim>\<open>parser\<close> member of an option is a pointer to one of the parsing functions
  below, or null.  The pointers are the values of this type; \<open>call_parser\<close> further down
  is the indirect call.\<close>

datatype ParseProperty =
  ParseInt_fn | ParseName_fn | ParseCSS1Selector_fn | ParseString_fn | ParseTagNames_fn
  | ParseCharEnc_fn | ParseDocType_fn | ParseTabs_fn | ParsePickList_fn

abbreviation (input) ParseAcc :: "ParseProperty option" where
  "ParseAcc \<equiv> Some ParsePickList_fn"

record TidyOptionImpl =
  id' :: TidyOptionId
  category :: TidyConfigCategory
  name :: string
  type :: TidyOptionType
  dflt :: ulong
  parser :: "ParseProperty option"
  pickList :: "PickListItems option"
  pdflt :: tmbstr

text \<open>The table, without its closing row \<^verbatim>\<open>{ N_TIDY_OPTIONS, XX, NULL, XY, 0, NULL, NULL }\<close>:
  a loop that runs while \<^verbatim>\<open>option->name\<close> is not null runs to the end of the list.  No
  row initialises \<^verbatim>\<open>pdflt\<close>, so it is the null pointer everywhere.\<close>

definition option_defs :: "TidyOptionImpl list" where
  "option_defs =
    [
     \<lparr>id' = TidyUnknownOption, category = TidyMiscellaneous, name = ''unknown!'', type = TidyInteger, dflt = 0, parser = None, pickList = None, pdflt = None\<rparr>,
     \<lparr>id' = TidyAccessibilityCheckLevel, category = TidyDiagnostics, name = ''accessibility-check'', type = TidyInteger, dflt = 0, parser = ParseAcc, pickList = Some accessPicks, pdflt = None\<rparr>,
     \<lparr>id' = TidyAltText, category = TidyMarkup, name = ''alt-text'', type = TidyString, dflt = 0, parser = Some ParseString_fn, pickList = None, pdflt = None\<rparr>,
     \<lparr>id' = TidyAnchorAsName, category = TidyMarkup, name = ''anchor-as-name'', type = TidyBoolean, dflt = ucast yes, parser = Some ParsePickList_fn, pickList = Some boolPicks, pdflt = None\<rparr>,
     \<lparr>id' = TidyAsciiChars, category = TidyEncoding, name = ''ascii-chars'', type = TidyBoolean, dflt = ucast no, parser = Some ParsePickList_fn, pickList = Some boolPicks, pdflt = None\<rparr>,
     \<lparr>id' = TidyBlockTags, category = TidyMarkup, name = ''new-blocklevel-tags'', type = TidyString, dflt = 0, parser = Some ParseTagNames_fn, pickList = None, pdflt = None\<rparr>,
     \<lparr>id' = TidyBodyOnly, category = TidyMarkup, name = ''show-body-only'', type = TidyInteger, dflt = ucast no, parser = Some ParsePickList_fn, pickList = Some autoBoolPicks, pdflt = None\<rparr>,
     \<lparr>id' = TidyBreakBeforeBR, category = TidyPrettyPrint, name = ''break-before-br'', type = TidyBoolean, dflt = ucast no, parser = Some ParsePickList_fn, pickList = Some boolPicks, pdflt = None\<rparr>,
     \<lparr>id' = TidyCharEncoding, category = TidyEncoding, name = ''char-encoding'', type = TidyInteger, dflt = word_of_int UTF8, parser = Some ParseCharEnc_fn, pickList = Some charEncPicks, pdflt = None\<rparr>,
     \<lparr>id' = TidyCoerceEndTags, category = TidyMarkup, name = ''coerce-endtags'', type = TidyBoolean, dflt = ucast yes, parser = Some ParsePickList_fn, pickList = Some boolPicks, pdflt = None\<rparr>,
     \<lparr>id' = TidyCSSPrefix, category = TidyMarkup, name = ''css-prefix'', type = TidyString, dflt = 0, parser = Some ParseCSS1Selector_fn, pickList = None, pdflt = None\<rparr>,
     \<lparr>id' = TidyCustomTags, category = TidyInternalCategory, name = ''new-custom-tags'', type = TidyString, dflt = 0, parser = Some ParseTagNames_fn, pickList = None, pdflt = None\<rparr>,
     \<lparr>id' = TidyDecorateInferredUL, category = TidyMarkup, name = ''decorate-inferred-ul'', type = TidyBoolean, dflt = ucast no, parser = Some ParsePickList_fn, pickList = Some boolPicks, pdflt = None\<rparr>,
     \<lparr>id' = TidyDoctype, category = TidyMarkup, name = ''doctype'', type = TidyString, dflt = 0, parser = Some ParseDocType_fn, pickList = Some doctypePicks, pdflt = None\<rparr>,
     \<lparr>id' = TidyDoctypeMode, category = TidyInternalCategory, name = ''doctype-mode'', type = TidyInteger, dflt = ucast TidyDoctypeAuto, parser = None, pickList = Some doctypePicks, pdflt = None\<rparr>,
     \<lparr>id' = TidyDropEmptyElems, category = TidyMarkup, name = ''drop-empty-elements'', type = TidyBoolean, dflt = ucast yes, parser = Some ParsePickList_fn, pickList = Some boolPicks, pdflt = None\<rparr>,
     \<lparr>id' = TidyDropEmptyParas, category = TidyMarkup, name = ''drop-empty-paras'', type = TidyBoolean, dflt = ucast yes, parser = Some ParsePickList_fn, pickList = Some boolPicks, pdflt = None\<rparr>,
     \<lparr>id' = TidyDropPropAttrs, category = TidyMarkup, name = ''drop-proprietary-attributes'', type = TidyBoolean, dflt = ucast no, parser = Some ParsePickList_fn, pickList = Some boolPicks, pdflt = None\<rparr>,
     \<lparr>id' = TidyDuplicateAttrs, category = TidyMarkup, name = ''repeated-attributes'', type = TidyInteger, dflt = ucast TidyKeepLast, parser = Some ParsePickList_fn, pickList = Some repeatAttrPicks, pdflt = None\<rparr>,
     \<lparr>id' = TidyEmacs, category = TidyMiscellaneous, name = ''gnu-emacs'', type = TidyBoolean, dflt = ucast no, parser = Some ParsePickList_fn, pickList = Some boolPicks, pdflt = None\<rparr>,
     \<lparr>id' = TidyEmacsFile, category = TidyInternalCategory, name = ''gnu-emacs-file'', type = TidyString, dflt = 0, parser = Some ParseString_fn, pickList = None, pdflt = None\<rparr>,
     \<lparr>id' = TidyEmptyTags, category = TidyMarkup, name = ''new-empty-tags'', type = TidyString, dflt = 0, parser = Some ParseTagNames_fn, pickList = None, pdflt = None\<rparr>,
     \<lparr>id' = TidyEncloseBlockText, category = TidyMarkup, name = ''enclose-block-text'', type = TidyBoolean, dflt = ucast no, parser = Some ParsePickList_fn, pickList = Some boolPicks, pdflt = None\<rparr>,
     \<lparr>id' = TidyEncloseBodyText, category = TidyMarkup, name = ''enclose-text'', type = TidyBoolean, dflt = ucast no, parser = Some ParsePickList_fn, pickList = Some boolPicks, pdflt = None\<rparr>,
     \<lparr>id' = TidyErrFile, category = TidyMiscellaneous, name = ''error-file'', type = TidyString, dflt = 0, parser = Some ParseString_fn, pickList = None, pdflt = None\<rparr>,
     \<lparr>id' = TidyEscapeCdata, category = TidyMarkup, name = ''escape-cdata'', type = TidyBoolean, dflt = ucast no, parser = Some ParsePickList_fn, pickList = Some boolPicks, pdflt = None\<rparr>,
     \<lparr>id' = TidyEscapeScripts, category = TidyPrettyPrint, name = ''escape-scripts'', type = TidyBoolean, dflt = ucast yes, parser = Some ParsePickList_fn, pickList = Some boolPicks, pdflt = None\<rparr>,
     \<lparr>id' = TidyFixBackslash, category = TidyMarkup, name = ''fix-backslash'', type = TidyBoolean, dflt = ucast yes, parser = Some ParsePickList_fn, pickList = Some boolPicks, pdflt = None\<rparr>,
     \<lparr>id' = TidyFixComments, category = TidyMarkup, name = ''fix-bad-comments'', type = TidyBoolean, dflt = ucast yes, parser = Some ParsePickList_fn, pickList = Some boolPicks, pdflt = None\<rparr>,
     \<lparr>id' = TidyFixUri, category = TidyMarkup, name = ''fix-uri'', type = TidyBoolean, dflt = ucast yes, parser = Some ParsePickList_fn, pickList = Some boolPicks, pdflt = None\<rparr>,
     \<lparr>id' = TidyForceOutput, category = TidyMiscellaneous, name = ''force-output'', type = TidyBoolean, dflt = ucast no, parser = Some ParsePickList_fn, pickList = Some boolPicks, pdflt = None\<rparr>,
     \<lparr>id' = TidyGDocClean, category = TidyMarkup, name = ''gdoc'', type = TidyBoolean, dflt = ucast no, parser = Some ParsePickList_fn, pickList = Some boolPicks, pdflt = None\<rparr>,
     \<lparr>id' = TidyHideComments, category = TidyMarkup, name = ''hide-comments'', type = TidyBoolean, dflt = ucast no, parser = Some ParsePickList_fn, pickList = Some boolPicks, pdflt = None\<rparr>,
     \<lparr>id' = TidyHtmlOut, category = TidyMarkup, name = ''output-html'', type = TidyBoolean, dflt = ucast no, parser = Some ParsePickList_fn, pickList = Some boolPicks, pdflt = None\<rparr>,
     \<lparr>id' = TidyInCharEncoding, category = TidyEncoding, name = ''input-encoding'', type = TidyInteger, dflt = word_of_int UTF8, parser = Some ParseCharEnc_fn, pickList = Some charEncPicks, pdflt = None\<rparr>,
     \<lparr>id' = TidyIndentAttributes, category = TidyPrettyPrint, name = ''indent-attributes'', type = TidyBoolean, dflt = ucast no, parser = Some ParsePickList_fn, pickList = Some boolPicks, pdflt = None\<rparr>,
     \<lparr>id' = TidyIndentCdata, category = TidyMarkup, name = ''indent-cdata'', type = TidyBoolean, dflt = ucast no, parser = Some ParsePickList_fn, pickList = Some boolPicks, pdflt = None\<rparr>,
     \<lparr>id' = TidyIndentContent, category = TidyPrettyPrint, name = ''indent'', type = TidyInteger, dflt = ucast TidyNoState, parser = Some ParsePickList_fn, pickList = Some autoBoolPicks, pdflt = None\<rparr>,
     \<lparr>id' = TidyIndentSpaces, category = TidyPrettyPrint, name = ''indent-spaces'', type = TidyInteger, dflt = 2, parser = Some ParseInt_fn, pickList = None, pdflt = None\<rparr>,
     \<lparr>id' = TidyInlineTags, category = TidyMarkup, name = ''new-inline-tags'', type = TidyString, dflt = 0, parser = Some ParseTagNames_fn, pickList = None, pdflt = None\<rparr>,
     \<lparr>id' = TidyJoinClasses, category = TidyMarkup, name = ''join-classes'', type = TidyBoolean, dflt = ucast no, parser = Some ParsePickList_fn, pickList = Some boolPicks, pdflt = None\<rparr>,
     \<lparr>id' = TidyJoinStyles, category = TidyMarkup, name = ''join-styles'', type = TidyBoolean, dflt = ucast yes, parser = Some ParsePickList_fn, pickList = Some boolPicks, pdflt = None\<rparr>,
     \<lparr>id' = TidyKeepFileTimes, category = TidyMiscellaneous, name = ''keep-time'', type = TidyBoolean, dflt = ucast no, parser = Some ParsePickList_fn, pickList = Some boolPicks, pdflt = None\<rparr>,
     \<lparr>id' = TidyLiteralAttribs, category = TidyMarkup, name = ''literal-attributes'', type = TidyBoolean, dflt = ucast no, parser = Some ParsePickList_fn, pickList = Some boolPicks, pdflt = None\<rparr>,
     \<lparr>id' = TidyLogicalEmphasis, category = TidyMarkup, name = ''logical-emphasis'', type = TidyBoolean, dflt = ucast no, parser = Some ParsePickList_fn, pickList = Some boolPicks, pdflt = None\<rparr>,
     \<lparr>id' = TidyLowerLiterals, category = TidyMarkup, name = ''lower-literals'', type = TidyBoolean, dflt = ucast yes, parser = Some ParsePickList_fn, pickList = Some boolPicks, pdflt = None\<rparr>,
     \<lparr>id' = TidyMakeBare, category = TidyMarkup, name = ''bare'', type = TidyBoolean, dflt = ucast no, parser = Some ParsePickList_fn, pickList = Some boolPicks, pdflt = None\<rparr>,
     \<lparr>id' = TidyMakeClean, category = TidyMarkup, name = ''clean'', type = TidyBoolean, dflt = ucast no, parser = Some ParsePickList_fn, pickList = Some boolPicks, pdflt = None\<rparr>,
     \<lparr>id' = TidyMark, category = TidyMiscellaneous, name = ''tidy-mark'', type = TidyBoolean, dflt = ucast yes, parser = Some ParsePickList_fn, pickList = Some boolPicks, pdflt = None\<rparr>,
     \<lparr>id' = TidyMergeDivs, category = TidyMarkup, name = ''merge-divs'', type = TidyInteger, dflt = ucast TidyAutoState, parser = Some ParsePickList_fn, pickList = Some autoBoolPicks, pdflt = None\<rparr>,
     \<lparr>id' = TidyMergeEmphasis, category = TidyMarkup, name = ''merge-emphasis'', type = TidyBoolean, dflt = ucast yes, parser = Some ParsePickList_fn, pickList = Some boolPicks, pdflt = None\<rparr>,
     \<lparr>id' = TidyMergeSpans, category = TidyMarkup, name = ''merge-spans'', type = TidyInteger, dflt = ucast TidyAutoState, parser = Some ParsePickList_fn, pickList = Some autoBoolPicks, pdflt = None\<rparr>,
     \<lparr>id' = TidyMetaCharset, category = TidyMiscellaneous, name = ''add-meta-charset'', type = TidyBoolean, dflt = ucast no, parser = Some ParsePickList_fn, pickList = Some boolPicks, pdflt = None\<rparr>,
     \<lparr>id' = TidyNCR, category = TidyMarkup, name = ''ncr'', type = TidyBoolean, dflt = ucast yes, parser = Some ParsePickList_fn, pickList = Some boolPicks, pdflt = None\<rparr>,
     \<lparr>id' = TidyNewline, category = TidyEncoding, name = ''newline'', type = TidyInteger, dflt = ucast DLF, parser = Some ParsePickList_fn, pickList = Some newlinePicks, pdflt = None\<rparr>,
     \<lparr>id' = TidyNumEntities, category = TidyMarkup, name = ''numeric-entities'', type = TidyBoolean, dflt = ucast no, parser = Some ParsePickList_fn, pickList = Some boolPicks, pdflt = None\<rparr>,
     \<lparr>id' = TidyOmitOptionalTags, category = TidyMarkup, name = ''omit-optional-tags'', type = TidyBoolean, dflt = ucast no, parser = Some ParsePickList_fn, pickList = Some boolPicks, pdflt = None\<rparr>,
     \<lparr>id' = TidyOutCharEncoding, category = TidyEncoding, name = ''output-encoding'', type = TidyInteger, dflt = word_of_int UTF8, parser = Some ParseCharEnc_fn, pickList = Some charEncPicks, pdflt = None\<rparr>,
     \<lparr>id' = TidyOutFile, category = TidyMiscellaneous, name = ''output-file'', type = TidyString, dflt = 0, parser = Some ParseString_fn, pickList = None, pdflt = None\<rparr>,
     \<lparr>id' = TidyOutputBOM, category = TidyEncoding, name = ''output-bom'', type = TidyInteger, dflt = ucast TidyAutoState, parser = Some ParsePickList_fn, pickList = Some autoBoolPicks, pdflt = None\<rparr>,
     \<lparr>id' = TidyPPrintTabs, category = TidyPrettyPrint, name = ''indent-with-tabs'', type = TidyBoolean, dflt = ucast no, parser = Some ParseTabs_fn, pickList = Some boolPicks, pdflt = None\<rparr>,
     \<lparr>id' = TidyPreserveEntities, category = TidyMarkup, name = ''preserve-entities'', type = TidyBoolean, dflt = ucast no, parser = Some ParsePickList_fn, pickList = Some boolPicks, pdflt = None\<rparr>,
     \<lparr>id' = TidyPreTags, category = TidyMarkup, name = ''new-pre-tags'', type = TidyString, dflt = 0, parser = Some ParseTagNames_fn, pickList = None, pdflt = None\<rparr>,
     \<lparr>id' = TidyPunctWrap, category = TidyPrettyPrint, name = ''punctuation-wrap'', type = TidyBoolean, dflt = ucast no, parser = Some ParsePickList_fn, pickList = Some boolPicks, pdflt = None\<rparr>,
     \<lparr>id' = TidyQuiet, category = TidyMiscellaneous, name = ''quiet'', type = TidyBoolean, dflt = ucast no, parser = Some ParsePickList_fn, pickList = Some boolPicks, pdflt = None\<rparr>,
     \<lparr>id' = TidyQuoteAmpersand, category = TidyMarkup, name = ''quote-ampersand'', type = TidyBoolean, dflt = ucast yes, parser = Some ParsePickList_fn, pickList = Some boolPicks, pdflt = None\<rparr>,
     \<lparr>id' = TidyQuoteMarks, category = TidyMarkup, name = ''quote-marks'', type = TidyBoolean, dflt = ucast no, parser = Some ParsePickList_fn, pickList = Some boolPicks, pdflt = None\<rparr>,
     \<lparr>id' = TidyQuoteNbsp, category = TidyMarkup, name = ''quote-nbsp'', type = TidyBoolean, dflt = ucast yes, parser = Some ParsePickList_fn, pickList = Some boolPicks, pdflt = None\<rparr>,
     \<lparr>id' = TidyReplaceColor, category = TidyMarkup, name = ''replace-color'', type = TidyBoolean, dflt = ucast no, parser = Some ParsePickList_fn, pickList = Some boolPicks, pdflt = None\<rparr>,
     \<lparr>id' = TidyShowErrors, category = TidyDiagnostics, name = ''show-errors'', type = TidyInteger, dflt = 6, parser = Some ParseInt_fn, pickList = None, pdflt = None\<rparr>,
     \<lparr>id' = TidyShowInfo, category = TidyDiagnostics, name = ''show-info'', type = TidyBoolean, dflt = ucast yes, parser = Some ParsePickList_fn, pickList = Some boolPicks, pdflt = None\<rparr>,
     \<lparr>id' = TidyShowMarkup, category = TidyPrettyPrint, name = ''markup'', type = TidyBoolean, dflt = ucast yes, parser = Some ParsePickList_fn, pickList = Some boolPicks, pdflt = None\<rparr>,
     \<lparr>id' = TidyShowMetaChange, category = TidyMiscellaneous, name = ''show-meta-change'', type = TidyBoolean, dflt = ucast no, parser = Some ParsePickList_fn, pickList = Some boolPicks, pdflt = None\<rparr>,
     \<lparr>id' = TidyShowWarnings, category = TidyDiagnostics, name = ''show-warnings'', type = TidyBoolean, dflt = ucast yes, parser = Some ParsePickList_fn, pickList = Some boolPicks, pdflt = None\<rparr>,
     \<lparr>id' = TidySkipNested, category = TidyMarkup, name = ''skip-nested'', type = TidyBoolean, dflt = ucast yes, parser = Some ParsePickList_fn, pickList = Some boolPicks, pdflt = None\<rparr>,
     \<lparr>id' = TidySortAttributes, category = TidyPrettyPrint, name = ''sort-attributes'', type = TidyInteger, dflt = ucast TidySortAttrNone, parser = Some ParsePickList_fn, pickList = Some sorterPicks, pdflt = None\<rparr>,
     \<lparr>id' = TidyStrictTagsAttr, category = TidyMarkup, name = ''strict-tags-attributes'', type = TidyBoolean, dflt = ucast no, parser = Some ParsePickList_fn, pickList = Some boolPicks, pdflt = None\<rparr>,
     \<lparr>id' = TidyStyleTags, category = TidyMarkup, name = ''fix-style-tags'', type = TidyBoolean, dflt = ucast yes, parser = Some ParsePickList_fn, pickList = Some boolPicks, pdflt = None\<rparr>,
     \<lparr>id' = TidyTabSize, category = TidyPrettyPrint, name = ''tab-size'', type = TidyInteger, dflt = 8, parser = Some ParseInt_fn, pickList = None, pdflt = None\<rparr>,
     \<lparr>id' = TidyUpperCaseAttrs, category = TidyMarkup, name = ''uppercase-attributes'', type = TidyInteger, dflt = ucast TidyUppercaseNo, parser = Some ParsePickList_fn, pickList = Some attributeCasePicks, pdflt = None\<rparr>,
     \<lparr>id' = TidyUpperCaseTags, category = TidyMarkup, name = ''uppercase-tags'', type = TidyBoolean, dflt = ucast no, parser = Some ParsePickList_fn, pickList = Some boolPicks, pdflt = None\<rparr>,
     \<lparr>id' = TidyUseCustomTags, category = TidyMarkup, name = ''custom-tags'', type = TidyInteger, dflt = ucast TidyCustomNo, parser = Some ParsePickList_fn, pickList = Some customTagsPicks, pdflt = None\<rparr>,
     \<lparr>id' = TidyVertSpace, category = TidyPrettyPrint, name = ''vertical-space'', type = TidyInteger, dflt = ucast no, parser = Some ParsePickList_fn, pickList = Some autoBoolPicks, pdflt = None\<rparr>,
     \<lparr>id' = TidyWarnPropAttrs, category = TidyMarkup, name = ''warn-proprietary-attributes'', type = TidyBoolean, dflt = ucast yes, parser = Some ParsePickList_fn, pickList = Some boolPicks, pdflt = None\<rparr>,
     \<lparr>id' = TidyWord2000, category = TidyMarkup, name = ''word-2000'', type = TidyBoolean, dflt = ucast no, parser = Some ParsePickList_fn, pickList = Some boolPicks, pdflt = None\<rparr>,
     \<lparr>id' = TidyWrapAsp, category = TidyPrettyPrint, name = ''wrap-asp'', type = TidyBoolean, dflt = ucast yes, parser = Some ParsePickList_fn, pickList = Some boolPicks, pdflt = None\<rparr>,
     \<lparr>id' = TidyWrapAttVals, category = TidyPrettyPrint, name = ''wrap-attributes'', type = TidyBoolean, dflt = ucast no, parser = Some ParsePickList_fn, pickList = Some boolPicks, pdflt = None\<rparr>,
     \<lparr>id' = TidyWrapJste, category = TidyPrettyPrint, name = ''wrap-jste'', type = TidyBoolean, dflt = ucast yes, parser = Some ParsePickList_fn, pickList = Some boolPicks, pdflt = None\<rparr>,
     \<lparr>id' = TidyWrapLen, category = TidyPrettyPrint, name = ''wrap'', type = TidyInteger, dflt = 68, parser = Some ParseInt_fn, pickList = None, pdflt = None\<rparr>,
     \<lparr>id' = TidyWrapPhp, category = TidyPrettyPrint, name = ''wrap-php'', type = TidyBoolean, dflt = ucast yes, parser = Some ParsePickList_fn, pickList = Some boolPicks, pdflt = None\<rparr>,
     \<lparr>id' = TidyWrapScriptlets, category = TidyPrettyPrint, name = ''wrap-script-literals'', type = TidyBoolean, dflt = ucast no, parser = Some ParsePickList_fn, pickList = Some boolPicks, pdflt = None\<rparr>,
     \<lparr>id' = TidyWrapSection, category = TidyPrettyPrint, name = ''wrap-sections'', type = TidyBoolean, dflt = ucast yes, parser = Some ParsePickList_fn, pickList = Some boolPicks, pdflt = None\<rparr>,
     \<lparr>id' = TidyWriteBack, category = TidyMiscellaneous, name = ''write-back'', type = TidyBoolean, dflt = ucast no, parser = Some ParsePickList_fn, pickList = Some boolPicks, pdflt = None\<rparr>,
     \<lparr>id' = TidyXhtmlOut, category = TidyMarkup, name = ''output-xhtml'', type = TidyBoolean, dflt = ucast no, parser = Some ParsePickList_fn, pickList = Some boolPicks, pdflt = None\<rparr>,
     \<lparr>id' = TidyXmlDecl, category = TidyMarkup, name = ''add-xml-decl'', type = TidyBoolean, dflt = ucast no, parser = Some ParsePickList_fn, pickList = Some boolPicks, pdflt = None\<rparr>,
     \<lparr>id' = TidyXmlOut, category = TidyMarkup, name = ''output-xml'', type = TidyBoolean, dflt = ucast no, parser = Some ParsePickList_fn, pickList = Some boolPicks, pdflt = None\<rparr>,
     \<lparr>id' = TidyXmlPIs, category = TidyMarkup, name = ''assume-xml-procins'', type = TidyBoolean, dflt = ucast no, parser = Some ParsePickList_fn, pickList = Some boolPicks, pdflt = None\<rparr>,
     \<lparr>id' = TidyXmlSpace, category = TidyMarkup, name = ''add-xml-space'', type = TidyBoolean, dflt = ucast no, parser = Some ParsePickList_fn, pickList = Some boolPicks, pdflt = None\<rparr>,
     \<lparr>id' = TidyXmlTags, category = TidyMarkup, name = ''input-xml'', type = TidyBoolean, dflt = ucast no, parser = Some ParsePickList_fn, pickList = Some boolPicks, pdflt = None\<rparr>
    ]"


subsection \<open>The document state\<close>

text \<open>Modelled from the spec: the character input stream of \<^verbatim>\<open>streamio.c\<close>, a capability
  supplying the next character and a push-back.  A stream is the list of characters that
  \<^verbatim>\<open>ReadChar\<close> will still deliver; at its end \<^verbatim>\<open>ReadChar\<close> delivers \<^verbatim>\<open>EndOfStream\<close>, and
  \<^verbatim>\<open>UngetChar\<close> ignores \<^verbatim>\<open>EndOfStream\<close>.\<close>

type_synonym StreamIn = "tchar list"

definition ReadChar :: "StreamIn \<Rightarrow> tchar \<times> StreamIn" where
  "ReadChar s = (case s of [] \<Rightarrow> (EndOfStream, []) | x # xs \<Rightarrow> (x, xs))"

definition UngetChar :: "tchar \<Rightarrow> StreamIn \<Rightarrow> StreamIn" where
  "UngetChar x s = (if x = EndOfStream then s else x # s)"

text \<open>Modelled from the spec: the conditions that \<^verbatim>\<open>message.c\<close> reports.  A report is
  logged and counted in \<^verbatim>\<open>optionErrors\<close>.\<close>

datatype report = BadArgument string | UnknownOption string | FileError

text \<open>Modelled from the spec: the tag-type bits of \<^verbatim>\<open>tags.h\<close>.\<close>

type_synonym UserTagType = uint

definition tagtype_null :: UserTagType where "tagtype_null = 0"
definition tagtype_empty :: UserTagType where "tagtype_empty = 1"
definition tagtype_inline :: UserTagType where "tagtype_inline = 2"
definition tagtype_block :: UserTagType where "tagtype_block = 4"
definition tagtype_pre :: UserTagType where "tagtype_pre = 8"

text \<open>The member \<^verbatim>\<open>c\<close> of the configuration is called \<open>ch\<close> and the member \<^verbatim>\<open>value\<close> is
  called \<open>value'\<close>.\<close>

record TidyConfigImpl =
  value' :: "TidyOptionValue list"
  snapshot :: "TidyOptionValue list"
  defined_tags :: uint
  ch :: tchar
  cfgIn :: "StreamIn option"

text \<open>Of the document, the members that \<^verbatim>\<open>config.c\<close> touches.  \<open>allocator\<close> is the last
  address handed out by the allocator; \<open>declared_tags\<close> stands for the tag dictionary of
  \<^verbatim>\<open>tags.c\<close> and \<open>messages\<close> for the output of \<^verbatim>\<open>message.c\<close>.  The option callbacks are
  taken to be pure acceptors of a name and a value.\<close>

record TidyDocImpl =
  config :: TidyConfigImpl
  optionErrors :: uint
  allocator :: nat
  pOptCallback :: "(string \<Rightarrow> string \<Rightarrow> bool) option"
  pConfigCallback :: "(string \<Rightarrow> string \<Rightarrow> bool) option"
  declared_tags :: "(UserTagType \<times> string) list"
  messages :: "report list"

definition ReportBadArgument :: "TidyDocImpl \<Rightarrow> string \<Rightarrow> TidyDocImpl" where
  "ReportBadArgument doc option_name =
     doc\<lparr>messages := messages doc @ [BadArgument option_name],
         optionErrors := optionErrors doc + 1\<rparr>"

definition ReportUnknownOption :: "TidyDocImpl \<Rightarrow> string \<Rightarrow> TidyDocImpl" where
  "ReportUnknownOption doc option_name =
     doc\<lparr>messages := messages doc @ [UnknownOption option_name],
         optionErrors := optionErrors doc + 1\<rparr>"

definition ReportFileError :: "TidyDocImpl \<Rightarrow> TidyDocImpl" where
  "ReportFileError doc =
     doc\<lparr>messages := messages doc @ [FileError], optionErrors := optionErrors doc + 1\<rparr>"

text \<open>Modelled from the spec: the tag dictionary.  \<^verbatim>\<open>DefineTag\<close> enters a name under a tag
  type; \<^verbatim>\<open>FreeDeclaredTags\<close> removes the names of one type, or all of them for
  \<^verbatim>\<open>tagtype_null\<close>.\<close>

definition DefineTag :: "TidyDocImpl \<Rightarrow> UserTagType \<Rightarrow> string \<Rightarrow> TidyDocImpl" where
  "DefineTag doc tagType nm = doc\<lparr>declared_tags := declared_tags doc @ [(tagType, nm)]\<rparr>"

definition FreeDeclaredTags :: "TidyDocImpl \<Rightarrow> UserTagType \<Rightarrow> TidyDocImpl" where
  "FreeDeclaredTags doc tagType =
     doc\<lparr>declared_tags :=
       filter (\<lambda>(t, nm). \<not> (tagType = tagtype_null \<or> t = tagType)) (declared_tags doc)\<rparr>"

text \<open>Modelled from the spec: the allocator and the string functions of \<^verbatim>\<open>tmbstr.c\<close>.
  An allocation returns an address that was never handed out before; releasing a block
  changes nothing that the model records.\<close>

definition TidyDocFree :: "TidyDocImpl \<Rightarrow> tmbstr \<Rightarrow> TidyDocImpl" where
  "TidyDocFree doc q = doc"

fun tmbstrdup :: "TidyDocImpl \<Rightarrow> string option \<Rightarrow> TidyDocImpl \<times> tmbstr" where
  "tmbstrdup doc None = (doc, None)"
| "tmbstrdup doc (Some s) =
     (doc\<lparr>allocator := Suc (allocator doc)\<rparr>, Some (Suc (allocator doc), s))"

fun deref :: "tmbstr \<Rightarrow> string option" where
  "deref None = None"
| "deref (Some (a, s)) = Some s"

fun tmbstrlen :: "string option \<Rightarrow> nat" where
  "tmbstrlen None = 0"
| "tmbstrlen (Some s) = length s"

subsection \<open>Option values\<close>

definition set_value :: "TidyDocImpl \<Rightarrow> nat \<Rightarrow> TidyOptionValue \<Rightarrow> TidyDocImpl" where
  "set_value doc ix x = doc\<lparr>config := (config doc)\<lparr>value' := (value' (config doc))[ix := x]\<rparr>\<rparr>"

definition set_snapshot :: "TidyDocImpl \<Rightarrow> nat \<Rightarrow> TidyOptionValue \<Rightarrow> TidyDocImpl" where
  "set_snapshot doc ix x =
     doc\<lparr>config := (config doc)\<lparr>snapshot := (snapshot (config doc))[ix := x]\<rparr>\<rparr>"

definition FreeOptionValue :: "TidyDocImpl \<Rightarrow> TidyOptionImpl \<Rightarrow> TidyOptionValue \<Rightarrow> TidyDocImpl" where
  "FreeOptionValue doc option val =
     (if type option = TidyString \<and> get_p val \<noteq> None \<and> \<not> ptr_eq (get_p val) (pdflt option)
      then TidyDocFree doc (get_p val) else doc)"

definition CopyOptionValue ::
  "TidyDocImpl \<Rightarrow> TidyOptionImpl \<Rightarrow> TidyOptionValue \<Rightarrow> TidyOptionValue
     \<Rightarrow> TidyDocImpl \<times> TidyOptionValue" where
  "CopyOptionValue doc option oldval newval =
     (let doc1 = FreeOptionValue doc option oldval in
      if type option = TidyString then
        (if get_p newval \<noteq> None \<and> \<not> ptr_eq (get_p newval) (pdflt option)
         then (let (doc2, q) = tmbstrdup doc1 (deref (get_p newval)) in (doc2, Val_p q))
         else (doc1, Val_p (get_p newval)))
      else (doc1, Val_v (get_v newval)))"

text \<open>The setters return the status \<^verbatim>\<open>optId < N_TIDY_OPTIONS\<close>, which no caller in
  \<^verbatim>\<open>config.c\<close> reads; the functions here return the document.  The type assertions are
  compiled out of a release build.\<close>

definition SetOptionValue :: "TidyDocImpl \<Rightarrow> TidyOptionId \<Rightarrow> string option \<Rightarrow> TidyDocImpl" where
  "SetOptionValue doc optId val =
     (if optId < N_TIDY_OPTIONS then
        (let doc1 = FreeOptionValue doc (option_defs ! optId) (value' (config doc) ! optId) in
         if tmbstrlen val \<noteq> 0
         then (let (doc2, q) = tmbstrdup doc1 val in set_value doc2 optId (Val_p q))
         else set_value doc1 optId (Val_p None))
      else doc)"

definition SetOptionInt :: "TidyDocImpl \<Rightarrow> TidyOptionId \<Rightarrow> ulong \<Rightarrow> TidyDocImpl" where
  "SetOptionInt doc optId val =
     (if optId < N_TIDY_OPTIONS then set_value doc optId (Val_v val) else doc)"

definition SetOptionBool :: "TidyDocImpl \<Rightarrow> TidyOptionId \<Rightarrow> Bool \<Rightarrow> TidyDocImpl" where
  "SetOptionBool doc optId val =
     (if optId < N_TIDY_OPTIONS then set_value doc optId (Val_v (ucast val)) else doc)"

definition GetOptionDefault :: "TidyOptionImpl \<Rightarrow> TidyOptionValue" where
  "GetOptionDefault option =
     (if type option = TidyString then Val_p (pdflt option) else Val_v (dflt option))"

definition OptionValueEqDefault :: "TidyOptionImpl \<Rightarrow> TidyOptionValue \<Rightarrow> bool" where
  "OptionValueEqDefault option val =
     (if type option = TidyString then ptr_eq (get_p val) (pdflt option)
      else get_v val = dflt option)"

text \<open>The accessors \<^verbatim>\<open>cfg\<close>, \<^verbatim>\<open>cfgBool\<close>, \<^verbatim>\<open>cfgAutoBool\<close> and \<^verbatim>\<open>cfgStr\<close>
  (\<^verbatim>\<open>_cfgGet\<close>, \<^verbatim>\<open>_cfgGetBool\<close>, \<^verbatim>\<open>_cfgGetAutoBool\<close>, \<^verbatim>\<open>_cfgGetString\<close>).\<close>

definition cfg :: "TidyDocImpl \<Rightarrow> TidyOptionId \<Rightarrow> ulong" where
  "cfg doc optId = get_v (value' (config doc) ! optId)"

definition cfgBool :: "TidyDocImpl \<Rightarrow> TidyOptionId \<Rightarrow> Bool" where
  "cfgBool doc optId = ucast (cfg doc optId)"

definition cfgAutoBool :: "TidyDocImpl \<Rightarrow> TidyOptionId \<Rightarrow> uint" where
  "cfgAutoBool doc optId = ucast (cfg doc optId)"

definition cfgStr :: "TidyDocImpl \<Rightarrow> TidyOptionId \<Rightarrow> tmbstr" where
  "cfgStr doc optId = get_p (value' (config doc) ! optId)"

subsection \<open>The consistency pass\<close>

text \<open>\<^verbatim>\<open>AdjustConfig\<close> is a sequence of nine conditional statements.  Each is a function
  of its own here, named by its place in the sequence, and \<open>AdjustConfig\<close> runs them in
  the order of the source.\<close>

definition AdjustConfig_1 :: "TidyDocImpl \<Rightarrow> TidyDocImpl" where
  "AdjustConfig_1 doc =
     (if cfgBool doc TidyEncloseBlockText \<noteq> 0
      then SetOptionBool doc TidyEncloseBodyText yes else doc)"

definition AdjustConfig_2 :: "TidyDocImpl \<Rightarrow> TidyDocImpl" where
  "AdjustConfig_2 doc =
     (if cfgAutoBool doc TidyIndentContent = TidyNoState
      then SetOptionInt doc TidyIndentSpaces 0 else doc)"

text \<open>Disable wrapping.\<close>

definition AdjustConfig_3 :: "TidyDocImpl \<Rightarrow> TidyDocImpl" where
  "AdjustConfig_3 doc =
     (if cfg doc TidyWrapLen = 0 then SetOptionInt doc TidyWrapLen 0x7FFFFFFF else doc)"

text \<open>Word 2000 needs \<^verbatim>\<open>o:p\<close> to be declared as inline.\<close>

definition AdjustConfig_4 :: "TidyDocImpl \<Rightarrow> TidyDocImpl" where
  "AdjustConfig_4 doc =
     (if cfgBool doc TidyWord2000 \<noteq> 0
      then DefineTag
             (doc\<lparr>config := (config doc)
                \<lparr>defined_tags := defined_tags (config doc) OR tagtype_inline\<rparr>\<rparr>)
             tagtype_inline ''o:p''
      else doc)"

text \<open>Disable the XHTML output flag if both output-xhtml and xml input are set.\<close>

definition AdjustConfig_5 :: "TidyDocImpl \<Rightarrow> TidyDocImpl" where
  "AdjustConfig_5 doc =
     (if cfgBool doc TidyXmlTags \<noteq> 0 then SetOptionBool doc TidyXhtmlOut no else doc)"

text \<open>XHTML is written in lower case.\<close>

definition AdjustConfig_6 :: "TidyDocImpl \<Rightarrow> TidyDocImpl" where
  "AdjustConfig_6 doc =
     (if cfgBool doc TidyXhtmlOut \<noteq> 0
      then SetOptionInt
             (SetOptionBool (SetOptionBool doc TidyXmlOut yes) TidyUpperCaseTags no)
             TidyUpperCaseAttrs (ucast no)
      else doc)"

text \<open>If XML in, then XML out.\<close>

definition AdjustConfig_7 :: "TidyDocImpl \<Rightarrow> TidyDocImpl" where
  "AdjustConfig_7 doc =
     (if cfgBool doc TidyXmlTags \<noteq> 0
      then SetOptionBool (SetOptionBool doc TidyXmlOut yes) TidyXmlPIs yes
      else doc)"

text \<open>Generate the XML declaration if the output character encoding is Latin-1 etc.\<close>

definition AdjustConfig_8 :: "TidyDocImpl \<Rightarrow> TidyDocImpl" where
  "AdjustConfig_8 doc =
     (if cfg doc TidyOutCharEncoding \<noteq> word_of_int ASCII \<and>
         cfg doc TidyOutCharEncoding \<noteq> word_of_int UTF8 \<and>
         cfg doc TidyOutCharEncoding \<noteq> word_of_int UTF16 \<and>
         cfg doc TidyOutCharEncoding \<noteq> word_of_int UTF16BE \<and>
         cfg doc TidyOutCharEncoding \<noteq> word_of_int UTF16LE \<and>
         cfg doc TidyOutCharEncoding \<noteq> word_of_int RAW \<and>
         cfgBool doc TidyXmlOut \<noteq> 0
      then SetOptionBool doc TidyXmlDecl yes else doc)"

text \<open>XML requires end tags, and a BOM on output if using a UTF-16 encoding.\<close>

definition AdjustConfig_9 :: "TidyDocImpl \<Rightarrow> TidyDocImpl" where
  "AdjustConfig_9 doc =
     (if cfgBool doc TidyXmlOut \<noteq> 0
      then (let
             enc = cfg doc TidyOutCharEncoding;
             doc1 = (if enc = word_of_int UTF16LE \<or> enc = word_of_int UTF16BE
                        \<or> enc = word_of_int UTF16
                     then SetOptionInt doc TidyOutputBOM (ucast yes) else doc)
            in SetOptionBool (SetOptionBool doc1 TidyQuoteAmpersand yes)
                 TidyOmitOptionalTags no)
      else doc)"

definition AdjustConfig :: "TidyDocImpl \<Rightarrow> TidyDocImpl" where
  "AdjustConfig doc =
     AdjustConfig_9 (AdjustConfig_8 (AdjustConfig_7 (AdjustConfig_6 (AdjustConfig_5
       (AdjustConfig_4 (AdjustConfig_3 (AdjustConfig_2 (AdjustConfig_1 doc))))))))"


subsection \<open>Collaborators outside \<^verbatim>\<open>config.c\<close>\<close>

text \<open>Modelled from the spec: the character classes of \<^verbatim>\<open>lexer.c\<close>, which are those of
  ASCII.  White space is space, tab, carriage return, line feed and form feed; the last
  three are newlines.  \<^verbatim>\<open>EndOfStream\<close> is in no class.\<close>

definition IsWhite :: "tchar \<Rightarrow> bool" where
  "IsWhite x = (x = 32 \<or> x = 9 \<or> x = 13 \<or> x = 10 \<or> x = 12)"

definition IsNewline :: "tchar \<Rightarrow> bool" where
  "IsNewline x = (x = 13 \<or> x = 10 \<or> x = 12)"

definition IsDigit :: "tchar \<Rightarrow> bool" where
  "IsDigit x = (48 \<le> x \<and> x \<le> 57)"

definition ToLower :: "tchar \<Rightarrow> tchar" where
  "ToLower x = (if 65 \<le> x \<and> x \<le> 90 then x + 32 else x)"

text \<open>Modelled from the spec: \<^verbatim>\<open>tmbstrcasecmp\<close> and \<^verbatim>\<open>tmbstrcmp\<close> of \<^verbatim>\<open>tmbstr.c\<close>.  Only
  the comparison of the result with zero is used.\<close>

fun tmbstrcasecmp :: "string \<Rightarrow> string \<Rightarrow> int" where
  "tmbstrcasecmp [] [] = 0"
| "tmbstrcasecmp [] (y # ys) = - 1"
| "tmbstrcasecmp (x # xs) [] = 1"
| "tmbstrcasecmp (x # xs) (y # ys) =
     (if ToLower (of_char x) = ToLower (of_char y) then tmbstrcasecmp xs ys
      else if (of_char x :: nat) > of_char y then 1 else - 1)"

fun tmbstrcmp :: "string \<Rightarrow> string \<Rightarrow> int" where
  "tmbstrcmp [] [] = 0"
| "tmbstrcmp [] (y # ys) = - 1"
| "tmbstrcmp (x # xs) [] = 1"
| "tmbstrcmp (x # xs) (y # ys) =
     (if x = y then tmbstrcmp xs ys else if (of_char x :: nat) > of_char y then 1 else - 1)"

text \<open>A character array used as a string ends at its first NUL.\<close>

definition cstr :: "string \<Rightarrow> string" where
  "cstr buf = takeWhile (\<lambda>x. x \<noteq> CHR 0x00) buf"

text \<open>The functions of other files whose results \<^verbatim>\<open>config.c\<close> only passes on are
  parameters of the model: \<^verbatim>\<open>IsCSS1Selector\<close> of \<^verbatim>\<open>lexer.c\<close>,
  \<^verbatim>\<open>GetCharEncodingFromOptName\<close> of \<^verbatim>\<open>charsets.c\<close>, and \<^verbatim>\<open>BufferInput\<close> of
  \<^verbatim>\<open>streamio.c\<close>, here the characters that \<^verbatim>\<open>ReadChar\<close> delivers from a buffer attached
  to a string and its terminator.\<close>

record collaborators =
  IsCSS1Selector :: "string \<Rightarrow> bool"
  GetCharEncodingFromOptName :: "string \<Rightarrow> int"
  BufferInput :: "string \<Rightarrow> StreamIn"

subsection \<open>The tokenizer\<close>

definition GetC :: "TidyConfigImpl \<Rightarrow> tchar \<times> TidyConfigImpl" where
  "GetC cf =
     (case cfgIn cf of
        Some s \<Rightarrow> (let (x, s') = ReadChar s in (x, cf\<lparr>cfgIn := Some s'\<rparr>))
      | None \<Rightarrow> (EndOfStream, cf))"

text \<open>The statement \<^verbatim>\<open>config->c = GetC( config )\<close>.\<close>

definition c_GetC :: "TidyConfigImpl \<Rightarrow> TidyConfigImpl" where
  "c_GetC cf = (let (x, cf') = GetC cf in cf'\<lparr>ch := x\<rparr>)"

text \<open>The tokenizer functions return \<^verbatim>\<open>config->c\<close>; here they return the configuration,
  whose member \<open>ch\<close> is that character.\<close>

definition FirstChar :: "TidyConfigImpl \<Rightarrow> TidyConfigImpl" where
  "FirstChar cf = c_GetC cf"

definition AdvanceChar :: "TidyConfigImpl \<Rightarrow> TidyConfigImpl" where
  "AdvanceChar cf = (if ch cf \<noteq> EndOfStream then c_GetC cf else cf)"

text \<open>The measure of the tokenizer loops: what the stream still holds, and whether the
  current character is one more.\<close>

definition pending :: "TidyConfigImpl \<Rightarrow> nat" where
  "pending cf =
     2 * (case cfgIn cf of None \<Rightarrow> 0 | Some s \<Rightarrow> length s)
       + (if ch cf = EndOfStream then 0 else 1)"

lemma pending_c_GetC: "ch cf \<noteq> EndOfStream \<Longrightarrow> pending (c_GetC cf) < pending cf"
  by (auto simp: pending_def c_GetC_def GetC_def ReadChar_def split: option.splits list.splits)

lemma pending_AdvanceChar: "ch cf \<noteq> EndOfStream \<Longrightarrow> pending (AdvanceChar cf) < pending cf"
  by (simp add: AdvanceChar_def pending_c_GetC)

lemma IsWhite_not_EndOfStream [simp]: "\<not> IsWhite EndOfStream"
  by (simp add: IsWhite_def EndOfStream_def)

lemma IsDigit_not_EndOfStream [simp]: "\<not> IsDigit EndOfStream"
  by (simp add: IsDigit_def EndOfStream_def)

function SkipWhite :: "TidyConfigImpl \<Rightarrow> TidyConfigImpl" where
  "SkipWhite cf =
     (if IsWhite (ch cf) \<and> \<not> IsNewline (ch cf) then SkipWhite (c_GetC cf) else cf)"
  by pat_completeness auto
termination
  by (relation "measure pending") (auto intro: pending_c_GetC)

declare SkipWhite.simps [simp del]

text \<open>\<^verbatim>\<open>NextProperty\<close>: the inner loop skips to the end of the line, the outer loop
  repeats while the next line starts with white space.\<close>

function NextProperty_skip :: "TidyConfigImpl \<Rightarrow> TidyConfigImpl" where
  "NextProperty_skip cf =
     (if ch cf \<noteq> 10 \<and> ch cf \<noteq> 13 \<and> ch cf \<noteq> EndOfStream
      then NextProperty_skip (c_GetC cf) else cf)"
  by pat_completeness auto
termination
  by (relation "measure pending") (auto intro: pending_c_GetC)

declare NextProperty_skip.simps [simp del]

definition NextProperty_step :: "TidyConfigImpl \<Rightarrow> TidyConfigImpl" where
  "NextProperty_step cf =
     (let cf1 = NextProperty_skip cf;
          cf2 = (if ch cf1 = 13 then c_GetC cf1 else cf1);
          cf3 = (if ch cf2 = 10 then c_GetC cf2 else cf2)
      in cf3)"

lemma pending_NextProperty_skip:
  "pending (NextProperty_skip cf) \<le> pending cf"
proof (induction cf rule: NextProperty_skip.induct)
  case (1 cf)
  show ?case
  proof (cases "ch cf \<noteq> 10 \<and> ch cf \<noteq> 13 \<and> ch cf \<noteq> EndOfStream")
    case True
    with 1 have "pending (NextProperty_skip (c_GetC cf)) \<le> pending (c_GetC cf)" by simp
    moreover from True have "pending (c_GetC cf) < pending cf" by (simp add: pending_c_GetC)
    moreover from True have "NextProperty_skip cf = NextProperty_skip (c_GetC cf)"
      by (subst NextProperty_skip.simps) simp
    ultimately show ?thesis by simp
  next
    case False
    then have "NextProperty_skip cf = cf"
      by (subst NextProperty_skip.simps) (simp only: if_False)
    then show ?thesis by simp
  qed
qed

lemma ch_NextProperty_skip:
  "ch (NextProperty_skip cf) = 10 \<or> ch (NextProperty_skip cf) = 13
     \<or> ch (NextProperty_skip cf) = EndOfStream"
proof (induction cf rule: NextProperty_skip.induct)
  case (1 cf)
  show ?case
  proof (cases "ch cf \<noteq> 10 \<and> ch cf \<noteq> 13 \<and> ch cf \<noteq> EndOfStream")
    case True
    then have "NextProperty_skip cf = NextProperty_skip (c_GetC cf)"
      by (subst NextProperty_skip.simps) simp
    with 1 True show ?thesis by simp
  next
    case False
    then have "NextProperty_skip cf = cf"
      by (subst NextProperty_skip.simps) (simp only: if_False)
    with False show ?thesis by auto
  qed
qed

lemma pending_NextProperty_step:
  "IsWhite (ch (NextProperty_step cf)) \<Longrightarrow> pending (NextProperty_step cf) < pending cf"
proof -
  assume w: "IsWhite (ch (NextProperty_step cf))"
  define cf1 where "cf1 = NextProperty_skip cf"
  define cf2 where "cf2 = (if ch cf1 = 13 then c_GetC cf1 else cf1)"
  define cf3 where "cf3 = (if ch cf2 = 10 then c_GetC cf2 else cf2)"
  have s: "NextProperty_step cf = cf3"
    by (simp add: NextProperty_step_def cf1_def cf2_def cf3_def Let_def)
  have le1: "pending cf1 \<le> pending cf" by (simp add: cf1_def pending_NextProperty_skip)
  have c1: "ch cf1 = 10 \<or> ch cf1 = 13 \<or> ch cf1 = EndOfStream"
    using ch_NextProperty_skip [of cf] by (simp add: cf1_def)
  have E: "EndOfStream \<noteq> 10" "EndOfStream \<noteq> 13" by (simp_all add: EndOfStream_def)
  from c1 show ?thesis
  proof (elim disjE)
    assume "ch cf1 = 10"
    then have "cf2 = cf1" "cf3 = c_GetC cf1" by (simp_all add: cf2_def cf3_def)
    moreover have "pending (c_GetC cf1) < pending cf1"
      using \<open>ch cf1 = 10\<close> E by (intro pending_c_GetC) simp
    ultimately show ?thesis using le1 s by simp
  next
    assume a: "ch cf1 = 13"
    then have 2: "cf2 = c_GetC cf1" by (simp add: cf2_def)
    have lt: "pending cf2 < pending cf1" unfolding 2 using a E by (intro pending_c_GetC) simp
    have "pending cf3 \<le> pending cf2"
    proof (cases "ch cf2 = 10")
      case True
      then have "pending (c_GetC cf2) < pending cf2" using E by (intro pending_c_GetC) simp
      then show ?thesis using True by (simp add: cf3_def)
    next
      case False
      then show ?thesis by (simp add: cf3_def)
    qed
    then show ?thesis using lt le1 s by simp
  next
    assume "ch cf1 = EndOfStream"
    then have "cf3 = cf1" using E by (simp add: cf2_def cf3_def)
    then show ?thesis using w s \<open>ch cf1 = EndOfStream\<close> by simp
  qed
qed

function NextProperty :: "TidyConfigImpl \<Rightarrow> TidyConfigImpl" where
  "NextProperty cf =
     (let cf3 = NextProperty_step cf
      in if IsWhite (ch cf3) then NextProperty cf3 else cf3)"
  by pat_completeness auto
termination
  by (relation "measure pending") (auto intro: pending_NextProperty_step)

declare NextProperty.simps [simp del]


subsection \<open>The value parsers\<close>

text \<open>The parsers collect a token with loops of one shape,
  \<^verbatim>\<open>while ( i < bound && c != EndOfStream && !stop(c) ) { buf[i++] = (tmbchar) f(c); c = AdvanceChar( cfg ); }\<close>,
  which differ in the bound, in the characters that stop the token and in whether the
  character is lower-cased.  \<open>read_token\<close> is that loop; the list \<open>buf\<close> holds the
  characters \<^verbatim>\<open>buf[0]\<close> to \<^verbatim>\<open>buf[i-1]\<close>, so \<^verbatim>\<open>i\<close> is its length.\<close>

function read_token ::
  "nat \<Rightarrow> (tchar \<Rightarrow> bool) \<Rightarrow> (tchar \<Rightarrow> tchar) \<Rightarrow> TidyConfigImpl \<Rightarrow> string
     \<Rightarrow> TidyConfigImpl \<times> string" where
  "read_token bound stop f cf buf =
     (if length buf < bound \<and> ch cf \<noteq> EndOfStream \<and> \<not> stop (ch cf)
      then read_token bound stop f (AdvanceChar cf) (buf @ [char_of (f (ch cf))])
      else (cf, buf))"
  by pat_completeness auto
termination
  by (relation "measure (\<lambda>(bound, stop, f, cf, buf). pending cf)")
     (auto intro: pending_AdvanceChar)

declare read_token.simps [simp del]

text \<open>Unsigned integers.\<close>

function ParseInt_loop :: "TidyConfigImpl \<Rightarrow> ulong \<Rightarrow> bool \<Rightarrow> TidyConfigImpl \<times> ulong \<times> bool" where
  "ParseInt_loop cf number digits =
     (if IsDigit (ch cf)
      then ParseInt_loop (AdvanceChar cf) (of_nat (ch cf - 48) + 10 * number) True
      else (cf, number, digits))"
  by pat_completeness auto
termination
proof (relation "measure (\<lambda>(cf, number, digits). pending cf)")
  fix cf :: TidyConfigImpl and number :: ulong and digits :: bool
  assume "IsDigit (ch cf)"
  then have "ch cf \<noteq> EndOfStream" by auto
  then show "((AdvanceChar cf, of_nat (ch cf - 48) + 10 * number, True), cf, number, digits)
      \<in> measure (\<lambda>(cf, number, digits). pending cf)"
    by (simp add: pending_AdvanceChar)
qed simp

declare ParseInt_loop.simps [simp del]

definition ParseInt :: "TidyDocImpl \<Rightarrow> TidyOptionImpl \<Rightarrow> TidyDocImpl \<times> bool" where
  "ParseInt doc entry =
     (let (cf, number, digits) = ParseInt_loop (SkipWhite (config doc)) 0 False;
          doc1 = doc\<lparr>config := cf\<rparr>
      in if \<not> digits then (ReportBadArgument doc1 (name entry), False)
         else (SetOptionInt doc1 (id' entry) number, True))"

text \<open>A string excluding whitespace.\<close>

definition ParseName :: "TidyDocImpl \<Rightarrow> TidyOptionImpl \<Rightarrow> TidyDocImpl \<times> bool" where
  "ParseName doc option =
     (let (cf, buf) = read_token 1022 IsWhite id (SkipWhite (config doc)) [];
          doc1 = doc\<lparr>config := cf\<rparr>
      in if length buf = 0 then (ReportBadArgument doc1 (name option), False)
         else (SetOptionValue doc1 (id' option) (Some (cstr buf)), True))"

text \<open>CSS class naming for the clean option.\<close>

definition ParseCSS1Selector ::
  "collaborators \<Rightarrow> TidyDocImpl \<Rightarrow> TidyOptionImpl \<Rightarrow> TidyDocImpl \<times> bool" where
  "ParseCSS1Selector X doc option =
     (let (cf, buf) = read_token 254 IsWhite id (SkipWhite (config doc)) [];
          doc1 = doc\<lparr>config := cf\<rparr>
      in if length buf = 0 then (doc1, False)
         else if \<not> IsCSS1Selector X (cstr buf)
           then (ReportBadArgument doc1 (name option), False)
         else (SetOptionValue doc1 (id' option) (Some (cstr (buf @ ''-''))), True))"

text \<open>The engine behind the pick-list parsers.  The token is collected in the 16 bytes of
  \<^verbatim>\<open>work\<close>; a token of 16 characters leaves the array without a terminator, and the
  model compares those 16 characters.  The result is \<open>None\<close> when the null pick list of
  an option would be dereferenced; otherwise it is the document and, for \<^verbatim>\<open>yes\<close>, the
  index stored in \<^verbatim>\<open>*result\<close>.\<close>

fun GetParsePickListValue_search :: "string \<Rightarrow> PickListItem list \<Rightarrow> nat \<Rightarrow> nat option" where
  "GetParsePickListValue_search work [] ix = None"
| "GetParsePickListValue_search work (item # items) ix =
     (if list_ex (\<lambda>input. tmbstrcasecmp work input = 0) (inputs item) then Some ix
      else GetParsePickListValue_search work items (Suc ix))"

definition GetParsePickListValue ::
  "TidyDocImpl \<Rightarrow> TidyOptionImpl \<Rightarrow> (TidyDocImpl \<times> uint option) option" where
  "GetParsePickListValue doc entry =
     (let (cf, work) =
            read_token 16 (\<lambda>x. IsWhite x \<or> x = 13 \<or> x = 10) id (SkipWhite (config doc)) [];
          doc1 = doc\<lparr>config := cf\<rparr>
      in case pickList entry of
           None \<Rightarrow> None
         | Some items \<Rightarrow>
             (case GetParsePickListValue_search (cstr work) items 0 of
                Some ix \<Rightarrow> Some (doc1, Some (of_nat ix))
              | None \<Rightarrow> Some (ReportBadArgument doc1 (name entry), None)))"

text \<open>A general parser for anything using pick lists.\<close>

definition ParsePickList :: "TidyDocImpl \<Rightarrow> TidyOptionImpl \<Rightarrow> (TidyDocImpl \<times> bool) option" where
  "ParsePickList doc entry =
     (case GetParsePickListValue doc entry of
        None \<Rightarrow> None
      | Some (doc1, Some val) \<Rightarrow>
          Some (if type entry = TidyBoolean then SetOptionBool doc1 (id' entry) val
                else if type entry = TidyInteger then SetOptionInt doc1 (id' entry) (ucast val)
                else doc1, True)
      | Some (doc1, None) \<Rightarrow> Some (ReportBadArgument doc1 (name entry), False))"

text \<open>Tabs instead of spaces: sets the indent space count to 1 if on.\<close>

definition ParseTabs :: "TidyDocImpl \<Rightarrow> TidyOptionImpl \<Rightarrow> (TidyDocImpl \<times> bool) option" where
  "ParseTabs doc entry =
     (case GetParsePickListValue doc entry of
        None \<Rightarrow> None
      | Some (doc1, Some flag) \<Rightarrow>
          (let tabs = (if flag \<noteq> 0 then yes else no);
               doc2 = SetOptionBool doc1 (id' entry) tabs
           in Some (if tabs \<noteq> 0 then SetOptionInt doc2 TidyIndentSpaces 1 else doc2, True))
      | Some (doc1, None) \<Rightarrow> Some (doc1, False))"

text \<open>Coordinates the configuration update and the tag dictionary.\<close>

fun tmbstrndup :: "TidyDocImpl \<Rightarrow> string option \<Rightarrow> nat \<Rightarrow> TidyDocImpl \<times> tmbstr" where
  "tmbstrndup doc None n = (doc, None)"
| "tmbstrndup doc (Some s) n =
     (doc\<lparr>allocator := Suc (allocator doc)\<rparr>, Some (Suc (allocator doc), take n s))"

definition DeclareUserTag ::
  "TidyDocImpl \<Rightarrow> TidyOptionId \<Rightarrow> UserTagType \<Rightarrow> string \<Rightarrow> TidyDocImpl" where
  "DeclareUserTag doc optId tagType nm =
     (case deref (cfgStr doc optId) of
        Some prvval \<Rightarrow>
          (let len = length nm + length prvval + 3;
               (doc1, catval) = tmbstrndup doc (Some prvval) len;
               theval = take len prvval @ '', '' @ nm;
               doc2 = DefineTag doc1 tagType nm;
               doc3 = SetOptionValue doc2 optId (Some theval)
           in TidyDocFree doc3 catval)
      | None \<Rightarrow> SetOptionValue (DefineTag doc tagType nm) optId (Some nm))"


text \<open>A space or comma separated list of tag names.  One run of the body of the
  \<^verbatim>\<open>do ... while\<close> loop yields whether it left by \<^verbatim>\<open>break\<close>, and the document, the
  buffer and the count of tags.\<close>

definition ParseTagNames_body ::
  "TidyOptionImpl \<Rightarrow> UserTagType \<Rightarrow> TidyDocImpl \<times> string \<times> uint
     \<Rightarrow> bool \<times> TidyDocImpl \<times> string \<times> uint" where
  "ParseTagNames_body option ttyp st =
     (case st of (doc, buf, nTags) \<Rightarrow>
        (let cf = config doc; c = ch cf in
         if c = 32 \<or> c = 9 \<or> c = 44
         then (False, doc\<lparr>config := AdvanceChar cf\<rparr>, buf, nTags)
         else
           (let cf1 = (if c = 13 \<or> c = 10
                       then (let cfa = AdvanceChar cf
                             in if c = 13 \<and> ch cfa = 10 then AdvanceChar cfa else cfa)
                       else cf)
            in if (c = 13 \<or> c = 10) \<and> \<not> IsWhite (ch cf1)
               then (True,
                     doc\<lparr>config := cf1\<lparr>cfgIn :=
                            map_option (\<lambda>s. UngetChar 10 (UngetChar (ch cf1) s)) (cfgIn cf1)\<rparr>\<rparr>,
                     buf, nTags)
               else
                 (let (cf2, buf2) = read_token 1022 (\<lambda>x. IsWhite x \<or> x = 44) id cf1 buf;
                      doc2 = doc\<lparr>config := cf2\<rparr>
                  in if length buf2 = 0 then (False, doc2, buf2, nTags)
                     else (False, DeclareUserTag doc2 (id' option) ttyp (cstr buf2), [],
                           nTags + 1)))))"

text \<open>The loop need not end: a form feed is white space that no branch of the body
  consumes.\<close>

partial_function (option) ParseTagNames_loop ::
  "TidyOptionImpl \<Rightarrow> UserTagType \<Rightarrow> TidyDocImpl \<times> string \<times> uint
     \<Rightarrow> (TidyDocImpl \<times> string \<times> uint) option" where
  "ParseTagNames_loop option ttyp st =
     (case ParseTagNames_body option ttyp st of
        (brk, st1) \<Rightarrow>
          if brk then Some st1
          else if ch (config (fst st1)) \<noteq> EndOfStream then ParseTagNames_loop option ttyp st1
          else Some st1)"

definition ParseTagNames_ttyp :: "TidyDocImpl \<Rightarrow> TidyOptionImpl \<Rightarrow> UserTagType option" where
  "ParseTagNames_ttyp doc option =
     (if id' option = TidyInlineTags then Some tagtype_inline
      else if id' option = TidyBlockTags then Some tagtype_block
      else if id' option = TidyEmptyTags then Some tagtype_empty
      else if id' option = TidyPreTags then Some tagtype_pre
      else if id' option = TidyCustomTags then Some (ucast (cfg doc TidyUseCustomTags))
      else None)"

definition ParseTagNames :: "TidyDocImpl \<Rightarrow> TidyOptionImpl \<Rightarrow> (TidyDocImpl \<times> bool) option" where
  "ParseTagNames doc option =
     (let doc0 = doc\<lparr>config := SkipWhite (config doc)\<rparr> in
      case ParseTagNames_ttyp doc0 option of
        None \<Rightarrow> Some (ReportUnknownOption doc0 (name option), False)
      | Some ttyp \<Rightarrow>
          (let doc1 = SetOptionValue doc0 (id' option) None;
               doc2 = FreeDeclaredTags doc1 ttyp;
               doc3 = doc2\<lparr>config := (config doc2)
                        \<lparr>defined_tags := defined_tags (config doc2) OR ttyp\<rparr>\<rparr>
           in case ParseTagNames_loop option ttyp (doc3, [], 0) of
                None \<Rightarrow> None
              | Some (doc4, buf, nTags) \<Rightarrow>
                  Some (if length buf > 0
                        then DeclareUserTag doc4 (id' option) ttyp (cstr buf) else doc4,
                        nTags \<noteq> 0)))"

text \<open>A string including whitespace.  The local \<^verbatim>\<open>c\<close> differs from \<^verbatim>\<open>config->c\<close> only
  between \<^verbatim>\<open>c = ' '\<close> and the next \<^verbatim>\<open>AdvanceChar\<close>, where the space is stored.\<close>

function ParseString_loop ::
  "TidyConfigImpl \<Rightarrow> tchar \<Rightarrow> bool \<Rightarrow> string \<Rightarrow> TidyConfigImpl \<times> string" where
  "ParseString_loop cf delim waswhite buf =
     (if length buf < 8190 \<and> ch cf \<noteq> EndOfStream \<and> ch cf \<noteq> 13 \<and> ch cf \<noteq> 10 then
        (if delim \<noteq> 0 \<and> ch cf = delim then (cf, buf)
         else if IsWhite (ch cf) then
           (if waswhite then ParseString_loop (AdvanceChar cf) delim waswhite buf
            else ParseString_loop (AdvanceChar cf) delim waswhite (buf @ [char_of (32 :: nat)]))
         else ParseString_loop (AdvanceChar cf) delim False (buf @ [char_of (ch cf)]))
      else (cf, buf))"
  by pat_completeness auto
termination
  by (relation "measure (\<lambda>(cf, delim, waswhite, buf). pending cf)")
     (auto intro: pending_AdvanceChar)

declare ParseString_loop.simps [simp del]

text \<open>The part of \<^verbatim>\<open>ParseString\<close> before \<^verbatim>\<open>SetOptionValue\<close>, which the configuration-file
  parser repeats for the option callbacks: the configuration after the scan and the
  buffer.\<close>

definition ParseString_scan :: "TidyConfigImpl \<Rightarrow> TidyConfigImpl \<times> string" where
  "ParseString_scan cf0 =
     (let cf = SkipWhite cf0 in
      if ch cf = 34 \<or> ch cf = 39
      then ParseString_loop (AdvanceChar cf) (ch cf) True []
      else ParseString_loop cf 0 True [])"

definition ParseString :: "TidyDocImpl \<Rightarrow> TidyOptionImpl \<Rightarrow> TidyDocImpl \<times> bool" where
  "ParseString doc option =
     (let (cf, buf) = ParseString_scan (config doc)
      in (SetOptionValue (doc\<lparr>config := cf\<rparr>) (id' option) (Some (cstr buf)), True))"

text \<open>Ensure that char encodings are self consistent.\<close>

definition AdjustCharEncoding :: "TidyDocImpl \<Rightarrow> int \<Rightarrow> TidyDocImpl \<times> bool" where
  "AdjustCharEncoding doc encoding =
     (let (inenc, outenc) =
        (if encoding = MACROMAN then (MACROMAN, ASCII)
         else if encoding = WIN1252 then (WIN1252, ASCII)
         else if encoding = IBM858 then (IBM858, ASCII)
         else if encoding = ASCII then (LATIN1, ASCII)
         else if encoding = LATIN0 then (LATIN0, ASCII)
         else if encoding = RAW \<or> encoding = LATIN1 \<or> encoding = UTF8
                 \<or> encoding = ISO2022 \<or> encoding = UTF16LE \<or> encoding = UTF16BE
                 \<or> encoding = UTF16 \<or> encoding = SHIFTJIS \<or> encoding = BIG5
           then (encoding, encoding)
         else (- 1, - 1))
      in if inenc \<ge> 0
         then (SetOptionInt
                 (SetOptionInt (SetOptionInt doc TidyCharEncoding (word_of_int encoding))
                    TidyInCharEncoding (word_of_int inenc))
                 TidyOutCharEncoding (word_of_int outenc), True)
         else (doc, False))"

definition CharEncodingId :: "collaborators \<Rightarrow> string \<Rightarrow> int" where
  "CharEncodingId X charenc = GetCharEncodingFromOptName X charenc"

definition ParseCharEnc ::
  "collaborators \<Rightarrow> TidyDocImpl \<Rightarrow> TidyOptionImpl \<Rightarrow> TidyDocImpl \<times> bool" where
  "ParseCharEnc X doc option =
     (let (cf, buf) = read_token 62 IsWhite ToLower (SkipWhite (config doc)) [];
          doc1 = doc\<lparr>config := cf\<rparr>;
          enc = CharEncodingId X (cstr buf)
      in if enc < 0 then (ReportBadArgument doc1 (name option), False)
         else (let doc2 = SetOptionInt doc1 (id' option) (word_of_int enc)
               in if id' option = TidyCharEncoding
                  then (fst (AdjustCharEncoding doc2 enc), True)
                  else (doc2, True)))"

text \<open>\<^verbatim>\<open>doctype: html5 | omit | auto | strict | loose | <fpi>\<close>.\<close>

definition ParseDocType :: "TidyDocImpl \<Rightarrow> TidyOptionImpl \<Rightarrow> (TidyDocImpl \<times> bool) option" where
  "ParseDocType doc option =
     (let doc0 = doc\<lparr>config := SkipWhite (config doc)\<rparr>; c = ch (config doc0) in
      if c = 34 \<or> c = 39 then
        (let (doc1, status) = ParseString doc0 option
         in Some (if status then SetOptionInt doc1 TidyDoctypeMode (ucast TidyDoctypeUser)
                  else doc1, status))
      else
        (case GetParsePickListValue doc0 option of
           None \<Rightarrow> None
         | Some (doc1, Some val) \<Rightarrow> Some (SetOptionInt doc1 TidyDoctypeMode (ucast val), True)
         | Some (doc1, None) \<Rightarrow> Some (ReportBadArgument doc1 (name option), False)))"

text \<open>The call \<^verbatim>\<open>option->parser( doc, option )\<close> through a non-null pointer.  \<open>None\<close> is a
  call that does not return.\<close>

definition call_parser ::
  "collaborators \<Rightarrow> ParseProperty \<Rightarrow> TidyDocImpl \<Rightarrow> TidyOptionImpl
     \<Rightarrow> (TidyDocImpl \<times> bool) option" where
  "call_parser X p doc option =
     (case p of
        ParseInt_fn \<Rightarrow> Some (ParseInt doc option)
      | ParseName_fn \<Rightarrow> Some (ParseName doc option)
      | ParseCSS1Selector_fn \<Rightarrow> Some (ParseCSS1Selector X doc option)
      | ParseString_fn \<Rightarrow> Some (ParseString doc option)
      | ParseTagNames_fn \<Rightarrow> ParseTagNames doc option
      | ParseCharEnc_fn \<Rightarrow> Some (ParseCharEnc X doc option)
      | ParseDocType_fn \<Rightarrow> ParseDocType doc option
      | ParseTabs_fn \<Rightarrow> ParseTabs doc option
      | ParsePickList_fn \<Rightarrow> ParsePickList doc option)"


subsection \<open>Looking options up and parsing one value\<close>

definition lookupOption :: "string \<Rightarrow> TidyOptionImpl option" where
  "lookupOption s = List.find (\<lambda>np. tmbstrcasecmp s (name np) = 0) option_defs"

definition getOption :: "TidyOptionId \<Rightarrow> TidyOptionImpl option" where
  "getOption optId = (if optId < N_TIDY_OPTIONS then Some (option_defs ! optId) else None)"

text \<open>The \<^verbatim>\<open>%u\<close> conversion of \<^verbatim>\<open>tmbsnprintf\<close>.\<close>

function decimal :: "nat \<Rightarrow> string" where
  "decimal n = (if n < 10 then [char_of (48 + n)]
                else decimal (n div 10) @ [char_of (48 + n mod 10)])"
  by pat_completeness auto
termination
  by (relation "measure id") auto

declare decimal.simps [simp del]

text \<open>\<^verbatim>\<open>ParseConfigValue\<close> returns false if the option is unknown, has a null parser, or the
  value is missing.  \<open>optval\<close> is \<open>None\<close> for a null pointer.\<close>

definition ParseConfigValue ::
  "collaborators \<Rightarrow> TidyDocImpl \<Rightarrow> TidyOptionId \<Rightarrow> string option
     \<Rightarrow> (TidyDocImpl \<times> bool) option" where
  "ParseConfigValue X doc optId optval =
     (if optId < N_TIDY_OPTIONS then
        (let option = option_defs ! optId in
         case (parser option, optval) of
           (Some p, Some val) \<Rightarrow>
             (let doc1 = doc\<lparr>config :=
                           c_GetC ((config doc)\<lparr>cfgIn := Some (BufferInput X val)\<rparr>)\<rparr>
              in case call_parser X p doc1 option of
                   None \<Rightarrow> None
                 | Some (doc2, status) \<Rightarrow>
                     Some (doc2\<lparr>config := (config doc2)\<lparr>cfgIn := None\<rparr>\<rparr>, status))
         | _ \<Rightarrow> Some (ReportBadArgument doc (name option), False))
      else Some (ReportUnknownOption doc (decimal optId), False))"

definition ParseConfigOption ::
  "collaborators \<Rightarrow> TidyDocImpl \<Rightarrow> string \<Rightarrow> string option \<Rightarrow> (TidyDocImpl \<times> bool) option" where
  "ParseConfigOption X doc optnam optval =
     (case lookupOption optnam of
        None \<Rightarrow>
          (let status = (case pOptCallback doc of
                           Some cb \<Rightarrow> cb optnam (case optval of Some val \<Rightarrow> val | None \<Rightarrow> [])
                         | None \<Rightarrow> False)
           in Some (if \<not> status then ReportUnknownOption doc optnam else doc, status))
      | Some option \<Rightarrow> ParseConfigValue X doc (id' option) optval)"

subsection \<open>Defaults, snapshots and tag declarations\<close>

definition ResetOptionToDefault :: "TidyDocImpl \<Rightarrow> TidyOptionId \<Rightarrow> TidyDocImpl \<times> bool" where
  "ResetOptionToDefault doc optId =
     (if optId > 0 \<and> optId < N_TIDY_OPTIONS then
        (let option = option_defs ! optId;
             (doc1, x) = CopyOptionValue doc option (value' (config doc) ! optId)
                           (GetOptionDefault option)
         in (set_value doc1 optId x, True))
      else (doc, False))"

definition ReparseTagType ::
  "collaborators \<Rightarrow> TidyDocImpl \<Rightarrow> TidyOptionId \<Rightarrow> TidyDocImpl option" where
  "ReparseTagType X doc optId =
     (let tagdecl = cfgStr doc optId;
          (doc1, dupdecl) = tmbstrdup doc (deref tagdecl)
      in case ParseConfigValue X doc1 optId (deref dupdecl) of
           None \<Rightarrow> None
         | Some (doc2, status) \<Rightarrow> Some (TidyDocFree doc2 dupdecl))"

definition OptionValueIdentical ::
  "TidyOptionImpl \<Rightarrow> TidyOptionValue \<Rightarrow> TidyOptionValue \<Rightarrow> bool" where
  "OptionValueIdentical option val1 val2 =
     (if type option = TidyString then
        (if ptr_eq (get_p val1) (get_p val2) then True
         else case (deref (get_p val1), deref (get_p val2)) of
                (Some s1, Some s2) \<Rightarrow> tmbstrcmp s1 s2 = 0
              | _ \<Rightarrow> False)
      else get_v val1 = get_v val2)"

text \<open>The loop over all options with its \<^verbatim>\<open>switch\<close>; the result is the returned flag and
  \<^verbatim>\<open>*changedUserTags\<close>.\<close>

definition NeedReparseTagDecls ::
  "TidyOptionValue list \<Rightarrow> TidyOptionValue list \<Rightarrow> bool \<times> uint" where
  "NeedReparseTagDecls current new =
     fold (\<lambda>ixVal (ret, changedUserTags).
             (let option = option_defs ! ixVal;
                  TEST_USERTAGS = (\<lambda>USERTAGTYPE.
                    if \<not> OptionValueIdentical option (current ! ixVal) (new ! ixVal)
                    then (True, changedUserTags OR USERTAGTYPE)
                    else (ret, changedUserTags))
              in if id' option = TidyInlineTags then TEST_USERTAGS tagtype_inline
                 else if id' option = TidyBlockTags then TEST_USERTAGS tagtype_block
                 else if id' option = TidyEmptyTags then TEST_USERTAGS tagtype_empty
                 else if id' option = TidyPreTags then TEST_USERTAGS tagtype_pre
                 else (ret, changedUserTags)))
       [0..<N_TIDY_OPTIONS] (False, tagtype_null)"

definition REPARSE_USERTAGS ::
  "collaborators \<Rightarrow> uint \<Rightarrow> TidyOptionId \<Rightarrow> UserTagType \<Rightarrow> TidyDocImpl \<Rightarrow> TidyDocImpl option" where
  "REPARSE_USERTAGS X changedUserTags USERTAGOPTION USERTAGTYPE doc =
     (if changedUserTags AND USERTAGTYPE \<noteq> 0
      then ReparseTagType X (FreeDeclaredTags doc USERTAGTYPE) USERTAGOPTION
      else Some doc)"

definition ReparseTagDecls :: "collaborators \<Rightarrow> TidyDocImpl \<Rightarrow> uint \<Rightarrow> TidyDocImpl option" where
  "ReparseTagDecls X doc changedUserTags =
     Option.bind (REPARSE_USERTAGS X changedUserTags TidyInlineTags tagtype_inline doc)
       (\<lambda>doc1. Option.bind (REPARSE_USERTAGS X changedUserTags TidyBlockTags tagtype_block doc1)
         (\<lambda>doc2. Option.bind (REPARSE_USERTAGS X changedUserTags TidyEmptyTags tagtype_empty doc2)
           (\<lambda>doc3. REPARSE_USERTAGS X changedUserTags TidyPreTags tagtype_pre doc3)))"

text \<open>The three loops over all options copy one array, or the defaults, into another.
  Each loop body is a function of the index \<^verbatim>\<open>ixVal\<close> and the document.\<close>

definition ResetConfigToDefault_body :: "nat \<Rightarrow> TidyDocImpl \<Rightarrow> TidyDocImpl" where
  "ResetConfigToDefault_body ixVal doc =
     (let option = option_defs ! ixVal;
          (doc1, x) = CopyOptionValue doc option (value' (config doc) ! ixVal)
                        (GetOptionDefault option)
      in set_value doc1 ixVal x)"

definition ResetConfigToDefault :: "TidyDocImpl \<Rightarrow> TidyDocImpl" where
  "ResetConfigToDefault doc =
     FreeDeclaredTags (fold ResetConfigToDefault_body [0..<N_TIDY_OPTIONS] doc) tagtype_null"

definition TakeConfigSnapshot_body :: "nat \<Rightarrow> TidyDocImpl \<Rightarrow> TidyDocImpl" where
  "TakeConfigSnapshot_body ixVal doc =
     (let option = option_defs ! ixVal;
          (doc1, x) = CopyOptionValue doc option (snapshot (config doc) ! ixVal)
                        (value' (config doc) ! ixVal)
      in set_snapshot doc1 ixVal x)"

definition TakeConfigSnapshot :: "TidyDocImpl \<Rightarrow> TidyDocImpl" where
  "TakeConfigSnapshot doc =
     fold TakeConfigSnapshot_body [0..<N_TIDY_OPTIONS] (AdjustConfig doc)"

definition ResetConfigToSnapshot_body :: "nat \<Rightarrow> TidyDocImpl \<Rightarrow> TidyDocImpl" where
  "ResetConfigToSnapshot_body ixVal doc =
     (let option = option_defs ! ixVal;
          (doc1, x) = CopyOptionValue doc option (value' (config doc) ! ixVal)
                        (snapshot (config doc) ! ixVal)
      in set_value doc1 ixVal x)"

definition ResetConfigToSnapshot :: "collaborators \<Rightarrow> TidyDocImpl \<Rightarrow> TidyDocImpl option" where
  "ResetConfigToSnapshot X doc =
     (let (needReparseTagsDecls, changedUserTags) =
            NeedReparseTagDecls (value' (config doc)) (snapshot (config doc));
          doc1 = fold ResetConfigToSnapshot_body [0..<N_TIDY_OPTIONS] doc
      in if needReparseTagsDecls then ReparseTagDecls X doc1 changedUserTags else Some doc1)"

text \<open>\<^verbatim>\<open>InitConfig\<close> clears the memory of the configuration, which leaves every slot with
  all bits zero, and resets it to the defaults.\<close>

definition InitConfig :: "TidyDocImpl \<Rightarrow> TidyDocImpl" where
  "InitConfig doc =
     ResetConfigToDefault
       (doc\<lparr>config := \<lparr>value' = replicate N_TIDY_OPTIONS (Val_v 0),
                        snapshot = replicate N_TIDY_OPTIONS (Val_v 0),
                        defined_tags = 0, ch = 0, cfgIn = None\<rparr>\<rparr>)"

definition FreeConfig :: "TidyDocImpl \<Rightarrow> TidyDocImpl" where
  "FreeConfig doc = TakeConfigSnapshot (ResetConfigToDefault doc)"

subsection \<open>Parsing a configuration file\<close>

text \<open>One run of the body of the \<^verbatim>\<open>for\<close> loop of \<^verbatim>\<open>ParseConfigFileEnc\<close>, entered with a
  current character other than \<^verbatim>\<open>EndOfStream\<close>.  \<open>None\<close>: the call through a null
  \<^verbatim>\<open>parser\<close> pointer, or a parser that does not return.\<close>

definition ParseConfigFile_body :: "collaborators \<Rightarrow> TidyDocImpl \<Rightarrow> TidyDocImpl option" where
  "ParseConfigFile_body X doc =
     (let c = ch (config doc) in
      if c = 47 \<or> c = 35 then Some doc
      else
        (let (cf1, nm) = read_token 63 (\<lambda>x. x = 10 \<or> x = 58) id (config doc) [];
             doc1 = doc\<lparr>config := cf1\<rparr>
         in if ch cf1 = 58 then
              (let doc2 = doc1\<lparr>config := AdvanceChar cf1\<rparr> in
               case lookupOption (cstr nm) of
                 Some option \<Rightarrow>
                   (case parser option of
                      None \<Rightarrow> None
                    | Some p \<Rightarrow> map_option fst (call_parser X p doc2 option))
               | None \<Rightarrow>
                   if pOptCallback doc2 \<noteq> None \<or> pConfigCallback doc2 \<noteq> None then
                     (let (cf3, buf) = ParseString_scan (config doc2);
                          doc3 = doc2\<lparr>config := cf3\<rparr>;
                          response = (case pOptCallback doc3 of
                                        Some cb \<Rightarrow> cb (cstr nm) (cstr buf) | None \<Rightarrow> True);
                          response1 = (case pConfigCallback doc3 of
                                         Some cb \<Rightarrow> response \<and> cb (cstr nm) (cstr buf)
                                       | None \<Rightarrow> response)
                      in Some (if \<not> response1 then ReportUnknownOption doc3 (cstr nm)
                               else doc3))
                   else Some (ReportUnknownOption doc2 (cstr nm)))
            else Some doc1))"

partial_function (option) ParseConfigFile_loop ::
  "collaborators \<Rightarrow> TidyDocImpl \<Rightarrow> TidyDocImpl option" where
  "ParseConfigFile_loop X doc =
     (if ch (config doc) \<noteq> EndOfStream then
        (case ParseConfigFile_body X doc of
           None \<Rightarrow> None
         | Some doc1 \<Rightarrow> ParseConfigFile_loop X (doc1\<lparr>config := NextProperty (config doc1)\<rparr>))
      else Some doc)"

text \<open>\<^verbatim>\<open>ParseConfigFileEnc\<close>.  \<open>fin\<close> is the stream that \<^verbatim>\<open>fopen\<close> and \<^verbatim>\<open>FileInput\<close> give
  for the file, \<open>None\<close> when the file cannot be opened.  The result is the document and
  the returned status.\<close>

definition ParseConfigFileEnc ::
  "collaborators \<Rightarrow> TidyDocImpl \<Rightarrow> StreamIn option \<Rightarrow> string \<Rightarrow> (TidyDocImpl \<times> int) option" where
  "ParseConfigFileEnc X doc fin charenc =
     (let opterrs = optionErrors doc;
          enc = CharEncodingId X charenc
      in if fin = None \<or> enc < 0 then Some (ReportFileError doc, - 1)
         else
           (let doc1 = doc\<lparr>config := SkipWhite (FirstChar ((config doc)\<lparr>cfgIn := fin\<rparr>))\<rparr>
            in case ParseConfigFile_loop X doc1 of
                 None \<Rightarrow> None
               | Some doc2 \<Rightarrow>
                   (let doc3 = AdjustConfig (doc2\<lparr>config := (config doc2)\<lparr>cfgIn := None\<rparr>\<rparr>)
                    in Some (doc3, if optionErrors doc3 > opterrs then 1 else 0))))"

definition ParseConfigFile ::
  "collaborators \<Rightarrow> TidyDocImpl \<Rightarrow> StreamIn option \<Rightarrow> (TidyDocImpl \<times> int) option" where
  "ParseConfigFile X doc fin = ParseConfigFileEnc X doc fin ''ascii''"

subsection \<open>Comparing with the snapshot and with the defaults\<close>

text \<open>\<^verbatim>\<open>ConfigDiffThanSnapshot\<close> compares the first \<^verbatim>\<open>N_TIDY_OPTIONS * sizeof(uint)\<close> bytes of
  the two arrays with \<^verbatim>\<open>memcmp\<close>.  A slot is eight bytes, least significant first; a
  string slot holds the address.\<close>

definition slot_bytes :: "TidyOptionValue \<Rightarrow> 8 word list" where
  "slot_bytes x = map (\<lambda>k. ucast (drop_bit (8 * k) (get_v x))) [0..<8]"

definition memcmp :: "8 word list \<Rightarrow> 8 word list \<Rightarrow> nat \<Rightarrow> bool" where
  "memcmp a b n = (take n a \<noteq> take n b)"

definition ConfigDiffThanSnapshot :: "TidyDocImpl \<Rightarrow> bool" where
  "ConfigDiffThanSnapshot doc =
     memcmp (concat (map slot_bytes (value' (config doc))))
            (concat (map slot_bytes (snapshot (config doc))))
            (N_TIDY_OPTIONS * 4)"

text \<open>\<^verbatim>\<open>ConfigDiffThanDefault\<close> starts \<^verbatim>\<open>option\<close> at \<^verbatim>\<open>option_defs + 1\<close> and \<^verbatim>\<open>val\<close> at
  \<^verbatim>\<open>doc->config.value\<close>, and steps both until \<^verbatim>\<open>option->name\<close> is null: in step \<open>k\<close> it
  compares row \<open>k + 1\<close> of the table with slot \<open>k\<close>.\<close>

definition ConfigDiffThanDefault :: "TidyDocImpl \<Rightarrow> bool" where
  "ConfigDiffThanDefault doc =
     fold (\<lambda>k diff. if \<not> diff
                     then \<not> OptionValueEqDefault (option_defs ! (k + 1)) (value' (config doc) ! k)
                     else diff)
       [0..<N_TIDY_OPTIONS - 1] False"


section \<open>Properties\<close>

subsection \<open>Documents used as concrete inputs\<close>

text \<open>A document whose configuration has just been initialised, and nothing else set.\<close>

definition new_doc :: TidyDocImpl where
  "new_doc =
     InitConfig
       \<lparr>config = \<lparr>value' = [], snapshot = [], defined_tags = 0, ch = 0, cfgIn = None\<rparr>,
        optionErrors = 0, allocator = 0, pOptCallback = None, pConfigCallback = None,
        declared_tags = [], messages = []\<rparr>"

text \<open>The arrays \<^verbatim>\<open>value\<close> and \<^verbatim>\<open>snapshot\<close> have \<^verbatim>\<open>N_TIDY_OPTIONS\<close> elements.\<close>

definition config_sized :: "TidyDocImpl \<Rightarrow> bool" where
  "config_sized doc =
     (length (value' (config doc)) = N_TIDY_OPTIONS \<and>
      length (snapshot (config doc)) = N_TIDY_OPTIONS)"

text \<open>Stand-ins for the collaborators, for concrete inputs: every token is a CSS1
  selector, an encoding name is looked up in \<open>charEncPicks\<close> (whose positions are the
  encoding identifiers), and a buffer delivers the characters of its string.\<close>

definition sample_collaborators :: collaborators where
  "sample_collaborators =
     \<lparr>IsCSS1Selector = (\<lambda>s. True),
      GetCharEncodingFromOptName =
        (\<lambda>s. case GetParsePickListValue_search s charEncPicks 0 of
                Some ix \<Rightarrow> int ix | None \<Rightarrow> - 1),
      BufferInput = map of_char\<rparr>"

text \<open>A document whose value to parse is empty: the stream is at its end.\<close>

definition empty_input :: "TidyDocImpl \<Rightarrow> TidyDocImpl" where
  "empty_input doc = doc\<lparr>config := (config doc)\<lparr>ch := EndOfStream, cfgIn := Some []\<rparr>\<rparr>"

text \<open>A configuration file of two lines, \<^verbatim>\<open>foo: 1\<close> and \<^verbatim>\<open>wrap: 72\<close>.\<close>

definition sample_file :: StreamIn where
  "sample_file = map of_char (''foo: 1'' @ [CHR 0x0A] @ ''wrap: 72'' @ [CHR 0x0A])"

text \<open>The document when the loop of \<^verbatim>\<open>ParseConfigFileEnc\<close> starts on that file.\<close>

definition sample_doc :: TidyDocImpl where
  "sample_doc =
     new_doc\<lparr>config := SkipWhite (FirstChar ((config new_doc)\<lparr>cfgIn := Some sample_file\<rparr>))\<rparr>"

text \<open>The value of an option as its accessors read it: the number of an integer or
  boolean option, the characters of a string option or \<open>None\<close> for its null pointer.\<close>

definition option_value :: "TidyOptionImpl \<Rightarrow> TidyOptionValue \<Rightarrow> ulong + string option" where
  "option_value option val =
     (if type option = TidyString then Inr (deref (get_p val)) else Inl (get_v val))"

text \<open>The characters of a string option, \<open>None\<close> for its null pointer.\<close>

definition option_text :: "TidyOptionId \<Rightarrow> TidyDocImpl \<Rightarrow> string option" where
  "option_text optId doc = deref (cfgStr doc optId)"

text \<open>\<open>y\<close> is what some call of \<^verbatim>\<open>CopyOptionValue\<close> stores for the new value \<open>new\<close>.\<close>

definition is_copy :: "TidyOptionImpl \<Rightarrow> TidyOptionValue \<Rightarrow> TidyOptionValue \<Rightarrow> bool" where
  "is_copy opt new y = (\<exists>d old. y = snd (CopyOptionValue d opt old new))"

text \<open>What the tokenizer must leave alone: the two arrays and the tag bits.\<close>

definition store :: "TidyConfigImpl \<Rightarrow> TidyOptionValue list \<times> TidyOptionValue list \<times> uint" where
  "store cf = (value' cf, snapshot cf, defined_tags cf)"

subsection \<open>Reading the option values\<close>

definition vals :: "TidyDocImpl \<Rightarrow> TidyOptionValue list" where
  "vals doc = value' (config doc)"

definition snaps :: "TidyDocImpl \<Rightarrow> TidyOptionValue list" where
  "snaps doc = snapshot (config doc)"

definition truthy :: "TidyOptionValue \<Rightarrow> bool" where
  "truthy x = ((ucast (get_v x) :: Bool) \<noteq> 0)"

definition enc8 :: "TidyOptionValue \<Rightarrow> bool" where
  "enc8 x =
     (get_v x \<noteq> word_of_int ASCII \<and> get_v x \<noteq> word_of_int UTF8 \<and>
      get_v x \<noteq> word_of_int UTF16 \<and> get_v x \<noteq> word_of_int UTF16BE \<and>
      get_v x \<noteq> word_of_int UTF16LE \<and> get_v x \<noteq> word_of_int RAW)"

definition enc16 :: "TidyOptionValue \<Rightarrow> bool" where
  "enc16 x =
     (get_v x = word_of_int UTF16LE \<or> get_v x = word_of_int UTF16BE
      \<or> get_v x = word_of_int UTF16)"

lemma length_option_defs: "length option_defs = N_TIDY_OPTIONS"
  by (simp add: option_defs_def)

lemma vals_SetOptionInt:
  "vals (SetOptionInt doc i x) =
     (if i < N_TIDY_OPTIONS then (vals doc)[i := Val_v x] else vals doc)"
  by (simp add: SetOptionInt_def set_value_def vals_def)

lemma vals_SetOptionBool:
  "vals (SetOptionBool doc i x) =
     (if i < N_TIDY_OPTIONS then (vals doc)[i := Val_v (ucast x)] else vals doc)"
  by (simp add: SetOptionBool_def set_value_def vals_def)

lemmas cfg_vals = cfg_def cfgBool_def cfgAutoBool_def vals_def [symmetric]

lemma truthy_simps [simp]: "truthy (Val_v 1)" "\<not> truthy (Val_v 0)"
  by (simp_all add: truthy_def)

subsection \<open>The consistency pass, slot by slot\<close>

lemma nth_AdjustConfig_1:
  "length (vals doc) = N_TIDY_OPTIONS \<Longrightarrow> j < N_TIDY_OPTIONS \<Longrightarrow>
   vals (AdjustConfig_1 doc) ! j =
     (if j = TidyEncloseBodyText \<and> truthy (vals doc ! TidyEncloseBlockText) then Val_v 1
      else vals doc ! j)"
  by (simp add: AdjustConfig_1_def cfg_vals vals_SetOptionBool yes_def nth_list_update
      truthy_def)

lemma nth_AdjustConfig_2:
  "length (vals doc) = N_TIDY_OPTIONS \<Longrightarrow> j < N_TIDY_OPTIONS \<Longrightarrow>
   vals (AdjustConfig_2 doc) ! j =
     (if j = TidyIndentSpaces \<and> \<not> truthy (vals doc ! TidyIndentContent) then Val_v 0
      else vals doc ! j)"
  by (simp add: AdjustConfig_2_def cfg_vals vals_SetOptionInt TidyNoState_def nth_list_update
      truthy_def)

lemma nth_AdjustConfig_3:
  "length (vals doc) = N_TIDY_OPTIONS \<Longrightarrow> j < N_TIDY_OPTIONS \<Longrightarrow>
   vals (AdjustConfig_3 doc) ! j =
     (if j = TidyWrapLen \<and> get_v (vals doc ! TidyWrapLen) = 0 then Val_v 0x7FFFFFFF
      else vals doc ! j)"
  by (simp add: AdjustConfig_3_def cfg_vals vals_SetOptionInt nth_list_update)

lemma vals_AdjustConfig_4 [simp]: "vals (AdjustConfig_4 doc) = vals doc"
  by (simp add: AdjustConfig_4_def vals_def DefineTag_def)

lemma nth_AdjustConfig_5:
  "length (vals doc) = N_TIDY_OPTIONS \<Longrightarrow> j < N_TIDY_OPTIONS \<Longrightarrow>
   vals (AdjustConfig_5 doc) ! j =
     (if j = TidyXhtmlOut \<and> truthy (vals doc ! TidyXmlTags) then Val_v 0 else vals doc ! j)"
  by (simp add: AdjustConfig_5_def cfg_vals vals_SetOptionBool no_def nth_list_update
      truthy_def)

lemma nth_AdjustConfig_6:
  "length (vals doc) = N_TIDY_OPTIONS \<Longrightarrow> j < N_TIDY_OPTIONS \<Longrightarrow>
   vals (AdjustConfig_6 doc) ! j =
     (if truthy (vals doc ! TidyXhtmlOut) then
        (if j = TidyXmlOut then Val_v 1
         else if j = TidyUpperCaseTags \<or> j = TidyUpperCaseAttrs then Val_v 0
         else vals doc ! j)
      else vals doc ! j)"
  by (simp add: AdjustConfig_6_def cfg_vals vals_SetOptionBool vals_SetOptionInt no_def yes_def
      nth_list_update truthy_def)

lemma nth_AdjustConfig_7:
  "length (vals doc) = N_TIDY_OPTIONS \<Longrightarrow> j < N_TIDY_OPTIONS \<Longrightarrow>
   vals (AdjustConfig_7 doc) ! j =
     (if truthy (vals doc ! TidyXmlTags) \<and> (j = TidyXmlOut \<or> j = TidyXmlPIs) then Val_v 1
      else vals doc ! j)"
  by (simp add: AdjustConfig_7_def cfg_vals vals_SetOptionBool yes_def nth_list_update
      truthy_def)

lemma nth_AdjustConfig_8:
  "length (vals doc) = N_TIDY_OPTIONS \<Longrightarrow> j < N_TIDY_OPTIONS \<Longrightarrow>
   vals (AdjustConfig_8 doc) ! j =
     (if j = TidyXmlDecl \<and> enc8 (vals doc ! TidyOutCharEncoding)
           \<and> truthy (vals doc ! TidyXmlOut)
      then Val_v 1 else vals doc ! j)"
  by (simp add: AdjustConfig_8_def cfg_vals vals_SetOptionBool yes_def nth_list_update
      truthy_def enc8_def)

lemma nth_AdjustConfig_9:
  "length (vals doc) = N_TIDY_OPTIONS \<Longrightarrow> j < N_TIDY_OPTIONS \<Longrightarrow>
   vals (AdjustConfig_9 doc) ! j =
     (if truthy (vals doc ! TidyXmlOut) then
        (if j = TidyOmitOptionalTags then Val_v 0
         else if j = TidyQuoteAmpersand then Val_v 1
         else if j = TidyOutputBOM \<and> enc16 (vals doc ! TidyOutCharEncoding) then Val_v 1
         else vals doc ! j)
      else vals doc ! j)"
  by (simp add: AdjustConfig_9_def cfg_vals vals_SetOptionBool vals_SetOptionInt Let_def
      no_def yes_def nth_list_update truthy_def enc16_def)

lemma length_AdjustConfig_k [simp]:
  "length (vals (AdjustConfig_1 doc)) = length (vals doc)"
  "length (vals (AdjustConfig_2 doc)) = length (vals doc)"
  "length (vals (AdjustConfig_3 doc)) = length (vals doc)"
  "length (vals (AdjustConfig_5 doc)) = length (vals doc)"
  "length (vals (AdjustConfig_6 doc)) = length (vals doc)"
  "length (vals (AdjustConfig_7 doc)) = length (vals doc)"
  "length (vals (AdjustConfig_8 doc)) = length (vals doc)"
  "length (vals (AdjustConfig_9 doc)) = length (vals doc)"
  by (simp_all add: AdjustConfig_1_def AdjustConfig_2_def AdjustConfig_3_def
      AdjustConfig_5_def AdjustConfig_6_def AdjustConfig_7_def AdjustConfig_8_def
      AdjustConfig_9_def Let_def vals_SetOptionBool vals_SetOptionInt)

lemmas nth_AdjustConfig_k =
  nth_AdjustConfig_1 nth_AdjustConfig_2 nth_AdjustConfig_3 nth_AdjustConfig_5
  nth_AdjustConfig_6 nth_AdjustConfig_7 nth_AdjustConfig_8 nth_AdjustConfig_9

text \<open>The value of every slot after the pass, in terms of the values before it.\<close>

lemma nth_AdjustConfig:
  "length (vals doc) = N_TIDY_OPTIONS \<Longrightarrow> j < N_TIDY_OPTIONS \<Longrightarrow>
   vals (AdjustConfig doc) ! j =
     (let xs = vals doc;
          xhtml = truthy (xs ! TidyXhtmlOut) \<and> \<not> truthy (xs ! TidyXmlTags);
          xmlout = truthy (xs ! TidyXmlTags) \<or> xhtml \<or> truthy (xs ! TidyXmlOut) in
      if j = TidyEncloseBodyText \<and> truthy (xs ! TidyEncloseBlockText) then Val_v 1
      else if j = TidyIndentSpaces \<and> \<not> truthy (xs ! TidyIndentContent) then Val_v 0
      else if j = TidyWrapLen \<and> get_v (xs ! TidyWrapLen) = 0 then Val_v 0x7FFFFFFF
      else if j = TidyXhtmlOut \<and> truthy (xs ! TidyXmlTags) then Val_v 0
      else if j = TidyXmlOut \<and> (truthy (xs ! TidyXmlTags) \<or> xhtml) then Val_v 1
      else if (j = TidyUpperCaseTags \<or> j = TidyUpperCaseAttrs) \<and> xhtml then Val_v 0
      else if j = TidyXmlPIs \<and> truthy (xs ! TidyXmlTags) then Val_v 1
      else if j = TidyXmlDecl \<and> enc8 (xs ! TidyOutCharEncoding) \<and> xmlout then Val_v 1
      else if j = TidyOmitOptionalTags \<and> xmlout then Val_v 0
      else if j = TidyQuoteAmpersand \<and> xmlout then Val_v 1
      else if j = TidyOutputBOM \<and> xmlout \<and> enc16 (xs ! TidyOutCharEncoding) then Val_v 1
      else xs ! j)"
  by (simp add: AdjustConfig_def nth_AdjustConfig_k Let_def)

lemma length_AdjustConfig [simp]: "length (vals (AdjustConfig doc)) = length (vals doc)"
  by (simp add: AdjustConfig_def)

lemma AdjustConfig_idem_nth:
  "length (vals doc) = N_TIDY_OPTIONS \<Longrightarrow> j < N_TIDY_OPTIONS \<Longrightarrow>
   vals (AdjustConfig (AdjustConfig doc)) ! j = vals (AdjustConfig doc) ! j"
  apply (subst nth_AdjustConfig [of "AdjustConfig doc"])
    apply simp
   apply simp
  apply (simp add: nth_AdjustConfig Let_def)
  done


subsection \<open>Copying option values and resetting to the defaults\<close>

lemma pdflt_option_defs: "i < N_TIDY_OPTIONS \<Longrightarrow> pdflt (option_defs ! i) = None"
proof -
  have "\<forall>x \<in> set option_defs. pdflt x = None"
    by (simp add: option_defs_def)
  then show "i < N_TIDY_OPTIONS \<Longrightarrow> pdflt (option_defs ! i) = None"
    using length_option_defs nth_mem by metis
qed

text \<open>Copying a value changes nothing in the document but the allocator.\<close>

lemma fst_CopyOptionValue:
  "fst (CopyOptionValue d opt old new) =
     d\<lparr>allocator := allocator (fst (CopyOptionValue d opt old new))\<rparr>"
  by (cases "deref (get_p new)")
     (simp_all add: CopyOptionValue_def FreeOptionValue_def TidyDocFree_def Let_def split_beta)

lemma config_CopyOptionValue [simp]:
  "config (fst (CopyOptionValue d opt old new)) = config d"
  by (subst fst_CopyOptionValue) simp

lemma CopyOptionValue_default:
  "pdflt opt = None \<Longrightarrow>
   snd (CopyOptionValue d opt old (GetOptionDefault opt)) = GetOptionDefault opt"
  by (simp add: CopyOptionValue_def GetOptionDefault_def Let_def)

lemma vals_ResetConfigToDefault_body:
  "vals (ResetConfigToDefault_body i d) =
     (vals d)[i := snd (CopyOptionValue d (option_defs ! i) (vals d ! i)
                          (GetOptionDefault (option_defs ! i)))]"
  by (simp add: ResetConfigToDefault_body_def Let_def split_beta set_value_def vals_def)

lemma snaps_ResetConfigToDefault_body [simp]: "snaps (ResetConfigToDefault_body i d) = snaps d"
  by (simp add: ResetConfigToDefault_body_def Let_def split_beta set_value_def snaps_def)

lemma snaps_ResetConfigToDefault_fold [simp]:
  "snaps (fold ResetConfigToDefault_body ns d) = snaps d"
  by (induction ns arbitrary: d) simp_all

lemma vals_ResetConfigToDefault_fold:
  "\<forall>i\<in>set ns. i < N_TIDY_OPTIONS \<Longrightarrow>
   vals (fold ResetConfigToDefault_body ns d) =
     map (\<lambda>i. if i \<in> set ns then GetOptionDefault (option_defs ! i) else vals d ! i)
       [0..<length (vals d)]"
proof (induction ns arbitrary: d)
  case Nil
  then show ?case by (simp add: map_nth)
next
  case (Cons n ns)
  have n: "n < N_TIDY_OPTIONS" using Cons.prems by simp
  have "vals (fold ResetConfigToDefault_body (n # ns) d) =
      vals (fold ResetConfigToDefault_body ns (ResetConfigToDefault_body n d))" by simp
  also have "\<dots> = map (\<lambda>i. if i \<in> set ns then GetOptionDefault (option_defs ! i)
        else vals (ResetConfigToDefault_body n d) ! i)
        [0..<length (vals (ResetConfigToDefault_body n d))]"
    using Cons.prems by (intro Cons.IH) simp
  also have "\<dots> = map (\<lambda>i. if i \<in> set (n # ns) then GetOptionDefault (option_defs ! i)
        else vals d ! i) [0..<length (vals d)]"
    using n
    by (auto simp: vals_ResetConfigToDefault_body CopyOptionValue_default pdflt_option_defs
        nth_list_update)
  finally show ?case .
qed

lemma vals_FreeDeclaredTags [simp]: "vals (FreeDeclaredTags d t) = vals d"
  by (simp add: FreeDeclaredTags_def vals_def)

lemma snaps_FreeDeclaredTags [simp]: "snaps (FreeDeclaredTags d t) = snaps d"
  by (simp add: FreeDeclaredTags_def snaps_def)

text \<open>After a reset every slot holds the default of its own option.\<close>

lemma vals_ResetConfigToDefault:
  "length (vals d) = N_TIDY_OPTIONS \<Longrightarrow>
   vals (ResetConfigToDefault d) = map GetOptionDefault option_defs"
  apply (simp add: ResetConfigToDefault_def vals_ResetConfigToDefault_fold)
  apply (rule nth_equalityI)
   apply (simp add: length_option_defs)
  apply (simp add: length_option_defs)
  done

lemma vals_new_doc: "vals new_doc = map GetOptionDefault option_defs"
  unfolding new_doc_def InitConfig_def
  by (rule vals_ResetConfigToDefault) (simp add: vals_def)

lemma snaps_new_doc: "snaps new_doc = replicate N_TIDY_OPTIONS (Val_v 0)"
  unfolding new_doc_def InitConfig_def ResetConfigToDefault_def
  by (simp only: snaps_FreeDeclaredTags snaps_ResetConfigToDefault_fold) (simp add: snaps_def)

lemma length_vals_new_doc [simp]: "length (vals new_doc) = N_TIDY_OPTIONS"
  by (simp add: vals_new_doc length_option_defs)

lemma nth_vals_new_doc:
  "i < N_TIDY_OPTIONS \<Longrightarrow> vals new_doc ! i = GetOptionDefault (option_defs ! i)"
  by (simp add: vals_new_doc length_option_defs)

text \<open>The loop of \<^verbatim>\<open>ConfigDiffThanDefault\<close> finds a difference exactly when one of its
  steps does.\<close>

lemma fold_diff:
  "fold (\<lambda>k diff. if \<not> diff then g k else diff) ks b = (b \<or> (\<exists>k\<in>set ks. g k))"
  by (induction ks arbitrary: b) auto

lemma ConfigDiffThanDefault_iff:
  "ConfigDiffThanDefault doc =
     (\<exists>k < N_TIDY_OPTIONS - 1. \<not> OptionValueEqDefault (option_defs ! (k + 1)) (vals doc ! k))"
  by (auto simp: ConfigDiffThanDefault_def fold_diff vals_def)

lemma ConfigDiffThanDefault_after_reset:
  assumes "length (vals doc) = N_TIDY_OPTIONS"
  shows "ConfigDiffThanDefault (ResetConfigToDefault doc)"
proof -
  have "\<not> OptionValueEqDefault (option_defs ! (2 + 1)) (vals (ResetConfigToDefault doc) ! 2)"
    by (simp add: vals_ResetConfigToDefault [OF assms] length_option_defs)
       (simp add: option_defs_def OptionValueEqDefault_def GetOptionDefault_def yes_def)
  then show ?thesis
    unfolding ConfigDiffThanDefault_iff by (intro exI [of _ 2]) simp
qed

text \<open>
  C2.  \<^verbatim>\<open>ResetConfigToDefault\<close> followed by \<^verbatim>\<open>ConfigDiffThanDefault\<close> is specified to
  report no difference.  In the code the reset does leave every slot equal to the default
  of its own option, yet \<^verbatim>\<open>ConfigDiffThanDefault\<close> reports a difference: it compares
  each slot with the default of the next option.  Here on a freshly initialised document.
\<close>

theorem ConfigDiffThanDefault_new_doc:
  "ConfigDiffThanDefault (ResetConfigToDefault new_doc) \<and>
   list_all2 OptionValueEqDefault option_defs (value' (config (ResetConfigToDefault new_doc)))"
proof
  show "ConfigDiffThanDefault (ResetConfigToDefault new_doc)"
    by (rule ConfigDiffThanDefault_after_reset) simp
  have "list_all2 OptionValueEqDefault option_defs (map GetOptionDefault option_defs)"
    by (simp add: list_all2_map2 list_all2_same OptionValueEqDefault_def GetOptionDefault_def
        option_defs_def)
  then show "list_all2 OptionValueEqDefault option_defs
      (value' (config (ResetConfigToDefault new_doc)))"
    using vals_ResetConfigToDefault [OF length_vals_new_doc] by (simp add: vals_def)
qed

subsection \<open>The consistency pass\<close>

text \<open>
  C4.  The consistency pass is idempotent: for every configuration state, applying
  \<^verbatim>\<open>AdjustConfig\<close> twice yields the same option values as applying it once.
\<close>

theorem AdjustConfig_idempotent:
  assumes "length (value' (config doc)) = N_TIDY_OPTIONS"
  shows "value' (config (AdjustConfig (AdjustConfig doc))) = value' (config (AdjustConfig doc))"
proof (rule nth_equalityI)
  show "length (value' (config (AdjustConfig (AdjustConfig doc))))
      = length (value' (config (AdjustConfig doc)))"
    by (simp add: vals_def [symmetric])
next
  fix j assume "j < length (value' (config (AdjustConfig (AdjustConfig doc))))"
  then have "j < N_TIDY_OPTIONS" using assms by (simp add: vals_def [symmetric])
  then show "value' (config (AdjustConfig (AdjustConfig doc))) ! j
      = value' (config (AdjustConfig doc)) ! j"
    using assms AdjustConfig_idem_nth [of doc j] by (simp add: vals_def)
qed

text \<open>
  C5.  After the consistency pass: if input-xml is true then output-xhtml is false,
  output-xml is true and assume-xml-procins is true; and if output-xhtml is true then
  output-xml is true and uppercase-tags and uppercase-attributes are both no.
\<close>

theorem AdjustConfig_xml_implications:
  assumes "length (value' (config doc)) = N_TIDY_OPTIONS"
  shows "(cfgBool (AdjustConfig doc) TidyXmlTags \<noteq> no \<longrightarrow>
            cfgBool (AdjustConfig doc) TidyXhtmlOut = no \<and>
            cfgBool (AdjustConfig doc) TidyXmlOut = yes \<and>
            cfgBool (AdjustConfig doc) TidyXmlPIs = yes) \<and>
         (cfgBool (AdjustConfig doc) TidyXhtmlOut \<noteq> no \<longrightarrow>
            cfgBool (AdjustConfig doc) TidyXmlOut = yes \<and>
            cfgBool (AdjustConfig doc) TidyUpperCaseTags = no \<and>
            cfg (AdjustConfig doc) TidyUpperCaseAttrs = ucast TidyUppercaseNo)"
proof -
  have len: "length (vals doc) = N_TIDY_OPTIONS" using assms by (simp add: vals_def)
  have t: "\<And>x. (ucast (get_v x) \<noteq> (0 :: Bool)) = truthy x" by (simp add: truthy_def)
  show ?thesis
    by (simp add: cfg_vals no_def yes_def TidyUppercaseNo_def nth_AdjustConfig [OF len] Let_def t)
qed

text \<open>
  C6.  After the consistency pass on a state whose wrap width is 0, the wrap width reads
  back as \<^verbatim>\<open>0x7FFFFFFF\<close>, that is \<open>2 ^ 31 - 1\<close>; a wrap width other than 0, also one
  above \<^verbatim>\<open>0x7FFFFFFF\<close>, is left unchanged.  The slot is an \<^verbatim>\<open>unsigned long\<close>, whose largest
  value is not \<^verbatim>\<open>0x7FFFFFFF\<close>.
\<close>

theorem AdjustConfig_wrap_width:
  assumes "length (value' (config doc)) = N_TIDY_OPTIONS"
  shows "(cfg doc TidyWrapLen = 0 \<longrightarrow>
            cfg (AdjustConfig doc) TidyWrapLen = 0x7FFFFFFF \<and>
            unat (cfg (AdjustConfig doc) TidyWrapLen) = 2 ^ 31 - 1) \<and>
         (cfg doc TidyWrapLen \<noteq> 0 \<longrightarrow>
            AdjustConfig_3 doc = doc \<and>
            value' (config (AdjustConfig doc)) ! TidyWrapLen = value' (config doc) ! TidyWrapLen)"
proof -
  have len: "length (vals doc) = N_TIDY_OPTIONS" using assms by (simp add: vals_def)
  show ?thesis
    by (simp add: cfg_vals nth_AdjustConfig [OF len] Let_def AdjustConfig_3_def)
qed


text \<open>Instances of C4, C5 and C6 at documents where the rules fire.\<close>

lemma length_vals_SetOption [simp]:
  "length (vals (SetOptionInt doc i x)) = length (vals doc)"
  "length (vals (SetOptionBool doc i b)) = length (vals doc)"
  by (simp_all add: vals_SetOptionInt vals_SetOptionBool)

lemma nth_vals_SetOptionBool:
  "i < N_TIDY_OPTIONS \<Longrightarrow> j < length (vals doc) \<Longrightarrow>
   vals (SetOptionBool doc i b) ! j = (if j = i then Val_v (ucast b) else vals doc ! j)"
  by (simp add: vals_SetOptionBool nth_list_update)

lemma nth_vals_SetOptionInt:
  "i < N_TIDY_OPTIONS \<Longrightarrow> j < length (vals doc) \<Longrightarrow>
   vals (SetOptionInt doc i x) ! j = (if j = i then Val_v x else vals doc ! j)"
  by (simp add: vals_SetOptionInt nth_list_update)

lemma new_doc_defaults:
  "vals new_doc ! TidyXmlTags = Val_v 0"
  "vals new_doc ! TidyXhtmlOut = Val_v 0"
  "vals new_doc ! TidyXmlOut = Val_v 0"
  "vals new_doc ! TidyWrapLen = Val_v 68"
  by (simp_all add: nth_vals_new_doc)
     (simp_all add: option_defs_def GetOptionDefault_def no_def)

theorem AdjustConfig_idempotent_witness:
  "length (value' (config (SetOptionBool new_doc TidyXmlTags yes))) = N_TIDY_OPTIONS \<and>
   value' (config (AdjustConfig (AdjustConfig (SetOptionBool new_doc TidyXmlTags yes))))
     = value' (config (AdjustConfig (SetOptionBool new_doc TidyXmlTags yes))) \<and>
   cfgBool (AdjustConfig (SetOptionBool new_doc TidyXmlTags yes)) TidyXmlOut = yes"
proof -
  have len: "length (value' (config (SetOptionBool new_doc TidyXmlTags yes))) = N_TIDY_OPTIONS"
    by (simp add: vals_def [symmetric])
  have "cfgBool (AdjustConfig (SetOptionBool new_doc TidyXmlTags yes)) TidyXmlOut = yes"
    by (simp add: cfg_vals nth_AdjustConfig Let_def nth_vals_SetOptionBool yes_def)
  then show ?thesis
    using len AdjustConfig_idempotent [OF len] by simp
qed

theorem AdjustConfig_xml_implications_witness:
  "length (value' (config (SetOptionBool (SetOptionBool new_doc TidyXhtmlOut yes)
      TidyXmlTags yes))) = N_TIDY_OPTIONS \<and>
   cfgBool (AdjustConfig (SetOptionBool (SetOptionBool new_doc TidyXhtmlOut yes)
      TidyXmlTags yes)) TidyXmlTags \<noteq> no \<and>
   cfgBool (AdjustConfig (SetOptionBool (SetOptionBool new_doc TidyXhtmlOut yes)
      TidyXmlTags yes)) TidyXhtmlOut = no \<and>
   cfgBool (AdjustConfig (SetOptionBool (SetOptionBool new_doc TidyXhtmlOut yes)
      TidyXmlTags yes)) TidyXmlOut = yes \<and>
   cfgBool (AdjustConfig (SetOptionBool (SetOptionBool new_doc TidyXhtmlOut yes)
      TidyXmlTags yes)) TidyXmlPIs = yes \<and>
   length (value' (config (SetOptionBool new_doc TidyXhtmlOut yes))) = N_TIDY_OPTIONS \<and>
   cfgBool (AdjustConfig (SetOptionBool new_doc TidyXhtmlOut yes)) TidyXhtmlOut \<noteq> no \<and>
   cfgBool (AdjustConfig (SetOptionBool new_doc TidyXhtmlOut yes)) TidyXmlOut = yes \<and>
   cfgBool (AdjustConfig (SetOptionBool new_doc TidyXhtmlOut yes)) TidyUpperCaseTags = no \<and>
   cfg (AdjustConfig (SetOptionBool new_doc TidyXhtmlOut yes)) TidyUpperCaseAttrs
     = ucast TidyUppercaseNo"
proof -
  let ?d1 = "SetOptionBool (SetOptionBool new_doc TidyXhtmlOut yes) TidyXmlTags yes"
  let ?d2 = "SetOptionBool new_doc TidyXhtmlOut yes"
  have len1: "length (value' (config ?d1)) = N_TIDY_OPTIONS"
    and len2: "length (value' (config ?d2)) = N_TIDY_OPTIONS"
    by (simp_all add: vals_def [symmetric])
  have p1: "cfgBool (AdjustConfig ?d1) TidyXmlTags \<noteq> no"
    by (simp add: cfg_vals nth_AdjustConfig Let_def nth_vals_SetOptionBool yes_def no_def)
  have p2: "cfgBool (AdjustConfig ?d2) TidyXhtmlOut \<noteq> no"
    by (simp add: cfg_vals nth_AdjustConfig Let_def nth_vals_SetOptionBool yes_def no_def
        new_doc_defaults)
  show ?thesis
    using AdjustConfig_xml_implications [OF len1] AdjustConfig_xml_implications [OF len2]
      len1 len2 p1 p2
    by simp
qed

theorem AdjustConfig_wrap_width_witness:
  "length (value' (config (SetOptionInt new_doc TidyWrapLen 0))) = N_TIDY_OPTIONS \<and>
   cfg (SetOptionInt new_doc TidyWrapLen 0) TidyWrapLen = 0 \<and>
   cfg (AdjustConfig (SetOptionInt new_doc TidyWrapLen 0)) TidyWrapLen = 0x7FFFFFFF \<and>
   length (value' (config new_doc)) = N_TIDY_OPTIONS \<and>
   cfg new_doc TidyWrapLen = 68 \<and>
   value' (config (AdjustConfig new_doc)) ! TidyWrapLen = Val_v 68"
proof -
  let ?d = "SetOptionInt new_doc TidyWrapLen 0"
  have len1: "length (value' (config ?d)) = N_TIDY_OPTIONS"
    and len2: "length (value' (config new_doc)) = N_TIDY_OPTIONS"
    by (simp_all add: vals_def [symmetric])
  have z: "cfg ?d TidyWrapLen = 0"
    by (simp add: cfg_vals nth_vals_SetOptionInt)
  have n: "cfg new_doc TidyWrapLen = 68" "value' (config new_doc) ! TidyWrapLen = Val_v 68"
    using new_doc_defaults by (simp_all add: cfg_def vals_def)
  show ?thesis
    using AdjustConfig_wrap_width [OF len1] AdjustConfig_wrap_width [OF len2] len1 len2 z n
    by simp
qed

text \<open>
  C6 with ``the largest value of its integer type'' does not hold: the width that a wrap
  of 0 reads back as is below the largest \<^verbatim>\<open>unsigned long\<close>, and below the width that reads
  back when the option has been set to \<open>2 ^ 32\<close>, which the pass leaves as it is.
\<close>

theorem wrap_width_not_largest:
  "cfg (SetOptionInt new_doc TidyWrapLen 0) TidyWrapLen = 0
   \<and> cfg (AdjustConfig (SetOptionInt new_doc TidyWrapLen 0)) TidyWrapLen = 0x7FFFFFFF
   \<and> cfg (AdjustConfig (SetOptionInt new_doc TidyWrapLen 0)) TidyWrapLen < 0xFFFFFFFFFFFFFFFF
   \<and> cfg (AdjustConfig (SetOptionInt new_doc TidyWrapLen 4294967296)) TidyWrapLen = 4294967296
   \<and> cfg (AdjustConfig (SetOptionInt new_doc TidyWrapLen 0)) TidyWrapLen
       < cfg (AdjustConfig (SetOptionInt new_doc TidyWrapLen 4294967296)) TidyWrapLen"
proof -
  let ?z = "SetOptionInt new_doc TidyWrapLen 0"
  let ?b = "SetOptionInt new_doc TidyWrapLen 4294967296"
  have len: "length (vals ?z) = N_TIDY_OPTIONS" "length (vals ?b) = N_TIDY_OPTIONS"
    by (simp_all add: length_vals_new_doc)
  have z: "vals ?z ! TidyWrapLen = Val_v 0" "vals ?b ! TidyWrapLen = Val_v 4294967296"
    by (simp_all add: nth_vals_SetOptionInt length_vals_new_doc)
  have "vals (AdjustConfig ?z) ! TidyWrapLen = Val_v 0x7FFFFFFF"
    by (subst nth_AdjustConfig [OF len(1)]) (simp_all add: z Let_def)
  then have 1: "cfg (AdjustConfig ?z) TidyWrapLen = 0x7FFFFFFF"
    by (simp add: cfg_def vals_def)
  have "vals (AdjustConfig ?b) ! TidyWrapLen = Val_v 4294967296"
    by (subst nth_AdjustConfig [OF len(2)]) (simp_all add: z Let_def)
  then have 2: "cfg (AdjustConfig ?b) TidyWrapLen = 4294967296"
    by (simp add: cfg_def vals_def)
  have 0: "cfg ?z TidyWrapLen = 0"
    using z(1) by (simp add: cfg_def vals_def)
  show ?thesis
    unfolding 0 1 2 by simp
qed


subsection \<open>Snapshots\<close>

lemma ptr_eq_refl [simp]: "ptr_eq q q"
  by (cases q) auto

lemma tmbstrcmp_refl [simp]: "tmbstrcmp s s = 0"
  by (induction s) auto

lemma option_value_copy: "is_copy opt new y \<Longrightarrow> option_value opt y = option_value opt new"
  by (cases "get_p new")
     (auto simp: is_copy_def option_value_def CopyOptionValue_def Let_def split_beta)

lemma OptionValueIdentical_copy: "is_copy opt new y \<Longrightarrow> OptionValueIdentical opt new y"
  by (cases "get_p new")
     (auto simp: is_copy_def OptionValueIdentical_def CopyOptionValue_def Let_def split_beta)

lemma vals_TakeConfigSnapshot_body [simp]: "vals (TakeConfigSnapshot_body n d) = vals d"
  by (simp add: TakeConfigSnapshot_body_def Let_def split_beta set_snapshot_def vals_def)

lemma snaps_TakeConfigSnapshot_body:
  "snaps (TakeConfigSnapshot_body n d) =
     (snaps d)[n := snd (CopyOptionValue d (option_defs ! n) (snaps d ! n) (vals d ! n))]"
  by (simp add: TakeConfigSnapshot_body_def Let_def split_beta set_snapshot_def vals_def snaps_def)

lemma Take_fold:
  "distinct ns \<Longrightarrow> \<forall>i\<in>set ns. i < length (snaps d) \<Longrightarrow>
   vals (fold TakeConfigSnapshot_body ns d) = vals d \<and>
   length (snaps (fold TakeConfigSnapshot_body ns d)) = length (snaps d) \<and>
   (\<forall>i. i \<notin> set ns \<longrightarrow> snaps (fold TakeConfigSnapshot_body ns d) ! i = snaps d ! i) \<and>
   (\<forall>i\<in>set ns. is_copy (option_defs ! i) (vals d ! i) (snaps (fold TakeConfigSnapshot_body ns d) ! i))"
proof (induction ns arbitrary: d)
  case Nil
  then show ?case by simp
next
  case (Cons n ns)
  let ?d1 = "TakeConfigSnapshot_body n d"
  have l1: "length (snaps ?d1) = length (snaps d)" by (simp add: snaps_TakeConfigSnapshot_body)
  have IH: "vals (fold TakeConfigSnapshot_body ns ?d1) = vals ?d1 \<and>
   length (snaps (fold TakeConfigSnapshot_body ns ?d1)) = length (snaps ?d1) \<and>
   (\<forall>i. i \<notin> set ns \<longrightarrow> snaps (fold TakeConfigSnapshot_body ns ?d1) ! i = snaps ?d1 ! i) \<and>
   (\<forall>i\<in>set ns. is_copy (option_defs ! i) (vals ?d1 ! i) (snaps (fold TakeConfigSnapshot_body ns ?d1) ! i))"
    using Cons.prems by (intro Cons.IH) (simp_all add: l1)
  have n: "n \<notin> set ns" "n < length (snaps d)" using Cons.prems by simp_all
  have "snaps (fold TakeConfigSnapshot_body ns ?d1) ! n = snaps ?d1 ! n" using IH n by blast
  also have "\<dots> = snd (CopyOptionValue d (option_defs ! n) (snaps d ! n) (vals d ! n))"
    using n by (simp add: snaps_TakeConfigSnapshot_body)
  finally have cn: "is_copy (option_defs ! n) (vals d ! n) (snaps (fold TakeConfigSnapshot_body ns ?d1) ! n)"
    unfolding is_copy_def by blast
  have fr: "i \<notin> set (n # ns) \<Longrightarrow> snaps (fold TakeConfigSnapshot_body ns ?d1) ! i = snaps d ! i" for i
    using IH by (simp add: snaps_TakeConfigSnapshot_body)
  show ?case using IH cn fr l1 by auto
qed

lemma vals_ResetConfigToSnapshot_body:
  "vals (ResetConfigToSnapshot_body n d) =
     (vals d)[n := snd (CopyOptionValue d (option_defs ! n) (vals d ! n) (snaps d ! n))]"
  by (simp add: ResetConfigToSnapshot_body_def Let_def split_beta set_value_def vals_def snaps_def)

lemma snaps_ResetConfigToSnapshot_body [simp]: "snaps (ResetConfigToSnapshot_body n d) = snaps d"
  by (simp add: ResetConfigToSnapshot_body_def Let_def split_beta set_value_def snaps_def)

lemma Restore_fold:
  "distinct ns \<Longrightarrow> \<forall>i\<in>set ns. i < length (vals d) \<Longrightarrow>
   snaps (fold ResetConfigToSnapshot_body ns d) = snaps d \<and>
   length (vals (fold ResetConfigToSnapshot_body ns d)) = length (vals d) \<and>
   (\<forall>i. i \<notin> set ns \<longrightarrow> vals (fold ResetConfigToSnapshot_body ns d) ! i = vals d ! i) \<and>
   (\<forall>i\<in>set ns. is_copy (option_defs ! i) (snaps d ! i) (vals (fold ResetConfigToSnapshot_body ns d) ! i))"
proof (induction ns arbitrary: d)
  case Nil
  then show ?case by simp
next
  case (Cons n ns)
  let ?d1 = "ResetConfigToSnapshot_body n d"
  have l1: "length (vals ?d1) = length (vals d)" by (simp add: vals_ResetConfigToSnapshot_body)
  have IH: "snaps (fold ResetConfigToSnapshot_body ns ?d1) = snaps ?d1 \<and>
   length (vals (fold ResetConfigToSnapshot_body ns ?d1)) = length (vals ?d1) \<and>
   (\<forall>i. i \<notin> set ns \<longrightarrow> vals (fold ResetConfigToSnapshot_body ns ?d1) ! i = vals ?d1 ! i) \<and>
   (\<forall>i\<in>set ns. is_copy (option_defs ! i) (snaps ?d1 ! i) (vals (fold ResetConfigToSnapshot_body ns ?d1) ! i))"
    using Cons.prems by (intro Cons.IH) (simp_all add: l1)
  have n: "n \<notin> set ns" "n < length (vals d)" using Cons.prems by simp_all
  have "vals (fold ResetConfigToSnapshot_body ns ?d1) ! n = vals ?d1 ! n" using IH n by blast
  also have "\<dots> = snd (CopyOptionValue d (option_defs ! n) (vals d ! n) (snaps d ! n))"
    using n by (simp add: vals_ResetConfigToSnapshot_body)
  finally have cn: "is_copy (option_defs ! n) (snaps d ! n) (vals (fold ResetConfigToSnapshot_body ns ?d1) ! n)"
    unfolding is_copy_def by blast
  have fr: "i \<notin> set (n # ns) \<Longrightarrow> vals (fold ResetConfigToSnapshot_body ns ?d1) ! i = vals d ! i" for i
    using IH by (simp add: vals_ResetConfigToSnapshot_body)
  show ?case using IH cn fr l1 by auto
qed

lemma NeedReparse_none:
  "\<forall>i\<in>set ns. OptionValueIdentical (option_defs ! i) (current ! i) (new ! i) \<Longrightarrow>
   fold (\<lambda>ixVal (ret, changedUserTags).
             (let option = option_defs ! ixVal;
                  TEST_USERTAGS = (\<lambda>USERTAGTYPE.
                    if \<not> OptionValueIdentical option (current ! ixVal) (new ! ixVal)
                    then (True, changedUserTags OR USERTAGTYPE)
                    else (ret, changedUserTags))
              in if id' option = TidyInlineTags then TEST_USERTAGS tagtype_inline
                 else if id' option = TidyBlockTags then TEST_USERTAGS tagtype_block
                 else if id' option = TidyEmptyTags then TEST_USERTAGS tagtype_empty
                 else if id' option = TidyPreTags then TEST_USERTAGS tagtype_pre
                 else (ret, changedUserTags))) ns acc = acc"
  by (induction ns arbitrary: acc) (auto simp: Let_def split_beta)


lemma snaps_SetOption [simp]:
  "snaps (SetOptionInt doc i x) = snaps doc"
  "snaps (SetOptionBool doc i b) = snaps doc"
  by (simp_all add: SetOptionInt_def SetOptionBool_def set_value_def snaps_def)

lemma snaps_AdjustConfig_k [simp]:
  "snaps (AdjustConfig_1 doc) = snaps doc"
  "snaps (AdjustConfig_2 doc) = snaps doc"
  "snaps (AdjustConfig_3 doc) = snaps doc"
  "snaps (AdjustConfig_4 doc) = snaps doc"
  "snaps (AdjustConfig_5 doc) = snaps doc"
  "snaps (AdjustConfig_6 doc) = snaps doc"
  "snaps (AdjustConfig_7 doc) = snaps doc"
  "snaps (AdjustConfig_8 doc) = snaps doc"
  "snaps (AdjustConfig_9 doc) = snaps doc"
  by (simp_all add: AdjustConfig_1_def AdjustConfig_2_def AdjustConfig_3_def
      AdjustConfig_5_def AdjustConfig_6_def AdjustConfig_7_def AdjustConfig_8_def
      AdjustConfig_9_def Let_def)
     (simp add: AdjustConfig_4_def DefineTag_def snaps_def)

lemma snaps_AdjustConfig [simp]: "snaps (AdjustConfig doc) = snaps doc"
  by (simp add: AdjustConfig_def)

lemma TakeConfigSnapshot_facts:
  assumes "config_sized doc"
  shows "vals (TakeConfigSnapshot doc) = vals (AdjustConfig doc)"
    and "length (snaps (TakeConfigSnapshot doc)) = N_TIDY_OPTIONS"
    and "i < N_TIDY_OPTIONS \<Longrightarrow>
         is_copy (option_defs ! i) (vals (AdjustConfig doc) ! i) (snaps (TakeConfigSnapshot doc) ! i)"
proof -
  have "\<forall>i\<in>set [0..<N_TIDY_OPTIONS]. i < length (snaps (AdjustConfig doc))"
    using assms by (simp add: config_sized_def snaps_def [symmetric])
  from Take_fold [OF distinct_upt this]
  show "vals (TakeConfigSnapshot doc) = vals (AdjustConfig doc)"
    and "length (snaps (TakeConfigSnapshot doc)) = N_TIDY_OPTIONS"
    and "i < N_TIDY_OPTIONS \<Longrightarrow>
         is_copy (option_defs ! i) (vals (AdjustConfig doc) ! i) (snaps (TakeConfigSnapshot doc) ! i)"
    using assms by (simp_all add: TakeConfigSnapshot_def config_sized_def snaps_def [symmetric])
qed

text \<open>
  C8.  For every configuration state, \<^verbatim>\<open>TakeConfigSnapshot\<close> followed immediately by
  \<^verbatim>\<open>ResetConfigToSnapshot\<close> returns, and leaves the value of every option as it was just
  after \<^verbatim>\<open>TakeConfigSnapshot\<close>.
\<close>

theorem snapshot_round_trip:
  assumes "config_sized doc"
  shows "\<exists>doc'. ResetConfigToSnapshot X (TakeConfigSnapshot doc) = Some doc' \<and>
           map2 option_value option_defs (value' (config doc'))
             = map2 option_value option_defs (value' (config (TakeConfigSnapshot doc)))"
proof -
  define T where "T = TakeConfigSnapshot doc"
  define R where "R = fold ResetConfigToSnapshot_body [0..<N_TIDY_OPTIONS] T"
  have vT: "vals T = vals (AdjustConfig doc)"
    and lsT: "length (snaps T) = N_TIDY_OPTIONS"
    and cT: "\<And>i. i < N_TIDY_OPTIONS \<Longrightarrow>
               is_copy (option_defs ! i) (vals (AdjustConfig doc) ! i) (snaps T ! i)"
    using TakeConfigSnapshot_facts [OF assms] by (simp_all add: T_def)
  have lvT: "length (vals T) = N_TIDY_OPTIONS"
    using assms by (simp add: vT config_sized_def vals_def [symmetric])
  have same: "OptionValueIdentical (option_defs ! i) (vals T ! i) (snaps T ! i)"
    if "i < N_TIDY_OPTIONS" for i
    using cT [OF that] by (simp add: vT OptionValueIdentical_copy)
  have need: "NeedReparseTagDecls (value' (config T)) (snapshot (config T)) = (False, tagtype_null)"
    unfolding NeedReparseTagDecls_def
    by (rule NeedReparse_none) (use same in \<open>simp add: vals_def snaps_def\<close>)
  have "\<forall>i\<in>set [0..<N_TIDY_OPTIONS]. i < length (vals T)" by (simp add: lvT)
  from Restore_fold [OF distinct_upt this]
  have lR: "length (vals R) = N_TIDY_OPTIONS"
    and cR: "\<And>i. i < N_TIDY_OPTIONS \<Longrightarrow> is_copy (option_defs ! i) (snaps T ! i) (vals R ! i)"
    by (simp_all add: R_def lvT)
  have res: "ResetConfigToSnapshot X T = Some R"
    by (simp add: ResetConfigToSnapshot_def need R_def)
  have "map2 option_value option_defs (vals R) = map2 option_value option_defs (vals T)"
  proof (rule nth_equalityI)
    show "length (map2 option_value option_defs (vals R))
        = length (map2 option_value option_defs (vals T))"
      by (simp add: lR lvT)
  next
    fix i assume "i < length (map2 option_value option_defs (vals R))"
    then have i: "i < N_TIDY_OPTIONS" by (simp add: lR)
    have "option_value (option_defs ! i) (vals R ! i) = option_value (option_defs ! i) (snaps T ! i)"
      using cR [OF i] by (rule option_value_copy)
    also have "\<dots> = option_value (option_defs ! i) (vals T ! i)"
      using cT [OF i] by (simp add: vT option_value_copy)
    finally show "map2 option_value option_defs (vals R) ! i
        = map2 option_value option_defs (vals T) ! i"
      using i by (simp add: lR lvT length_option_defs)
  qed
  then show ?thesis using res by (simp add: T_def vals_def)
qed

lemma vals_SetOptionValue:
  "vals (SetOptionValue doc i v) =
     (if i < N_TIDY_OPTIONS
      then (vals doc)[i := (if tmbstrlen v \<noteq> 0
                            then Val_p (Some (Suc (allocator doc), case v of Some s \<Rightarrow> s | None \<Rightarrow> []))
                            else Val_p None)]
      else vals doc)"
  by (cases v)
     (simp_all add: SetOptionValue_def FreeOptionValue_def TidyDocFree_def Let_def
       set_value_def vals_def)

lemma snaps_SetOptionValue [simp]: "snaps (SetOptionValue doc i v) = snaps doc"
  by (cases v)
     (simp_all add: SetOptionValue_def FreeOptionValue_def TidyDocFree_def Let_def
       set_value_def snaps_def)

lemma config_sized_alt: "config_sized doc =
  (length (vals doc) = N_TIDY_OPTIONS \<and> length (snaps doc) = N_TIDY_OPTIONS)"
  by (simp add: config_sized_def vals_def snaps_def)

theorem snapshot_round_trip_witness:
  "config_sized (SetOptionValue new_doc TidyAltText (Some ''x'')) \<and>
   deref (cfgStr (TakeConfigSnapshot (SetOptionValue new_doc TidyAltText (Some ''x'')))
     TidyAltText) = Some ''x'' \<and>
   (\<exists>doc'. ResetConfigToSnapshot sample_collaborators
              (TakeConfigSnapshot (SetOptionValue new_doc TidyAltText (Some ''x''))) = Some doc' \<and>
           map2 option_value option_defs (value' (config doc'))
             = map2 option_value option_defs
                 (value' (config (TakeConfigSnapshot
                    (SetOptionValue new_doc TidyAltText (Some ''x''))))))"
proof -
  let ?d = "SetOptionValue new_doc TidyAltText (Some ''x'')"
  have sized: "config_sized ?d"
    by (simp add: config_sized_alt vals_SetOptionValue snaps_new_doc)
  have len: "length (vals ?d) = N_TIDY_OPTIONS"
    using sized by (simp add: config_sized_alt)
  have "vals (TakeConfigSnapshot ?d) = vals (AdjustConfig ?d)"
    by (rule TakeConfigSnapshot_facts(1) [OF sized])
  moreover have "vals (AdjustConfig ?d) ! TidyAltText = vals ?d ! TidyAltText"
    by (simp add: nth_AdjustConfig [OF len] Let_def)
  moreover have "vals ?d ! TidyAltText = Val_p (Some (Suc (allocator new_doc), ''x''))"
    by (simp add: vals_SetOptionValue)
  ultimately have a: "deref (cfgStr (TakeConfigSnapshot ?d) TidyAltText) = Some ''x''"
    by (simp add: cfgStr_def vals_def)
  have b: "\<exists>doc'. ResetConfigToSnapshot sample_collaborators (TakeConfigSnapshot ?d) = Some doc' \<and>
           map2 option_value option_defs (value' (config doc'))
             = map2 option_value option_defs (value' (config (TakeConfigSnapshot ?d)))"
    by (rule snapshot_round_trip [OF sized])
  show ?thesis
    using sized a b by (intro conjI)
qed


subsection \<open>The tokenizer changes only the current character and the stream\<close>

lemma store_c_GetC [simp]: "store (c_GetC cf) = store cf"
  by (simp add: store_def c_GetC_def GetC_def ReadChar_def split: option.splits list.splits)

lemma store_AdvanceChar [simp]: "store (AdvanceChar cf) = store cf"
  by (simp add: AdvanceChar_def)

lemma store_SkipWhite [simp]: "store (SkipWhite cf) = store cf"
proof (induction cf rule: SkipWhite.induct)
  case (1 cf)
  show ?case
  proof (cases "IsWhite (ch cf) \<and> \<not> IsNewline (ch cf)")
    case True
    then have "SkipWhite cf = SkipWhite (c_GetC cf)" by (subst SkipWhite.simps) simp
    with 1 True show ?thesis by simp
  next
    case False
    then have "SkipWhite cf = cf" by (subst SkipWhite.simps) (simp only: if_False)
    then show ?thesis by simp
  qed
qed

lemma store_read_token [simp]: "store (fst (read_token bound stop f cf buf)) = store cf"
proof (induction bound stop f cf buf rule: read_token.induct)
  case (1 bound stop f cf buf)
  show ?case
  proof (cases "length buf < bound \<and> ch cf \<noteq> EndOfStream \<and> \<not> stop (ch cf)")
    case True
    then have "read_token bound stop f cf buf =
        read_token bound stop f (AdvanceChar cf) (buf @ [char_of (f (ch cf))])"
      by (subst read_token.simps) simp
    with 1 True show ?thesis by simp
  next
    case False
    then have "read_token bound stop f cf buf = (cf, buf)"
      by (subst read_token.simps) (simp only: if_False)
    then show ?thesis by simp
  qed
qed

lemma store_ParseInt_loop [simp]: "store (fst (ParseInt_loop cf number digits)) = store cf"
proof (induction cf number digits rule: ParseInt_loop.induct)
  case (1 cf number digits)
  show ?case
  proof (cases "IsDigit (ch cf)")
    case True
    then have "ParseInt_loop cf number digits =
        ParseInt_loop (AdvanceChar cf) (of_nat (ch cf - 48) + 10 * number) True"
      by (subst ParseInt_loop.simps) simp
    with 1 True show ?thesis by simp
  next
    case False
    then have "ParseInt_loop cf number digits = (cf, number, digits)"
      by (subst ParseInt_loop.simps) (simp only: if_False)
    then show ?thesis by simp
  qed
qed

lemma store_ParseString_loop [simp]:
  "store (fst (ParseString_loop cf delim waswhite buf)) = store cf"
proof (induction cf delim waswhite buf rule: ParseString_loop.induct)
  case (1 cf delim waswhite buf)
  show ?case
    by (subst ParseString_loop.simps) (use 1 in auto)
qed

lemma store_ParseString_scan [simp]: "store (fst (ParseString_scan cf)) = store cf"
  by (simp add: ParseString_scan_def Let_def)


lemma vals_config_update:
  "store cf = store (config doc) \<Longrightarrow> vals (doc\<lparr>config := cf\<rparr>) = vals doc"
  "store cf = store (config doc) \<Longrightarrow> snaps (doc\<lparr>config := cf\<rparr>) = snaps doc"
  by (simp_all add: store_def vals_def snaps_def)

lemma id_option_defs: "i < N_TIDY_OPTIONS \<Longrightarrow> id' (option_defs ! i) = i"
proof -
  have "map id' option_defs = [0..<N_TIDY_OPTIONS]"
    by code_simp
  then have "map id' option_defs ! i = [0..<N_TIDY_OPTIONS] ! i" by simp
  then show "i < N_TIDY_OPTIONS \<Longrightarrow> id' (option_defs ! i) = i"
    by (simp add: length_option_defs)
qed

lemma SkipWhite_stop: "\<not> (IsWhite (ch cf) \<and> \<not> IsNewline (ch cf)) \<Longrightarrow> SkipWhite cf = cf"
  by (subst SkipWhite.simps) (simp only: if_False)

lemma SkipWhite_step:
  "IsWhite (ch cf) \<and> \<not> IsNewline (ch cf) \<Longrightarrow> SkipWhite cf = SkipWhite (c_GetC cf)"
  by (subst SkipWhite.simps) simp

lemma ParseString_loop_EndOfStream:
  "ch cf = EndOfStream \<Longrightarrow> ParseString_loop cf delim waswhite buf = (cf, buf)"
  by (subst ParseString_loop.simps) simp

subsection \<open>The string parser\<close>

text \<open>
  C10.  \<^verbatim>\<open>ParseString\<close> never fails: it returns success for every input.  When the string
  it collected is empty, the slot of a string option is set to the null pointer, not to an
  owned empty string, and the option then compares equal to its default.
\<close>

theorem ParseString_never_fails:
  "snd (ParseString doc option) \<and>
   (length (value' (config doc)) = N_TIDY_OPTIONS \<and> i < N_TIDY_OPTIONS \<and>
    option = option_defs ! i \<and> type option = TidyString \<and>
    cstr (snd (ParseString_scan (config doc))) = [] \<longrightarrow>
      value' (config (fst (ParseString doc option))) ! i = Val_p None \<and>
      OptionValueEqDefault option (value' (config (fst (ParseString doc option))) ! i))"
proof
  show "snd (ParseString doc option)"
    by (simp add: ParseString_def split_beta)
next
  show "length (value' (config doc)) = N_TIDY_OPTIONS \<and> i < N_TIDY_OPTIONS \<and>
    option = option_defs ! i \<and> type option = TidyString \<and>
    cstr (snd (ParseString_scan (config doc))) = [] \<longrightarrow>
      value' (config (fst (ParseString doc option))) ! i = Val_p None \<and>
      OptionValueEqDefault option (value' (config (fst (ParseString doc option))) ! i)"
  proof (intro impI, elim conjE)
    assume len: "length (value' (config doc)) = N_TIDY_OPTIONS" and i: "i < N_TIDY_OPTIONS"
      and opt: "option = option_defs ! i" and ty: "type option = TidyString"
      and empty: "cstr (snd (ParseString_scan (config doc))) = []"
    define cf where "cf = fst (ParseString_scan (config doc))"
    have v: "vals (doc\<lparr>config := cf\<rparr>) = vals doc"
      by (rule vals_config_update) (simp add: cf_def)
    have "vals (fst (ParseString doc option)) = (vals doc)[i := Val_p None]"
      using i empty
      by (simp add: ParseString_def split_beta cf_def [symmetric] opt id_option_defs
          vals_SetOptionValue v)
    then have slot: "value' (config (fst (ParseString doc option))) ! i = Val_p None"
      using len i by (simp add: vals_def)
    moreover have "OptionValueEqDefault option (Val_p None)"
      using ty i by (simp add: OptionValueEqDefault_def opt pdflt_option_defs)
    ultimately show "value' (config (fst (ParseString doc option))) ! i = Val_p None \<and>
      OptionValueEqDefault option (value' (config (fst (ParseString doc option))) ! i)"
      by simp
  qed
qed

text \<open>An instance: the option alt-text holds \<open>x\<close> and is given an empty value.\<close>

theorem ParseString_never_fails_witness:
  "deref (cfgStr (empty_input (SetOptionValue new_doc TidyAltText (Some ''x''))) TidyAltText)
     = Some ''x'' \<and>
   snd (ParseString (empty_input (SetOptionValue new_doc TidyAltText (Some ''x'')))
          (option_defs ! TidyAltText)) \<and>
   value' (config (fst (ParseString
       (empty_input (SetOptionValue new_doc TidyAltText (Some ''x'')))
       (option_defs ! TidyAltText)))) ! TidyAltText = Val_p None"
proof -
  let ?d = "empty_input (SetOptionValue new_doc TidyAltText (Some ''x''))"
  have v: "vals ?d = vals (SetOptionValue new_doc TidyAltText (Some ''x''))"
    by (simp add: empty_input_def vals_def)
  have len: "length (value' (config ?d)) = N_TIDY_OPTIONS"
    using v by (simp add: vals_def [symmetric] vals_SetOptionValue)
  have x: "deref (cfgStr ?d TidyAltText) = Some ''x''"
    by (simp add: cfgStr_def vals_def [symmetric] v vals_SetOptionValue)
  have c: "ch (config ?d) = EndOfStream"
    by (simp add: empty_input_def)
  then have "SkipWhite (config ?d) = config ?d"
    by (intro SkipWhite_stop) simp
  then have "ParseString_scan (config ?d) = (config ?d, [])"
    using c by (simp add: ParseString_scan_def ParseString_loop_EndOfStream EndOfStream_def)
  then have e: "cstr (snd (ParseString_scan (config ?d))) = []"
    by (simp add: cstr_def)
  have ty: "type (option_defs ! TidyAltText) = TidyString"
    by (simp add: option_defs_def)
  show ?thesis
    using ParseString_never_fails [of ?d "option_defs ! TidyAltText" TidyAltText] len x e ty
    by simp
qed


subsection \<open>The character encoding parser\<close>

lemma c_GetC_Cons:
  "cfgIn cf = Some (x # xs) \<Longrightarrow> c_GetC cf = cf\<lparr>cfgIn := Some xs, ch := x\<rparr>"
  by (simp add: c_GetC_def GetC_def ReadChar_def)

lemma c_GetC_Nil:
  "cfgIn cf = Some [] \<Longrightarrow> c_GetC cf = cf\<lparr>cfgIn := Some [], ch := EndOfStream\<rparr>"
  by (simp add: c_GetC_def GetC_def ReadChar_def)

lemma read_token_step:
  "length buf < bound \<and> ch cf \<noteq> EndOfStream \<and> \<not> stop (ch cf) \<Longrightarrow>
   read_token bound stop f cf buf = read_token bound stop f (AdvanceChar cf) (buf @ [char_of (f (ch cf))])"
  by (subst read_token.simps) simp

lemma read_token_stop:
  "\<not> (length buf < bound \<and> ch cf \<noteq> EndOfStream \<and> \<not> stop (ch cf)) \<Longrightarrow>
   read_token bound stop f cf buf = (cf, buf)"
  by (subst read_token.simps) (simp only: if_False)

lemma char_of_mac: "char_of (109::nat) = CHR ''m''" "char_of (97::nat) = CHR ''a''"
  "char_of (99::nat) = CHR ''c''"
  by code_simp+

lemma token_mac:
  assumes "ch cf = 109" "cfgIn cf = Some [97, 99]"
  shows "read_token 62 IsWhite ToLower (SkipWhite cf) [] =
           (cf\<lparr>cfgIn := Some [], ch := EndOfStream\<rparr>, ''mac'')"
proof -
  have 0: "SkipWhite cf = cf" using assms by (intro SkipWhite_stop) (simp add: IsWhite_def)
  have 1: "read_token 62 IsWhite ToLower cf [] =
           read_token 62 IsWhite ToLower (cf\<lparr>cfgIn := Some [99], ch := 97\<rparr>) ''m''"
    using assms
    by (subst read_token_step)
       (simp_all add: IsWhite_def EndOfStream_def ToLower_def AdvanceChar_def c_GetC_Cons char_of_mac)
  have 2: "read_token 62 IsWhite ToLower (cf\<lparr>cfgIn := Some [99], ch := 97\<rparr>) ''m'' =
           read_token 62 IsWhite ToLower (cf\<lparr>cfgIn := Some [], ch := 99\<rparr>) ''ma''"
    by (subst read_token_step)
       (simp_all add: IsWhite_def EndOfStream_def ToLower_def AdvanceChar_def c_GetC_Cons char_of_mac)
  have 3: "read_token 62 IsWhite ToLower (cf\<lparr>cfgIn := Some [], ch := 99\<rparr>) ''ma'' =
           read_token 62 IsWhite ToLower (cf\<lparr>cfgIn := Some [], ch := EndOfStream\<rparr>) ''mac''"
    by (subst read_token_step)
       (simp_all add: IsWhite_def EndOfStream_def ToLower_def AdvanceChar_def c_GetC_Nil char_of_mac)
  have 4: "read_token 62 IsWhite ToLower (cf\<lparr>cfgIn := Some [], ch := EndOfStream\<rparr>) ''mac'' =
           (cf\<lparr>cfgIn := Some [], ch := EndOfStream\<rparr>, ''mac'')"
    by (subst read_token_stop) simp_all
  show ?thesis by (simp only: 0 1 2 3 4)
qed


lemma vals_AdjustCharEncoding_MACROMAN:
  "vals (fst (AdjustCharEncoding doc MACROMAN)) =
     (vals doc)[TidyCharEncoding := Val_v (word_of_int MACROMAN),
                TidyInCharEncoding := Val_v (word_of_int MACROMAN),
                TidyOutCharEncoding := Val_v (word_of_int ASCII)]"
  by (simp add: AdjustCharEncoding_def vals_SetOptionInt MACROMAN_def ASCII_def)

lemma vals_config_cfgIn [simp]:
  "vals (d\<lparr>config := (config d)\<lparr>cfgIn := z\<rparr>\<rparr>) = vals d"
  "snaps (d\<lparr>config := (config d)\<lparr>cfgIn := z\<rparr>\<rparr>) = snaps d"
  by (simp_all add: vals_def snaps_def)

text \<open>
  C7.  Parsing the value \<^verbatim>\<open>mac\<close> for char-encoding succeeds and sets input-encoding to
  Mac-Roman and output-encoding to ASCII; parsing it for input-encoding or for
  output-encoding changes the slot of that option only.  The encoding table resolves
  \<^verbatim>\<open>mac\<close> to \<^verbatim>\<open>MACROMAN\<close> and the input buffer delivers the three characters.
\<close>

theorem ParseCharEnc_mac:
  assumes enc: "GetCharEncodingFromOptName X ''mac'' = MACROMAN"
      and buf: "BufferInput X ''mac'' = [109, 97, 99]"
  shows "(\<exists>doc'. ParseConfigValue X doc TidyCharEncoding (Some ''mac'') = Some (doc', True) \<and>
            value' (config doc') =
              (value' (config doc))[TidyCharEncoding := Val_v (word_of_int MACROMAN),
                                    TidyInCharEncoding := Val_v (word_of_int MACROMAN),
                                    TidyOutCharEncoding := Val_v (word_of_int ASCII)]) \<and>
         (\<exists>doc'. ParseConfigValue X doc TidyInCharEncoding (Some ''mac'') = Some (doc', True) \<and>
            value' (config doc') =
              (value' (config doc))[TidyInCharEncoding := Val_v (word_of_int MACROMAN)]) \<and>
         (\<exists>doc'. ParseConfigValue X doc TidyOutCharEncoding (Some ''mac'') = Some (doc', True) \<and>
            value' (config doc') =
              (value' (config doc))[TidyOutCharEncoding := Val_v (word_of_int MACROMAN)])"
proof -
  define cf where "cf = c_GetC ((config doc)\<lparr>cfgIn := Some (BufferInput X ''mac'')\<rparr>)"
  define cf' where "cf' = cf\<lparr>cfgIn := Some [], ch := EndOfStream\<rparr>"
  have cf: "ch cf = 109" "cfgIn cf = Some [97, 99]" "value' cf = value' (config doc)"
    by (simp_all add: cf_def buf c_GetC_Cons)
  have tok: "read_token 62 IsWhite ToLower (SkipWhite cf) [] = (cf', ''mac'')"
    unfolding cf'_def using cf(1,2) by (rule token_mac)
  have v: "vals (doc\<lparr>config := cf'\<rparr>) = vals doc"
    by (simp add: vals_def cf'_def cf)
  have pe: "ParseCharEnc X (doc\<lparr>config := cf\<rparr>) (option_defs ! i) =
      (let doc2 = SetOptionInt (doc\<lparr>config := cf'\<rparr>) i (word_of_int MACROMAN)
       in if i = TidyCharEncoding then (fst (AdjustCharEncoding doc2 MACROMAN), True)
          else (doc2, True))" if "i < N_TIDY_OPTIONS" for i
    using that
    by (simp add: ParseCharEnc_def tok CharEncodingId_def cstr_def enc id_option_defs Let_def
        MACROMAN_def)
  have p: "parser (option_defs ! TidyCharEncoding) = Some ParseCharEnc_fn"
    "parser (option_defs ! TidyInCharEncoding) = Some ParseCharEnc_fn"
    "parser (option_defs ! TidyOutCharEncoding) = Some ParseCharEnc_fn"
    by (simp_all add: option_defs_def)
  show ?thesis
    by (simp add: ParseConfigValue_def p call_parser_def cf_def [symmetric] pe Let_def
        vals_def [symmetric] vals_AdjustCharEncoding_MACROMAN vals_SetOptionInt v)
qed


theorem ParseCharEnc_mac_witness:
  "GetCharEncodingFromOptName sample_collaborators ''mac'' = MACROMAN \<and>
   BufferInput sample_collaborators ''mac'' = [109, 97, 99] \<and>
   (\<exists>doc'. ParseConfigValue sample_collaborators new_doc TidyCharEncoding (Some ''mac'')
              = Some (doc', True) \<and>
            cfg doc' TidyCharEncoding = word_of_int MACROMAN \<and>
            cfg doc' TidyInCharEncoding = word_of_int MACROMAN \<and>
            cfg doc' TidyOutCharEncoding = word_of_int ASCII) \<and>
   cfg new_doc TidyInCharEncoding = word_of_int UTF8 \<and>
   cfg new_doc TidyOutCharEncoding = word_of_int UTF8"
proof -
  have enc: "GetCharEncodingFromOptName sample_collaborators ''mac'' = MACROMAN"
    by (simp add: sample_collaborators_def charEncPicks_def MACROMAN_def ToLower_def)
  have buf: "BufferInput sample_collaborators ''mac'' = [109, 97, 99]"
    by (simp add: sample_collaborators_def)
  have d: "cfg new_doc TidyInCharEncoding = word_of_int UTF8"
    "cfg new_doc TidyOutCharEncoding = word_of_int UTF8"
    by (simp_all add: cfg_vals nth_vals_new_doc)
       (simp_all add: option_defs_def GetOptionDefault_def)
  from ParseCharEnc_mac [OF enc buf, of new_doc]
  obtain doc' where
    "ParseConfigValue sample_collaborators new_doc TidyCharEncoding (Some ''mac'')
       = Some (doc', True)"
    and v: "vals doc' = (vals new_doc)[TidyCharEncoding := Val_v (word_of_int MACROMAN),
                                    TidyInCharEncoding := Val_v (word_of_int MACROMAN),
                                    TidyOutCharEncoding := Val_v (word_of_int ASCII)]"
    unfolding vals_def by blast
  moreover have "cfg doc' TidyCharEncoding = word_of_int MACROMAN"
    "cfg doc' TidyInCharEncoding = word_of_int MACROMAN"
    "cfg doc' TidyOutCharEncoding = word_of_int ASCII"
    by (simp_all add: cfg_vals v)
  ultimately show ?thesis using enc buf d by blast
qed


subsection \<open>Comparing with the snapshot\<close>

text \<open>What the \<^verbatim>\<open>memcmp\<close> of \<^verbatim>\<open>ConfigDiffThanSnapshot\<close> compares: the 396 bytes are the
  first 49 slots and the low half of slot 49, and a slot is compared by its bits, so a
  string by its address.\<close>

lemma length_slot_bytes [simp]: "length (slot_bytes x) = 8"
  by (simp add: slot_bytes_def)

lemma length_concat_slot_bytes [simp]: "length (concat (map slot_bytes xs)) = 8 * length xs"
  by (induction xs) simp_all

lemma byte_bit:
  "m < 8 \<Longrightarrow> bit (ucast (drop_bit (8 * k) (v :: 64 word)) :: 8 word) m = bit v (8 * k + m)"
  by (simp add: bit_ucast_iff bit_drop_bit_eq)

lemma slot_bytes_eq_iff: "slot_bytes x = slot_bytes y \<longleftrightarrow> get_v x = get_v y"
proof
  assume eq: "slot_bytes x = slot_bytes y"
  then have b: "(ucast (drop_bit (8 * k) (get_v x)) :: 8 word) = ucast (drop_bit (8 * k) (get_v y))"
    if "k < 8" for k
    using that by (simp add: slot_bytes_def)
  show "get_v x = get_v y"
  proof (rule bit_word_eqI)
    fix n assume "n < LENGTH(64)"
    then have k: "n div 8 < 8" and m: "n mod 8 < 8" by simp_all
    have "bit (get_v x) (8 * (n div 8) + n mod 8) = bit (get_v y) (8 * (n div 8) + n mod 8)"
      using b [OF k] byte_bit [OF m, of "n div 8" "get_v x"] byte_bit [OF m, of "n div 8" "get_v y"]
      by simp
    then show "bit (get_v x) n = bit (get_v y) n" by simp
  qed
next
  assume "get_v x = get_v y"
  then show "slot_bytes x = slot_bytes y" by (simp add: slot_bytes_def)
qed

lemma take4_slot_bytes_eq_iff:
  "take 4 (slot_bytes x) = take 4 (slot_bytes y)
     \<longleftrightarrow> (ucast (get_v x) :: 32 word) = ucast (get_v y)"
proof
  assume eq: "take 4 (slot_bytes x) = take 4 (slot_bytes y)"
  have t: "take 4 (slot_bytes z) = map (\<lambda>k. ucast (drop_bit (8 * k) (get_v z))) [0..<4]" for z
    by (simp add: slot_bytes_def take_map)
  from eq have b: "(ucast (drop_bit (8 * k) (get_v x)) :: 8 word) = ucast (drop_bit (8 * k) (get_v y))"
    if "k < 4" for k
    using that unfolding t by simp
  show "(ucast (get_v x) :: 32 word) = ucast (get_v y)"
  proof (rule bit_word_eqI)
    fix n assume n: "n < LENGTH(32)"
    then have k: "n div 8 < 4" and m: "n mod 8 < 8" by simp_all
    have "bit (get_v x) (8 * (n div 8) + n mod 8) = bit (get_v y) (8 * (n div 8) + n mod 8)"
      using b [OF k] byte_bit [OF m, of "n div 8" "get_v x"] byte_bit [OF m, of "n div 8" "get_v y"]
      by simp
    then show "bit (ucast (get_v x) :: 32 word) n = bit (ucast (get_v y) :: 32 word) n"
      using n by (simp add: bit_ucast_iff)
  qed
next
  assume eq: "(ucast (get_v x) :: 32 word) = ucast (get_v y)"
  have "(ucast (drop_bit (8 * k) (get_v x)) :: 8 word) = ucast (drop_bit (8 * k) (get_v y))"
    if "k < 4" for k
  proof (rule bit_word_eqI)
    fix m assume m: "m < LENGTH(8)"
    have "bit (ucast (get_v x) :: 32 word) (8 * k + m) = bit (ucast (get_v y) :: 32 word) (8 * k + m)"
      using eq by simp
    moreover have "8 * k + m < 32" using that m by simp
    ultimately have "bit (get_v x) (8 * k + m) = bit (get_v y) (8 * k + m)"
      by (simp add: bit_ucast_iff)
    then show "bit (ucast (drop_bit (8 * k) (get_v x)) :: 8 word) m
             = bit (ucast (drop_bit (8 * k) (get_v y)) :: 8 word) m"
      using m by (simp add: byte_bit)
  qed
  then show "take 4 (slot_bytes x) = take 4 (slot_bytes y)"
    by (simp add: slot_bytes_def take_map)
qed

lemma take_396:
  assumes "length xs = N_TIDY_OPTIONS"
  shows "take 396 (concat (map slot_bytes xs)) =
           concat (map slot_bytes (take 49 xs)) @ take 4 (slot_bytes (xs ! 49))"
proof -
  have "xs = take 49 xs @ xs ! 49 # drop 50 xs"
    using assms id_take_nth_drop [of 49 xs] by simp
  then have "concat (map slot_bytes xs) =
      concat (map slot_bytes (take 49 xs)) @ slot_bytes (xs ! 49) @ concat (map slot_bytes (drop 50 xs))"
    by (metis concat.simps(2) concat_append list.simps(9) map_append)
  moreover have "length (concat (map slot_bytes (take 49 xs))) = 392"
    using assms by simp
  ultimately show ?thesis by simp
qed

lemma ConfigDiffThanSnapshot_iff:
  assumes "config_sized doc"
  shows "ConfigDiffThanSnapshot doc \<longleftrightarrow>
           (\<exists>i<49. get_v (vals doc ! i) \<noteq> get_v (snaps doc ! i)) \<or>
           (ucast (get_v (vals doc ! 49)) :: 32 word) \<noteq> ucast (get_v (snaps doc ! 49))"
proof -
  have lv: "length (vals doc) = N_TIDY_OPTIONS" and ls: "length (snaps doc) = N_TIDY_OPTIONS"
    using assms by (simp_all add: config_sized_alt)
  have c: "(concat (map slot_bytes (take 49 (vals doc))) = concat (map slot_bytes (take 49 (snaps doc))))
      = (map slot_bytes (take 49 (vals doc)) = map slot_bytes (take 49 (snaps doc)))"
  proof (rule concat_eq_concat_iff)
    show "\<forall>(x, y)\<in>set (zip (map slot_bytes (take 49 (vals doc)))
        (map slot_bytes (take 49 (snaps doc)))). length x = length y"
      by (auto simp: zip_map_map)
  qed (simp add: lv ls)
  have m: "(map slot_bytes (take 49 (vals doc)) = map slot_bytes (take 49 (snaps doc)))
      = (\<forall>i<49. get_v (vals doc ! i) = get_v (snaps doc ! i))"
  proof -
    have "(map slot_bytes (take 49 (vals doc)) = map slot_bytes (take 49 (snaps doc)))
      = (\<forall>i<49. slot_bytes (vals doc ! i) = slot_bytes (snaps doc ! i))"
      by (subst list_eq_iff_nth_eq) (simp add: lv ls)
    then show ?thesis by (simp only: slot_bytes_eq_iff)
  qed
  show ?thesis
    unfolding ConfigDiffThanSnapshot_def memcmp_def vals_def [symmetric] snaps_def [symmetric]
    by (simp add: take_396 [OF lv] take_396 [OF ls] lv ls c m take4_slot_bytes_eq_iff)
qed


lemma allocator_AdjustConfig_k [simp]:
  "allocator (AdjustConfig_1 doc) = allocator doc"
  "allocator (AdjustConfig_2 doc) = allocator doc"
  "allocator (AdjustConfig_3 doc) = allocator doc"
  "allocator (AdjustConfig_4 doc) = allocator doc"
  "allocator (AdjustConfig_5 doc) = allocator doc"
  "allocator (AdjustConfig_6 doc) = allocator doc"
  "allocator (AdjustConfig_7 doc) = allocator doc"
  "allocator (AdjustConfig_8 doc) = allocator doc"
  "allocator (AdjustConfig_9 doc) = allocator doc"
  by (simp_all add: AdjustConfig_1_def AdjustConfig_2_def AdjustConfig_3_def
      AdjustConfig_4_def AdjustConfig_5_def AdjustConfig_6_def AdjustConfig_7_def
      AdjustConfig_8_def AdjustConfig_9_def Let_def SetOptionBool_def SetOptionInt_def
      set_value_def DefineTag_def)

lemma allocator_AdjustConfig [simp]: "allocator (AdjustConfig doc) = allocator doc"
  by (simp add: AdjustConfig_def)

lemma string_slots_AdjustConfig:
  assumes "length (vals doc) = N_TIDY_OPTIONS" "j < N_TIDY_OPTIONS"
    "type (option_defs ! j) = TidyString"
  shows "vals (AdjustConfig doc) ! j = vals doc ! j"
proof -
  have "type (option_defs ! k) \<noteq> TidyString"
    if "k \<in> {TidyEncloseBodyText, TidyIndentSpaces, TidyWrapLen, TidyXhtmlOut, TidyXmlOut,
        TidyUpperCaseTags, TidyUpperCaseAttrs, TidyXmlPIs, TidyXmlDecl, TidyOmitOptionalTags,
        TidyQuoteAmpersand, TidyOutputBOM}" for k
    using that by (auto simp: option_defs_def)
  then have "j \<notin> {TidyEncloseBodyText, TidyIndentSpaces, TidyWrapLen, TidyXhtmlOut, TidyXmlOut,
        TidyUpperCaseTags, TidyUpperCaseAttrs, TidyXmlPIs, TidyXmlDecl, TidyOmitOptionalTags,
        TidyQuoteAmpersand, TidyOutputBOM}"
    using assms(3) by blast
  then show ?thesis
    using assms(1,2) by (simp add: nth_AdjustConfig Let_def)
qed

lemma allocator_SetOptionValue:
  "i < N_TIDY_OPTIONS \<Longrightarrow> s \<noteq> [] \<Longrightarrow>
   allocator (SetOptionValue doc i (Some s)) = Suc (allocator doc)"
  by (simp add: SetOptionValue_def FreeOptionValue_def TidyDocFree_def Let_def set_value_def)

lemma allocator_TakeConfigSnapshot_body:
  "type (option_defs ! n) \<noteq> TidyString \<Longrightarrow> allocator (TakeConfigSnapshot_body n d) = allocator d"
  by (simp add: TakeConfigSnapshot_body_def CopyOptionValue_def FreeOptionValue_def Let_def
      set_snapshot_def)

lemma difference_right_after_snapshot:
  "ConfigDiffThanSnapshot (TakeConfigSnapshot (SetOptionValue new_doc TidyAltText (Some ''x''))) \<and>
   list_all (\<lambda>i. OptionValueIdentical (option_defs ! i)
       (value' (config (TakeConfigSnapshot (SetOptionValue new_doc TidyAltText (Some ''x'')))) ! i)
       (snapshot (config (TakeConfigSnapshot (SetOptionValue new_doc TidyAltText (Some ''x'')))) ! i))
     [0..<N_TIDY_OPTIONS]"
proof
  let ?d = "SetOptionValue new_doc TidyAltText (Some ''x'')"
  let ?A = "AdjustConfig ?d"
  let ?T = "TakeConfigSnapshot ?d"
  have sized: "config_sized ?d"
    by (simp add: config_sized_alt vals_SetOptionValue snaps_new_doc)
  have len: "length (vals ?d) = N_TIDY_OPTIONS" using sized by (simp add: config_sized_alt)
  have vT: "vals ?T = vals ?A" and lsT: "length (snaps ?T) = N_TIDY_OPTIONS"
    and cT: "\<And>i. i < N_TIDY_OPTIONS \<Longrightarrow> is_copy (option_defs ! i) (vals ?A ! i) (snaps ?T ! i)"
    using TakeConfigSnapshot_facts [OF sized] by simp_all
  have sizedT: "config_sized ?T"
    by (simp add: config_sized_alt vT lsT len)
  have ty: "type (option_defs ! 0) \<noteq> TidyString" "type (option_defs ! 1) \<noteq> TidyString"
    "type (option_defs ! TidyAltText) = TidyString"
    by (simp_all add: option_defs_def)
  have v2: "vals ?A ! TidyAltText = Val_p (Some (Suc (allocator new_doc), ''x''))"
    by (simp add: string_slots_AdjustConfig [OF len] ty vals_SetOptionValue)
  define B where "B = TakeConfigSnapshot_body 1 (TakeConfigSnapshot_body 0 ?A)"
  have "allocator B = allocator (TakeConfigSnapshot_body 0 ?A)"
    unfolding B_def by (rule allocator_TakeConfigSnapshot_body) (simp add: option_defs_def)
  also have "\<dots> = allocator ?A"
    by (rule allocator_TakeConfigSnapshot_body) (simp add: option_defs_def)
  finally have aB: "allocator B = Suc (allocator new_doc)"
    by (simp add: allocator_SetOptionValue)
  have vB: "vals B = vals ?A" by (simp add: B_def)
  have lB: "length (snaps B) = N_TIDY_OPTIONS"
    using sized by (simp add: B_def snaps_TakeConfigSnapshot_body config_sized_alt)
  define ns :: "nat list" where "ns = [3..<N_TIDY_OPTIONS]"
  have ns: "distinct ns" "set ns = {3..<N_TIDY_OPTIONS}"
    unfolding ns_def by (simp_all only: distinct_upt set_upt)
  have split: "[0..<N_TIDY_OPTIONS] = [0, 1, 2] @ ns"
  proof -
    have "[0..<3 + 96] = [0..<3] @ [3..<3 + 96::nat]" by (rule upt_add_eq_append) simp
    moreover have "[0..<3::nat] = [0, 1, 2]" by (simp add: upt_conv_Cons)
    ultimately show ?thesis unfolding ns_def by simp
  qed
  have "?T = fold TakeConfigSnapshot_body ns (TakeConfigSnapshot_body 2 B)"
    unfolding TakeConfigSnapshot_def split B_def by simp
  moreover have "\<forall>i\<in>set ns. i < length (snaps (TakeConfigSnapshot_body 2 B))"
    by (simp add: snaps_TakeConfigSnapshot_body lB ns)
  ultimately have "snaps ?T ! 2 = snaps (TakeConfigSnapshot_body 2 B) ! 2"
    using Take_fold [OF ns(1), of "TakeConfigSnapshot_body 2 B"] by (simp add: ns)
  also have "\<dots> = Val_p (Some (Suc (Suc (allocator new_doc)), ''x''))"
    by (simp add: snaps_TakeConfigSnapshot_body lB vB v2 CopyOptionValue_def FreeOptionValue_def
        TidyDocFree_def ty pdflt_option_defs Let_def aB)
  finally have s2: "snaps ?T ! 2 = Val_p (Some (Suc (Suc (allocator new_doc)), ''x''))" .
  have "get_v (vals ?T ! 2) \<noteq> get_v (snaps ?T ! 2)"
    by (simp add: vT v2 s2)
  then show "ConfigDiffThanSnapshot ?T"
    unfolding ConfigDiffThanSnapshot_iff [OF sizedT] by (intro disjI1 exI [of _ 2]) simp
  have "OptionValueIdentical (option_defs ! i) (vals ?T ! i) (snaps ?T ! i)"
    if "i < N_TIDY_OPTIONS" for i
    using cT [OF that] by (simp add: vT OptionValueIdentical_copy)
  then show "list_all (\<lambda>i. OptionValueIdentical (option_defs ! i)
       (value' (config ?T) ! i) (snapshot (config ?T) ! i)) [0..<N_TIDY_OPTIONS]"
    by (simp add: list_all_iff vals_def snaps_def)
qed


lemma get_v_copy:
  "is_copy opt new y \<Longrightarrow> (type opt = TidyString \<longrightarrow> get_p new = None) \<Longrightarrow> get_v y = get_v new"
  by (cases new) (auto simp: is_copy_def CopyOptionValue_def Let_def split_beta split: if_splits)

lemma second_half_ignored:
  "\<not> ConfigDiffThanSnapshot (SetOptionInt (TakeConfigSnapshot new_doc) TidyWrapLen 72) \<and>
   \<not> OptionValueIdentical (option_defs ! TidyWrapLen)
       (value' (config (SetOptionInt (TakeConfigSnapshot new_doc) TidyWrapLen 72)) ! TidyWrapLen)
       (snapshot (config (SetOptionInt (TakeConfigSnapshot new_doc) TidyWrapLen 72)) ! TidyWrapLen)"
proof
  let ?A = "AdjustConfig new_doc"
  let ?T = "TakeConfigSnapshot new_doc"
  let ?D = "SetOptionInt ?T TidyWrapLen 72"
  have sized: "config_sized new_doc"
    by (simp add: config_sized_alt snaps_new_doc)
  have vT: "vals ?T = vals ?A" and lsT: "length (snaps ?T) = N_TIDY_OPTIONS"
    and cT: "\<And>i. i < N_TIDY_OPTIONS \<Longrightarrow> is_copy (option_defs ! i) (vals ?A ! i) (snaps ?T ! i)"
    using TakeConfigSnapshot_facts [OF sized] by simp_all
  have sizedD: "config_sized ?D"
    by (simp add: config_sized_alt vT lsT)
  have null: "get_p (vals ?A ! i) = None"
    if "i < N_TIDY_OPTIONS" "type (option_defs ! i) = TidyString" for i
    using that
    by (simp add: string_slots_AdjustConfig nth_vals_new_doc GetOptionDefault_def
        pdflt_option_defs)
  have same: "get_v (snaps ?T ! i) = get_v (vals ?A ! i)" if "i < N_TIDY_OPTIONS" for i
    using cT [OF that] null [OF that] by (intro get_v_copy) auto
  have low: "get_v (vals ?D ! i) = get_v (snaps ?D ! i)" if "i < 50" for i
    using that same [of i] by (simp add: vals_SetOptionInt vT)
  have "\<forall>i<49. get_v (vals ?D ! i) = get_v (snaps ?D ! i)" using low by simp
  moreover have "get_v (vals ?D ! 49) = get_v (snaps ?D ! 49)" using low by simp
  ultimately show "\<not> ConfigDiffThanSnapshot ?D"
    unfolding ConfigDiffThanSnapshot_iff [OF sizedD] by simp
  have "vals ?A ! TidyWrapLen = Val_v 68"
    by (simp add: nth_AdjustConfig Let_def new_doc_defaults)
  then have "get_v (snaps ?T ! TidyWrapLen) = 68"
    using same [of TidyWrapLen] by simp
  moreover have "type (option_defs ! TidyWrapLen) = TidyInteger" by (simp add: option_defs_def)
  ultimately show "\<not> OptionValueIdentical (option_defs ! TidyWrapLen)
       (value' (config ?D) ! TidyWrapLen) (snapshot (config ?D) ! TidyWrapLen)"
    using sizedD
    by (simp add: OptionValueIdentical_def vals_def [symmetric] snaps_def [symmetric]
        vals_SetOptionInt config_sized_alt)
qed


text \<open>
  C3.  \<^verbatim>\<open>ConfigDiffThanSnapshot\<close> is specified to report no difference exactly when
  current and snapshot are structurally equal, owned strings being compared by content.
  The code compares bytes.  Right after a snapshot of a configuration whose alt-text is
  \<open>x\<close>, every option is identical to its snapshot by \<^verbatim>\<open>OptionValueIdentical\<close>, yet a
  difference is reported, since the snapshot holds a copy of the string at another address.
  And after wrap is then changed from 68 to 72 in a fresh configuration, no difference is
  reported, since the 396 bytes compared end before the slot of wrap.
\<close>

theorem ConfigDiffThanSnapshot_compares_bytes:
  "(ConfigDiffThanSnapshot (TakeConfigSnapshot (SetOptionValue new_doc TidyAltText (Some ''x''))) \<and>
    list_all (\<lambda>i. OptionValueIdentical (option_defs ! i)
       (value' (config (TakeConfigSnapshot (SetOptionValue new_doc TidyAltText (Some ''x'')))) ! i)
       (snapshot (config (TakeConfigSnapshot (SetOptionValue new_doc TidyAltText (Some ''x'')))) ! i))
     [0..<N_TIDY_OPTIONS]) \<and>
   (\<not> ConfigDiffThanSnapshot (SetOptionInt (TakeConfigSnapshot new_doc) TidyWrapLen 72) \<and>
    \<not> OptionValueIdentical (option_defs ! TidyWrapLen)
       (value' (config (SetOptionInt (TakeConfigSnapshot new_doc) TidyWrapLen 72)) ! TidyWrapLen)
       (snapshot (config (SetOptionInt (TakeConfigSnapshot new_doc) TidyWrapLen 72)) ! TidyWrapLen))"
  using difference_right_after_snapshot second_half_ignored by (rule conjI)

section \<open>Configuration files\<close>

subsection \<open>The initial document, written out\<close>


lemma fst_CopyOptionValue_default:
  "pdflt opt = None \<Longrightarrow> fst (CopyOptionValue d opt old (GetOptionDefault opt)) = d"
  by (simp add: CopyOptionValue_def GetOptionDefault_def FreeOptionValue_def TidyDocFree_def
      Let_def)

lemma ResetConfigToDefault_body_eq:
  "n < N_TIDY_OPTIONS \<Longrightarrow>
   ResetConfigToDefault_body n d = set_value d n (GetOptionDefault (option_defs ! n))"
  by (simp add: ResetConfigToDefault_body_def Let_def split_beta fst_CopyOptionValue_default
      CopyOptionValue_default pdflt_option_defs)

lemma ResetConfigToDefault_fold_eq:
  "\<forall>i\<in>set ns. i < N_TIDY_OPTIONS \<Longrightarrow>
   fold ResetConfigToDefault_body ns d =
     d\<lparr>config := (config d)\<lparr>value' := vals (fold ResetConfigToDefault_body ns d)\<rparr>\<rparr>"
proof (induction ns arbitrary: d)
  case Nil
  then show ?case by (simp add: vals_def)
next
  case (Cons n ns)
  let ?d1 = "ResetConfigToDefault_body n d"
  have d1: "?d1 = set_value d n (GetOptionDefault (option_defs ! n))"
    using Cons.prems by (simp add: ResetConfigToDefault_body_eq)
  have "fold ResetConfigToDefault_body (n # ns) d = fold ResetConfigToDefault_body ns ?d1"
    by simp
  also have "\<dots> = ?d1\<lparr>config := (config ?d1)\<lparr>value' :=
      vals (fold ResetConfigToDefault_body ns ?d1)\<rparr>\<rparr>"
    using Cons.prems by (intro Cons.IH) simp
  also have "\<dots> = d\<lparr>config := (config d)\<lparr>value' :=
      vals (fold ResetConfigToDefault_body (n # ns) d)\<rparr>\<rparr>"
    by (simp add: d1 set_value_def)
  finally show ?case .
qed

lemma new_doc_eq:
  "new_doc =
     \<lparr>config = \<lparr>value' = map GetOptionDefault option_defs,
                snapshot = replicate N_TIDY_OPTIONS (Val_v 0),
                defined_tags = 0, ch = 0, cfgIn = None\<rparr>,
      optionErrors = 0, allocator = 0, pOptCallback = None, pConfigCallback = None,
      declared_tags = [], messages = []\<rparr>"
proof -
  define d0 where "d0 = \<lparr>config = \<lparr>value' = replicate N_TIDY_OPTIONS (Val_v 0),
                snapshot = replicate N_TIDY_OPTIONS (Val_v 0),
                defined_tags = 0, ch = 0, cfgIn = None\<rparr>,
      optionErrors = 0, allocator = 0, pOptCallback = None, pConfigCallback = None,
      declared_tags = [], messages = []\<rparr>"
  define ns where "ns = [0..<N_TIDY_OPTIONS]"
  have ns: "\<forall>i\<in>set ns. i < N_TIDY_OPTIONS" by (simp add: ns_def)
  have n: "new_doc = FreeDeclaredTags (fold ResetConfigToDefault_body ns d0) tagtype_null"
    by (simp add: new_doc_def InitConfig_def ResetConfigToDefault_def d0_def ns_def)
  have v: "vals (fold ResetConfigToDefault_body ns d0) = map GetOptionDefault option_defs"
    using vals_new_doc unfolding n by (simp only: vals_FreeDeclaredTags)
  show ?thesis
    unfolding n
    apply (subst ResetConfigToDefault_fold_eq [OF ns])
    apply (simp only: v)
    apply (simp add: FreeDeclaredTags_def d0_def)
    done
qed


lemma optionErrors_AdjustConfig_k [simp]:
  "optionErrors (SetOptionInt d i n) = optionErrors d"
  "optionErrors (SetOptionBool d i b) = optionErrors d"
  "messages (SetOptionInt d i n) = messages d"
  "messages (SetOptionBool d i b) = messages d"
  by (simp_all add: SetOptionInt_def SetOptionBool_def set_value_def)

lemma reports_AdjustConfig_k:
  "optionErrors (AdjustConfig_1 d) = optionErrors d \<and> messages (AdjustConfig_1 d) = messages d"
  "optionErrors (AdjustConfig_2 d) = optionErrors d \<and> messages (AdjustConfig_2 d) = messages d"
  "optionErrors (AdjustConfig_3 d) = optionErrors d \<and> messages (AdjustConfig_3 d) = messages d"
  "optionErrors (AdjustConfig_4 d) = optionErrors d \<and> messages (AdjustConfig_4 d) = messages d"
  "optionErrors (AdjustConfig_5 d) = optionErrors d \<and> messages (AdjustConfig_5 d) = messages d"
  "optionErrors (AdjustConfig_6 d) = optionErrors d \<and> messages (AdjustConfig_6 d) = messages d"
  "optionErrors (AdjustConfig_7 d) = optionErrors d \<and> messages (AdjustConfig_7 d) = messages d"
  "optionErrors (AdjustConfig_8 d) = optionErrors d \<and> messages (AdjustConfig_8 d) = messages d"
  "optionErrors (AdjustConfig_9 d) = optionErrors d \<and> messages (AdjustConfig_9 d) = messages d"
  by (simp_all add: AdjustConfig_1_def AdjustConfig_2_def AdjustConfig_3_def AdjustConfig_4_def
      AdjustConfig_5_def AdjustConfig_6_def AdjustConfig_7_def AdjustConfig_8_def
      AdjustConfig_9_def DefineTag_def Let_def)

lemma reports_AdjustConfig:
  "optionErrors (AdjustConfig d) = optionErrors d" "messages (AdjustConfig d) = messages d"
  by (simp_all add: AdjustConfig_def reports_AdjustConfig_k)

lemma ParseConfigFileEnc_result:
  assumes "ParseConfigFileEnc X doc fin charenc = Some (doc', rc)"
  shows "rc = (if fin = None \<or> CharEncodingId X charenc < 0 then - 1
               else if optionErrors doc' > optionErrors doc then 1 else 0)"
  using assms
  by (auto simp: ParseConfigFileEnc_def Let_def split: if_splits option.splits)

lemma store_NextProperty_skip [simp]: "store (NextProperty_skip cf) = store cf"
proof (induction cf rule: NextProperty_skip.induct)
  case (1 cf)
  show ?case
  proof (cases "ch cf \<noteq> 10 \<and> ch cf \<noteq> 13 \<and> ch cf \<noteq> EndOfStream")
    case True
    then have "NextProperty_skip cf = NextProperty_skip (c_GetC cf)"
      by (subst NextProperty_skip.simps) simp
    with 1 True show ?thesis by simp
  next
    case False
    then have "NextProperty_skip cf = cf"
      by (subst NextProperty_skip.simps) (simp only: if_False)
    then show ?thesis by simp
  qed
qed

lemma store_NextProperty_step [simp]: "store (NextProperty_step cf) = store cf"
  by (simp add: NextProperty_step_def Let_def)

lemma store_NextProperty [simp]: "store (NextProperty cf) = store cf"
proof (induction cf rule: NextProperty.induct)
  case (1 cf)
  show ?case
  proof (cases "IsWhite (ch (NextProperty_step cf))")
    case True
    then have "NextProperty cf = NextProperty (NextProperty_step cf)"
      by (subst NextProperty.simps) (simp add: Let_def)
    with 1 True show ?thesis by simp
  next
    case False
    then have "NextProperty cf = NextProperty_step cf"
      by (subst NextProperty.simps) (simp add: Let_def)
    then show ?thesis by simp
  qed
qed

text \<open>
  C9.  A property line of the configuration file whose name is not in the table, when
  neither callback is installed, is answered by \<^verbatim>\<open>ReportUnknownOption\<close>: the body of the
  loop returns, the error count is one more, the message names the option, and no slot of
  the value array changes, neither in the body nor in \<^verbatim>\<open>NextProperty\<close>; the loop then goes
  on from the next property.  \<^verbatim>\<open>ParseConfigFileEnc\<close> returns \<open>- 1\<close> when the file cannot be
  opened or the encoding name is unknown; otherwise, when it returns, the result is 1 if
  the error count is larger than at the call and 0 if not.
\<close>

theorem unknown_option_line:
  assumes "pOptCallback doc = None" and "pConfigCallback doc = None"
    and "ch (config doc) \<noteq> EndOfStream" and "ch (config doc) \<noteq> 47"
    and "ch (config doc) \<noteq> 35"
    and "read_token 63 (\<lambda>x. x = 10 \<or> x = 58) id (config doc) [] = (cf, nm)"
    and "ch cf = 58"
    and "lookupOption (cstr nm) = None"
  shows "(let doc1 = ReportUnknownOption (doc\<lparr>config := AdvanceChar cf\<rparr>) (cstr nm);
              doc2 = doc1\<lparr>config := NextProperty (config doc1)\<rparr>
          in ParseConfigFile_body X doc = Some doc1
             \<and> optionErrors doc1 = optionErrors doc + 1
             \<and> messages doc1 = messages doc @ [UnknownOption (cstr nm)]
             \<and> value' (config doc1) = value' (config doc)
             \<and> value' (config doc2) = value' (config doc)
             \<and> ParseConfigFile_loop X doc = ParseConfigFile_loop X doc2)
         \<and> ParseConfigFileEnc X doc0 None charenc = Some (ReportFileError doc0, - 1)
         \<and> (CharEncodingId X charenc < 0 \<longrightarrow>
              ParseConfigFileEnc X doc0 fin charenc = Some (ReportFileError doc0, - 1))
         \<and> (ParseConfigFileEnc X doc0 fin charenc = Some (doc', rc) \<longrightarrow>
              rc = (if fin = None \<or> CharEncodingId X charenc < 0 then - 1
                    else if optionErrors doc0 < optionErrors doc' then 1 else 0))"
proof -
  let ?doc1 = "ReportUnknownOption (doc\<lparr>config := AdvanceChar cf\<rparr>) (cstr nm)"
  have b: "ParseConfigFile_body X doc = Some ?doc1"
    using assms by (simp add: ParseConfigFile_body_def Let_def)
  have l: "ParseConfigFile_loop X doc
             = ParseConfigFile_loop X (?doc1\<lparr>config := NextProperty (config ?doc1)\<rparr>)"
    using assms(3) by (subst ParseConfigFile_loop.simps) (simp add: b)
  have "store (AdvanceChar cf) = store (config doc)"
    using store_read_token [of 63 "\<lambda>x. x = 10 \<or> x = 58" id "config doc" "[]"] assms(6)
    by simp
  then have v: "value' (AdvanceChar cf) = value' (config doc)"
    "value' (NextProperty (AdvanceChar cf)) = value' (config doc)"
    using store_NextProperty [of "AdvanceChar cf"] by (simp_all add: store_def)
  have r: "ParseConfigFileEnc X doc0 fin charenc = Some (doc', rc) \<longrightarrow>
              rc = (if fin = None \<or> CharEncodingId X charenc < 0 then - 1
                    else if optionErrors doc0 < optionErrors doc' then 1 else 0)"
    using ParseConfigFileEnc_result [of X doc0 fin charenc doc' rc] by simp
  show ?thesis
    unfolding Let_def
    apply (intro conjI)
            apply (rule b)
           apply (simp add: ReportUnknownOption_def)
          apply (simp add: ReportUnknownOption_def)
         apply (simp add: ReportUnknownOption_def v)
        apply (simp add: ReportUnknownOption_def v)
       apply (rule l)
      apply (simp add: ParseConfigFileEnc_def)
     apply (simp add: ParseConfigFileEnc_def)
    apply (rule r)
    done
qed

subsection \<open>A file of two lines\<close>

lemma sample_file_eq:
  "sample_file = [102, 111, 111, 58, 32, 49, 10, 119, 114, 97, 112, 58, 32, 55, 50, 10]"
  by (simp add: sample_file_def)

lemma char_of_name: "char_of (102::nat) = CHR ''f''" "char_of (111::nat) = CHR ''o''"
  "char_of (119::nat) = CHR ''w''" "char_of (114::nat) = CHR ''r''"
  "char_of (97::nat) = CHR ''a''" "char_of (112::nat) = CHR ''p''"
  by code_simp+

lemma NextProperty_skip_step:
  "ch cf \<noteq> 10 \<and> ch cf \<noteq> 13 \<and> ch cf \<noteq> EndOfStream \<Longrightarrow>
   NextProperty_skip cf = NextProperty_skip (c_GetC cf)"
  by (subst NextProperty_skip.simps) simp

lemma NextProperty_skip_stop:
  "\<not> (ch cf \<noteq> 10 \<and> ch cf \<noteq> 13 \<and> ch cf \<noteq> EndOfStream) \<Longrightarrow> NextProperty_skip cf = cf"
  by (subst NextProperty_skip.simps) (simp only: if_False)

lemma NextProperty_stop:
  "\<not> IsWhite (ch (NextProperty_step cf)) \<Longrightarrow> NextProperty cf = NextProperty_step cf"
  by (subst NextProperty.simps) (simp add: Let_def)

lemma ParseInt_loop_step:
  "IsDigit (ch cf) \<Longrightarrow>
   ParseInt_loop cf number digits
     = ParseInt_loop (AdvanceChar cf) (of_nat (ch cf - 48) + 10 * number) True"
  by (subst ParseInt_loop.simps) simp

lemma ParseInt_loop_stop:
  "\<not> IsDigit (ch cf) \<Longrightarrow> ParseInt_loop cf number digits = (cf, number, digits)"
  by (subst ParseInt_loop.simps) simp

lemma lookupOption_foo: "lookupOption ''foo'' = None"
  by (simp add: lookupOption_def option_defs_def ToLower_def)

lemma lookupOption_wrap: "lookupOption ''wrap'' = Some (option_defs ! TidyWrapLen)"
  by (simp add: lookupOption_def option_defs_def ToLower_def)

lemma option_wrap: "parser (option_defs ! TidyWrapLen) = Some ParseInt_fn"
  "id' (option_defs ! TidyWrapLen) = TidyWrapLen"
  by (simp_all add: option_defs_def)

lemma CharEncodingId_ascii: "CharEncodingId sample_collaborators ''ascii'' = 1"
  by (simp add: CharEncodingId_def sample_collaborators_def charEncPicks_def ToLower_def)


text \<open>The file \<open>sample_file\<close>: its first line names no option and is reported, its
  second line sets the wrap width, and the result is 1.\<close>

theorem unknown_option_line_witness:
  "pOptCallback sample_doc = None \<and> pConfigCallback sample_doc = None
   \<and> ch (config sample_doc) = 102
   \<and> snd (read_token 63 (\<lambda>x. x = 10 \<or> x = 58) id (config sample_doc) []) = ''foo''
   \<and> ch (fst (read_token 63 (\<lambda>x. x = 10 \<or> x = 58) id (config sample_doc) [])) = 58
   \<and> lookupOption ''foo'' = None
   \<and> map_option
         (\<lambda>r. (snd r, cfg (fst r) TidyWrapLen, optionErrors (fst r), messages (fst r)))
         (ParseConfigFileEnc sample_collaborators new_doc (Some sample_file) ''ascii'')
       = Some (1, 72, 1, [UnknownOption ''foo''])"
proof -
  define V0 where "V0 = map GetOptionDefault option_defs"
  define st where "st v c s =
    \<lparr>value' = v, snapshot = replicate N_TIDY_OPTIONS (Val_v 0), defined_tags = 0,
     ch = c, cfgIn = s\<rparr>" for v c s
  define dc where "dc cf e m =
    \<lparr>config = cf, optionErrors = e, allocator = 0, pOptCallback = None,
     pConfigCallback = None, declared_tags = [], messages = m\<rparr>" for cf e m
  let ?X = sample_collaborators
  have len: "length V0 = N_TIDY_OPTIONS" by (simp add: V0_def length_option_defs)
  have h0: "new_doc = dc (st V0 0 None) 0 []"
    by (simp add: new_doc_eq dc_def st_def V0_def)
  have h1: "SkipWhite (FirstChar (st V0 0 (Some sample_file)))
              = st V0 102 (Some [111, 111, 58, 32, 49, 10, 119, 114, 97, 112, 58, 32, 55, 50, 10])"
    by (simp add: st_def sample_file_eq FirstChar_def c_GetC_Cons SkipWhite_stop IsWhite_def)
  have h2: "read_token 63 (\<lambda>x. x = 10 \<or> x = 58) id
              (st V0 102 (Some [111, 111, 58, 32, 49, 10, 119, 114, 97, 112, 58, 32, 55, 50, 10])) []
            = (st V0 58 (Some [32, 49, 10, 119, 114, 97, 112, 58, 32, 55, 50, 10]), ''foo'')"
    by (simp add: st_def read_token_step read_token_stop AdvanceChar_def c_GetC_Cons
        EndOfStream_def char_of_name)
  have h3: "NextProperty (AdvanceChar (st V0 58 (Some [32, 49, 10, 119, 114, 97, 112, 58, 32, 55, 50, 10])))
            = st V0 119 (Some [114, 97, 112, 58, 32, 55, 50, 10])"
    by (simp add: st_def AdvanceChar_def c_GetC_Cons EndOfStream_def NextProperty_stop
        NextProperty_step_def NextProperty_skip_step NextProperty_skip_stop IsWhite_def)
  have h4: "read_token 63 (\<lambda>x. x = 10 \<or> x = 58) id
              (st V0 119 (Some [114, 97, 112, 58, 32, 55, 50, 10])) []
            = (st V0 58 (Some [32, 55, 50, 10]), ''wrap'')"
    by (simp add: st_def read_token_step read_token_stop AdvanceChar_def c_GetC_Cons
        EndOfStream_def char_of_name)
  have h5: "ParseInt_loop (SkipWhite (AdvanceChar (st V0 58 (Some [32, 55, 50, 10])))) 0 False
            = (st V0 10 (Some []), 72, True)"
    by (simp add: st_def AdvanceChar_def c_GetC_Cons EndOfStream_def SkipWhite_step
        SkipWhite_stop IsWhite_def IsNewline_def IsDigit_def ParseInt_loop_step
        ParseInt_loop_stop)
  have h6: "NextProperty (st v 10 (Some [])) = st v EndOfStream (Some [])" for v
    by (simp add: st_def c_GetC_Nil EndOfStream_def NextProperty_stop
        NextProperty_step_def NextProperty_skip_stop IsWhite_def)
  have sel [simp]: "ch (st v c s) = c" "value' (st v c s) = v" "cfgIn (st v c s) = s"
    "config (dc cf e m) = cf" "optionErrors (dc cf e m) = e" "messages (dc cf e m) = m"
    "pOptCallback (dc cf e m) = None" "pConfigCallback (dc cf e m) = None"
    "(dc cf e m)\<lparr>config := cf'\<rparr> = dc cf' e m"
    "(st v c s)\<lparr>cfgIn := s'\<rparr> = st v c s'"
    for v c s cf e m cf' s'
    by (simp_all add: st_def dc_def)
  have upd: "SetOptionInt (dc (st v c s) e m) TidyWrapLen n
               = dc (st (v[TidyWrapLen := Val_v n]) c s) e m"
    "ReportUnknownOption (dc cf e m) nm = dc cf (e + 1) (m @ [UnknownOption nm])"
    for v c s e m n cf nm
    by (simp_all add: SetOptionInt_def set_value_def ReportUnknownOption_def st_def dc_def)
  have E: "EndOfStream \<noteq> 102" "EndOfStream \<noteq> 119" by (simp_all add: EndOfStream_def)
  have A: "ParseConfigFile_loop ?X
             (dc (st V0 102 (Some [111, 111, 58, 32, 49, 10, 119, 114, 97, 112, 58, 32, 55, 50, 10])) 0 [])
           = ParseConfigFile_loop ?X (dc (st V0 119 (Some [114, 97, 112, 58, 32, 55, 50, 10])) 1
               [UnknownOption ''foo''])"
    using unknown_option_line [of
        "dc (st V0 102 (Some [111, 111, 58, 32, 49, 10, 119, 114, 97, 112, 58, 32, 55, 50, 10])) 0 []"
        "st V0 58 (Some [32, 49, 10, 119, 114, 97, 112, 58, 32, 55, 50, 10])" "''foo''" ?X]
    by (simp add: h2 h3 E [symmetric] cstr_def lookupOption_foo upd Let_def)
  have B: "ParseConfigFile_body ?X (dc (st V0 119 (Some [114, 97, 112, 58, 32, 55, 50, 10])) 1 m)
           = Some (dc (st (V0[TidyWrapLen := Val_v 72]) 10 (Some [])) 1 m)" for m
    by (simp add: ParseConfigFile_body_def h4 cstr_def lookupOption_wrap option_wrap
        call_parser_def ParseInt_def h5 upd)
  have C: "ParseConfigFile_loop ?X (dc (st V0 119 (Some [114, 97, 112, 58, 32, 55, 50, 10])) 1 m)
           = Some (dc (st (V0[TidyWrapLen := Val_v 72]) EndOfStream (Some [])) 1 m)" for m
    apply (subst ParseConfigFile_loop.simps)
    apply (simp add: B E [symmetric] h6)
    apply (subst ParseConfigFile_loop.simps)
    apply simp
    done
  define fin where "fin = dc (st (V0[TidyWrapLen := Val_v 72]) EndOfStream None) 1 [UnknownOption ''foo'']"
  have R: "ParseConfigFileEnc ?X new_doc (Some sample_file) ''ascii''
             = Some (AdjustConfig fin, 1)"
    by (simp add: ParseConfigFileEnc_def CharEncodingId_ascii h0 h1 A C reports_AdjustConfig fin_def)
  have "vals (AdjustConfig fin) ! TidyWrapLen = Val_v 72"
    by (subst nth_AdjustConfig) (simp_all add: fin_def vals_def len Let_def)
  then have w: "cfg (AdjustConfig fin) TidyWrapLen = 72" by (simp add: cfg_def vals_def)
  have sd: "sample_doc
              = dc (st V0 102 (Some [111, 111, 58, 32, 49, 10, 119, 114, 97, 112, 58, 32, 55, 50, 10])) 0 []"
    by (simp add: sample_doc_def h0 h1)
  have "map_option
         (\<lambda>r. (snd r, cfg (fst r) TidyWrapLen, optionErrors (fst r), messages (fst r)))
         (ParseConfigFileEnc sample_collaborators new_doc (Some sample_file) ''ascii'')
       = Some (1, 72, 1, [UnknownOption ''foo''])"
    by (simp add: R w reports_AdjustConfig) (simp add: fin_def)
  then show ?thesis
    by (simp add: sd h2 lookupOption_foo)
qed


section \<open>Parsers that return failure\<close>



lemma vals_config_store: "store cf = store (config doc) \<Longrightarrow> value' cf = vals doc"
  by (simp add: store_def vals_def)

lemma vals_report [simp]:
  "vals (ReportBadArgument doc nm) = vals doc"
  "vals (ReportUnknownOption doc nm) = vals doc"
  by (simp_all add: ReportBadArgument_def ReportUnknownOption_def vals_def)

lemma messages_report [simp]:
  "messages (ReportBadArgument doc nm) = messages doc @ [BadArgument nm]"
  "messages (ReportUnknownOption doc nm) = messages doc @ [UnknownOption nm]"
  by (simp_all add: ReportBadArgument_def ReportUnknownOption_def)

lemma messages_config_update [simp]: "messages (doc\<lparr>config := cf\<rparr>) = messages doc"
  by simp

lemma vals_config [simp]: "vals (doc\<lparr>config := cf\<rparr>) = value' cf"
  by (simp add: vals_def)

lemma ParseInt_failure:
  assumes "ParseInt doc entry = (doc', False)"
  shows "vals doc' = vals doc \<and> messages doc' = messages doc @ [BadArgument (name entry)]"
proof -
  obtain cf number digits
    where l: "ParseInt_loop (SkipWhite (config doc)) 0 False = (cf, number, digits)"
    by (metis prod_cases3)
  have "store cf = store (config doc)"
    using store_ParseInt_loop [of "SkipWhite (config doc)" 0 False] l by simp
  then have "value' cf = vals doc" by (rule vals_config_store)
  then show ?thesis
    using assms by (auto simp: ParseInt_def l Let_def split: if_splits)
qed

lemma token_store:
  assumes "read_token bound stop f (SkipWhite (config doc)) [] = (cf, buf)"
  shows "value' cf = vals doc"
proof -
  have "store cf = store (config doc)"
    using store_read_token [of bound stop f "SkipWhite (config doc)" "[]"] assms by simp
  then show ?thesis by (rule vals_config_store)
qed

lemma ParseName_failure:
  assumes "ParseName doc entry = (doc', False)"
  shows "vals doc' = vals doc \<and> messages doc' = messages doc @ [BadArgument (name entry)]"
proof -
  obtain cf buf where l: "read_token 1022 IsWhite id (SkipWhite (config doc)) [] = (cf, buf)"
    by (metis surj_pair)
  show ?thesis
    using assms token_store [OF l]
    by (auto simp: ParseName_def l Let_def split: if_splits)
qed

lemma ParseCSS1Selector_failure:
  assumes "ParseCSS1Selector X doc entry = (doc', False)"
  shows "vals doc' = vals doc \<and>
         messages doc' =
           (if snd (read_token 254 IsWhite id (SkipWhite (config doc)) []) = [] then messages doc
            else messages doc @ [BadArgument (name entry)])"
proof -
  obtain cf buf where l: "read_token 254 IsWhite id (SkipWhite (config doc)) [] = (cf, buf)"
    by (metis surj_pair)
  show ?thesis
    using assms token_store [OF l]
    by (auto simp: ParseCSS1Selector_def l Let_def split: if_splits)
qed

lemma ParseCharEnc_failure:
  assumes "ParseCharEnc X doc entry = (doc', False)"
  shows "vals doc' = vals doc \<and> messages doc' = messages doc @ [BadArgument (name entry)]"
proof -
  obtain cf buf where l: "read_token 62 IsWhite ToLower (SkipWhite (config doc)) [] = (cf, buf)"
    by (metis surj_pair)
  show ?thesis
    using assms token_store [OF l]
    by (auto simp: ParseCharEnc_def l Let_def split: if_splits)
qed

lemma GetParsePickListValue_failure:
  assumes "GetParsePickListValue doc entry = Some (doc1, None)"
  shows "vals doc1 = vals doc \<and> messages doc1 = messages doc @ [BadArgument (name entry)]"
proof -
  obtain cf work
    where l: "read_token 16 (\<lambda>x. IsWhite x \<or> x = 13 \<or> x = 10) id (SkipWhite (config doc)) []
                = (cf, work)"
    by (metis surj_pair)
  show ?thesis
    using assms token_store [OF l]
    by (auto simp: GetParsePickListValue_def l Let_def split: option.splits)
qed

lemma ParsePickList_failure:
  assumes "ParsePickList doc entry = Some (doc', False)"
  shows "vals doc' = vals doc \<and>
         messages doc' = messages doc @ [BadArgument (name entry), BadArgument (name entry)]"
proof -
  from assms obtain doc1 where g: "GetParsePickListValue doc entry = Some (doc1, None)"
    and d: "doc' = ReportBadArgument doc1 (name entry)"
    by (auto simp: ParsePickList_def split: option.splits prod.splits)
  show ?thesis
    using GetParsePickListValue_failure [OF g] by (simp add: d)
qed

lemma ParseTabs_failure:
  assumes "ParseTabs doc entry = Some (doc', False)"
  shows "vals doc' = vals doc \<and> messages doc' = messages doc @ [BadArgument (name entry)]"
proof -
  from assms have g: "GetParsePickListValue doc entry = Some (doc', None)"
    by (auto simp: ParseTabs_def Let_def split: option.splits prod.splits)
  show ?thesis
    using GetParsePickListValue_failure [OF g] by simp
qed

lemma ParseString_status: "snd (ParseString doc entry) = True"
  by (simp add: ParseString_def split_beta)

lemma ParseDocType_failure:
  assumes "ParseDocType doc entry = Some (doc', False)"
  shows "vals doc' = vals doc \<and>
         messages doc' = messages doc @ [BadArgument (name entry), BadArgument (name entry)]"
proof -
  let ?doc0 = "doc\<lparr>config := SkipWhite (config doc)\<rparr>"
  have q: "\<not> (ch (config ?doc0) = 34 \<or> ch (config ?doc0) = 39)"
  proof
    assume "ch (config ?doc0) = 34 \<or> ch (config ?doc0) = 39"
    then have "snd (ParseString ?doc0 entry) = False"
      using assms by (auto simp: ParseDocType_def Let_def split_beta)
    then show False by (simp add: ParseString_status)
  qed
  from assms q obtain doc1 where g: "GetParsePickListValue ?doc0 entry = Some (doc1, None)"
    and d: "doc' = ReportBadArgument doc1 (name entry)"
    by (auto simp: ParseDocType_def Let_def split: option.splits prod.splits)
  have "store (SkipWhite (config doc)) = store (config doc)" by simp
  then have "vals ?doc0 = vals doc" by (simp add: store_def vals_def)
  then show ?thesis
    using GetParsePickListValue_failure [OF g] by (simp add: d)
qed


lemma vals_SetOptionValue_overwrite:
  "(vals (SetOptionValue d i v))[i := x] = (vals d)[i := x]"
  by (simp add: vals_SetOptionValue)

lemma vals_DefineTag [simp]:
  "vals (DefineTag d t nm) = vals d" "vals (d\<lparr>allocator := a\<rparr>) = vals d"
  by (simp_all add: DefineTag_def vals_def)

lemma vals_DeclareUserTag:
  "(vals (DeclareUserTag d optId t nm))[optId := x] = (vals d)[optId := x]"
  by (cases "deref (cfgStr d optId)")
     (simp_all add: DeclareUserTag_def TidyDocFree_def Let_def vals_SetOptionValue_overwrite)

lemma messages_SetOptionValue [simp]: "messages (SetOptionValue d i v) = messages d"
  by (cases v)
     (simp_all add: SetOptionValue_def FreeOptionValue_def TidyDocFree_def set_value_def
       Let_def)

lemma messages_DeclareUserTag [simp]: "messages (DeclareUserTag d optId t nm) = messages d"
  by (simp add: DeclareUserTag_def TidyDocFree_def Let_def split_beta DefineTag_def
      split: option.splits)


lemma value'_tokenizer [simp]:
  "value' (c_GetC cf) = value' cf" "value' (AdvanceChar cf) = value' cf"
  "value' (SkipWhite cf) = value' cf"
  "value' (fst (read_token bound stop f cf buf)) = value' cf"
  using store_c_GetC [of cf] store_AdvanceChar [of cf] store_SkipWhite [of cf]
    store_read_token [of bound stop f cf buf]
  by (simp_all add: store_def)

lemma ParseTagNames_body_frame:
  assumes "ParseTagNames_body option ttyp (d, buf, n) = (brk, d1, buf1, n1)"
  shows "(vals d1)[id' option := x] = (vals d)[id' option := x] \<and> messages d1 = messages d"
  using assms
  by (auto simp: ParseTagNames_body_def Let_def split_beta vals_DeclareUserTag vals_def [symmetric]
      split: if_splits)

lemma ParseTagNames_loop_frame:
  assumes "ParseTagNames_loop option ttyp st = Some y"
  shows "(vals (fst y))[id' option := x] = (vals (fst st))[id' option := x]
         \<and> messages (fst y) = messages (fst st)"
proof (rule ParseTagNames_loop.raw_induct
    [where P = "\<lambda>option ttyp st y.
        (vals (fst y))[id' option := x] = (vals (fst st))[id' option := x]
         \<and> messages (fst y) = messages (fst st)", OF _ assms], goal_cases)
  case (1 loop option ttyp st y)
  obtain brk st1 where b: "ParseTagNames_body option ttyp st = (brk, st1)"
    by (metis surj_pair)
  obtain d buf n where st: "st = (d, buf, n)" by (cases st)
  obtain d1 buf1 n1 where st1: "st1 = (d1, buf1, n1)" by (cases st1)
  have f: "(vals (fst st1))[id' option := x] = (vals (fst st))[id' option := x]
           \<and> messages (fst st1) = messages (fst st)"
    using ParseTagNames_body_frame [of option ttyp d buf n brk d1 buf1 n1 x] b
    by (simp add: st st1)
  note hyp = 1(2) and IH = 1(1)
  have e: "(if brk then Some st1
            else if ch (config (fst st1)) \<noteq> EndOfStream then loop option ttyp st1
            else Some st1) = Some y"
    using hyp unfolding b by simp
  show ?case
  proof (cases "brk \<or> ch (config (fst st1)) = EndOfStream")
    case True
    then have "y = st1" using e by (cases brk) auto
    then show ?thesis using f by simp
  next
    case False
    then have "loop option ttyp st1 = Some y" using e by simp
    then have "(vals (fst y))[id' option := x] = (vals (fst st1))[id' option := x]
         \<and> messages (fst y) = messages (fst st1)"
      by (rule IH)
    then show ?thesis using f by simp
  qed
qed


lemma vals_FreeDeclaredTags_tags [simp]:
  "vals (d\<lparr>config := (config d)\<lparr>defined_tags := t\<rparr>\<rparr>) = vals d"
  by (simp add: vals_def)

lemma messages_FreeDeclaredTags [simp]: "messages (FreeDeclaredTags d t) = messages d"
  by (simp add: FreeDeclaredTags_def)

lemma ParseTagNames_failure:
  assumes "ParseTagNames doc option = Some (doc', False)"
    and "id' option \<in> {TidyInlineTags, TidyBlockTags, TidyEmptyTags, TidyPreTags, TidyCustomTags}"
  shows "(vals doc')[id' option := x] = (vals doc)[id' option := x]
         \<and> messages doc' = messages doc"
proof -
  let ?doc0 = "doc\<lparr>config := SkipWhite (config doc)\<rparr>"
  from assms(2) obtain ttyp where t: "ParseTagNames_ttyp ?doc0 option = Some ttyp"
    by (auto simp: ParseTagNames_ttyp_def)
  let ?doc2 = "FreeDeclaredTags (SetOptionValue ?doc0 (id' option) None) ttyp"
  let ?doc3 = "?doc2\<lparr>config := (config ?doc2)
                        \<lparr>defined_tags := defined_tags (config ?doc2) OR ttyp\<rparr>\<rparr>"
  from assms(1) obtain doc4 buf nTags
    where l: "ParseTagNames_loop option ttyp (?doc3, [], 0) = Some (doc4, buf, nTags)"
      and d: "doc' = (if length buf > 0
                       then DeclareUserTag doc4 (id' option) ttyp (cstr buf) else doc4)"
    by (auto simp: ParseTagNames_def t Let_def split: option.splits)
  have "vals ?doc3 = vals (SetOptionValue ?doc0 (id' option) None)"
    by (simp add: vals_def FreeDeclaredTags_def)
  moreover have "(vals (SetOptionValue ?doc0 (id' option) None))[id' option := x]
                   = (vals ?doc0)[id' option := x]"
    by (rule vals_SetOptionValue_overwrite)
  moreover have "vals ?doc0 = vals doc" by (simp add: vals_def)
  ultimately have 3: "(vals ?doc3)[id' option := x] = (vals doc)[id' option := x]"
    by simp
  have m3: "messages ?doc3 = messages doc" by simp
  have 4: "(vals doc4)[id' option := x] = (vals ?doc3)[id' option := x]"
    "messages doc4 = messages ?doc3"
    using ParseTagNames_loop_frame [OF l, of x] by simp_all
  show ?thesis
    using 3 m3 4 by (simp add: d vals_DeclareUserTag)
qed

lemma tag_options:
  assumes "i < N_TIDY_OPTIONS" and "parser (option_defs ! i) = Some ParseTagNames_fn"
  shows "i \<in> {TidyInlineTags, TidyBlockTags, TidyEmptyTags, TidyPreTags, TidyCustomTags}"
proof -
  have "\<forall>x \<in> set option_defs. parser x = Some ParseTagNames_fn \<longrightarrow>
          id' x \<in> {TidyInlineTags, TidyBlockTags, TidyEmptyTags, TidyPreTags, TidyCustomTags}"
    by (simp add: option_defs_def)
  moreover have "option_defs ! i \<in> set option_defs"
    using assms(1) by (simp add: length_option_defs)
  ultimately have "id' (option_defs ! i)
      \<in> {TidyInlineTags, TidyBlockTags, TidyEmptyTags, TidyPreTags, TidyCustomTags}"
    using assms(2) by blast
  then show ?thesis using assms(1) by (simp add: id_option_defs)
qed

lemma ch_SetOptionValue [simp]: "ch (config (SetOptionValue d i v)) = ch (config d)"
  by (cases v)
     (simp_all add: SetOptionValue_def FreeOptionValue_def TidyDocFree_def set_value_def
       Let_def)

lemma ParseTagNames_EndOfStream:
  assumes "ch (config doc) = EndOfStream" and "ParseTagNames_ttyp doc option = Some ttyp"
  shows "\<exists>doc'. ParseTagNames doc option = Some (doc', False)
           \<and> vals doc' = vals (SetOptionValue doc (id' option) None)
           \<and> messages doc' = messages doc"
proof -
  have s: "SkipWhite (config doc) = config doc"
    using assms(1) by (intro SkipWhite_stop) simp
  define doc2 where "doc2 = FreeDeclaredTags (SetOptionValue doc (id' option) None) ttyp"
  define doc3 where "doc3 = doc2\<lparr>config := (config doc2)
                        \<lparr>defined_tags := defined_tags (config doc2) OR ttyp\<rparr>\<rparr>"
  have c: "ch (config doc3) = EndOfStream"
    using assms(1) by (simp add: doc3_def doc2_def FreeDeclaredTags_def)
  have E: "EndOfStream \<noteq> 32" "EndOfStream \<noteq> 9" "EndOfStream \<noteq> 44" "EndOfStream \<noteq> 13"
    "EndOfStream \<noteq> 10" by (simp_all add: EndOfStream_def)
  have b: "ParseTagNames_body option ttyp (doc3, [], 0) = (False, doc3, [], 0)"
    using E by (simp add: ParseTagNames_body_def c read_token_stop)
  have l: "ParseTagNames_loop option ttyp (doc3, [], 0) = Some (doc3, [], 0)"
    by (subst ParseTagNames_loop.simps) (simp add: b c)
  have "ParseTagNames doc option = Some (doc3, False)"
    using assms(2) l by (simp add: ParseTagNames_def s Let_def doc3_def doc2_def)
  moreover have "vals doc3 = vals (SetOptionValue doc (id' option) None)"
    by (simp add: doc3_def doc2_def vals_def FreeDeclaredTags_def)
  moreover have "messages doc3 = messages doc"
    by (simp add: doc3_def doc2_def)
  ultimately show ?thesis by blast
qed

text \<open>
  C1.  When the parser of an option of the table returns failure: every parser other than
  \<^verbatim>\<open>ParseTagNames\<close> leaves the whole value array as it was, so the option keeps its value;
  \<^verbatim>\<open>ParseTagNames\<close>, which clears the slot of its option before it reads, leaves every
  other slot as it was, and the slot of its option is null when the value is empty (the
  stream is at its end); and a bad argument naming the option is reported, once or
  twice, by every parser other than \<^verbatim>\<open>ParseTagNames\<close>, by \<^verbatim>\<open>ParseCSS1Selector\<close> when its
  token is not empty.
\<close>

theorem parser_failure:
  assumes "i < N_TIDY_OPTIONS" and "parser (option_defs ! i) = Some p"
    and "call_parser X p doc (option_defs ! i) = Some (doc', False)"
  shows "(p \<noteq> ParseTagNames_fn \<longrightarrow> value' (config doc') = value' (config doc))
     \<and> (p = ParseTagNames_fn \<longrightarrow>
          (value' (config doc'))[i := Val_p None] = (value' (config doc))[i := Val_p None]
          \<and> (ch (config doc) = EndOfStream \<longrightarrow>
                value' (config doc') = (value' (config doc))[i := Val_p None]))
     \<and> (p \<noteq> ParseTagNames_fn
          \<and> (p = ParseCSS1Selector_fn \<longrightarrow>
                snd (read_token 254 IsWhite id (SkipWhite (config doc)) []) \<noteq> [])
         \<longrightarrow> messages doc' = messages doc @ [BadArgument (name (option_defs ! i))]
             \<or> messages doc' = messages doc @ [BadArgument (name (option_defs ! i)),
                                                BadArgument (name (option_defs ! i))])"
proof (cases p)
  case ParseInt_fn
  then show ?thesis
    using assms(3) ParseInt_failure [of doc "option_defs ! i" doc']
    by (simp add: call_parser_def vals_def)
next
  case ParseName_fn
  then show ?thesis
    using assms(3) ParseName_failure [of doc "option_defs ! i" doc']
    by (simp add: call_parser_def vals_def)
next
  case ParseCSS1Selector_fn
  then show ?thesis
    using assms(3) ParseCSS1Selector_failure [of X doc "option_defs ! i" doc']
    by (simp add: call_parser_def vals_def)
next
  case ParseString_fn
  then show ?thesis
    using assms(3) ParseString_status [of doc "option_defs ! i"]
    by (simp add: call_parser_def)
next
  case ParseTagNames_fn
  have t: "id' (option_defs ! i)
      \<in> {TidyInlineTags, TidyBlockTags, TidyEmptyTags, TidyPreTags, TidyCustomTags}"
    using tag_options [OF assms(1)] assms(1,2) ParseTagNames_fn by (simp add: id_option_defs)
  have p: "ParseTagNames doc (option_defs ! i) = Some (doc', False)"
    using assms(3) ParseTagNames_fn by (simp add: call_parser_def)
  have 1: "(value' (config doc'))[i := Val_p None] = (value' (config doc))[i := Val_p None]"
    using assms(1) ParseTagNames_failure [OF p t, of "Val_p None"]
    by (simp add: vals_def id_option_defs)
  have 2: "value' (config doc') = (value' (config doc))[i := Val_p None]"
    if e: "ch (config doc) = EndOfStream"
  proof -
    from t obtain ttyp where "ParseTagNames_ttyp doc (option_defs ! i) = Some ttyp"
      by (auto simp: ParseTagNames_ttyp_def)
    from ParseTagNames_EndOfStream [OF e this] p
    have "vals doc' = vals (SetOptionValue doc (id' (option_defs ! i)) None)" by auto
    then show ?thesis
      using assms(1) by (simp add: vals_SetOptionValue id_option_defs) (simp add: vals_def)
  qed
  show ?thesis
    using ParseTagNames_fn 1 2 by simp
next
  case ParseCharEnc_fn
  then show ?thesis
    using assms(3) ParseCharEnc_failure [of X doc "option_defs ! i" doc']
    by (simp add: call_parser_def vals_def)
next
  case ParseDocType_fn
  then show ?thesis
    using assms(3) ParseDocType_failure [of doc "option_defs ! i" doc']
    by (simp add: call_parser_def vals_def)
next
  case ParseTabs_fn
  then show ?thesis
    using assms(3) ParseTabs_failure [of doc "option_defs ! i" doc']
    by (simp add: call_parser_def vals_def)
next
  case ParsePickList_fn
  then show ?thesis
    using assms(3) ParsePickList_failure [of doc "option_defs ! i" doc']
    by (simp add: call_parser_def vals_def)
qed


lemma empty_input_facts [simp]:
  "ch (config (empty_input d)) = EndOfStream" "vals (empty_input d) = vals d"
  "messages (empty_input d) = messages d"
  "SkipWhite (config (empty_input d)) = config (empty_input d)"
  by (simp_all add: empty_input_def SkipWhite_stop vals_def)

lemma messages_new_doc [simp]: "messages new_doc = []"
  by (simp add: new_doc_eq)

text \<open>
  C1 without these exceptions does not hold, because of \<^verbatim>\<open>ParseTagNames\<close> and
  \<^verbatim>\<open>ParseCSS1Selector\<close>.  The option
  new-inline-tags holds \<open>foo\<close> and is given an empty value: the parser returns failure,
  the slot is null afterwards, and nothing is reported.  The option css-prefix is given an
  empty value: the parser returns failure and nothing is reported.
\<close>

theorem ParseTagNames_discards_previous_value:
  "parser (option_defs ! TidyInlineTags) = Some ParseTagNames_fn
   \<and> option_text TidyInlineTags
         (empty_input (SetOptionValue new_doc TidyInlineTags (Some ''foo''))) = Some ''foo''
   \<and> map_option snd
        (call_parser sample_collaborators ParseTagNames_fn
           (empty_input (SetOptionValue new_doc TidyInlineTags (Some ''foo'')))
           (option_defs ! TidyInlineTags))
       = Some False
   \<and> map_option (option_text TidyInlineTags \<circ> fst)
        (call_parser sample_collaborators ParseTagNames_fn
           (empty_input (SetOptionValue new_doc TidyInlineTags (Some ''foo'')))
           (option_defs ! TidyInlineTags))
       = Some None
   \<and> map_option (messages \<circ> fst)
        (call_parser sample_collaborators ParseTagNames_fn
           (empty_input (SetOptionValue new_doc TidyInlineTags (Some ''foo'')))
           (option_defs ! TidyInlineTags))
       = Some []
   \<and> parser (option_defs ! TidyCSSPrefix) = Some ParseCSS1Selector_fn
   \<and> map_option snd
        (call_parser sample_collaborators ParseCSS1Selector_fn (empty_input new_doc)
           (option_defs ! TidyCSSPrefix))
       = Some False
   \<and> map_option (messages \<circ> fst)
        (call_parser sample_collaborators ParseCSS1Selector_fn (empty_input new_doc)
           (option_defs ! TidyCSSPrefix))
       = Some []"
proof -
  let ?d = "empty_input (SetOptionValue new_doc TidyInlineTags (Some ''foo''))"
  have o: "parser (option_defs ! TidyInlineTags) = Some ParseTagNames_fn"
    "parser (option_defs ! TidyCSSPrefix) = Some ParseCSS1Selector_fn"
    "id' (option_defs ! TidyInlineTags) = TidyInlineTags"
    by (simp_all add: option_defs_def)
  have v: "vals ?d ! TidyInlineTags = Val_p (Some (Suc (allocator new_doc), ''foo''))"
    by (simp add: vals_SetOptionValue length_vals_new_doc)
  have t: "ParseTagNames_ttyp ?d (option_defs ! TidyInlineTags) = Some tagtype_inline"
    by (simp add: ParseTagNames_ttyp_def o)
  obtain doc' where p: "ParseTagNames ?d (option_defs ! TidyInlineTags) = Some (doc', False)"
    and v': "vals doc' = vals (SetOptionValue ?d TidyInlineTags None)"
    and m': "messages doc' = messages ?d"
    using ParseTagNames_EndOfStream [OF _ t] by (auto simp: o)
  have 1: "option_text TidyInlineTags ?d = Some ''foo''"
    using v by (simp add: option_text_def cfgStr_def vals_def)
  have "vals doc' ! TidyInlineTags = Val_p None"
    by (simp add: v' vals_SetOptionValue length_vals_new_doc)
  then have 2: "option_text TidyInlineTags doc' = None"
    by (simp add: option_text_def cfgStr_def vals_def)
  have 3: "call_parser sample_collaborators ParseCSS1Selector_fn (empty_input new_doc)
             (option_defs ! TidyCSSPrefix) = Some (empty_input new_doc, False)"
    by (simp add: call_parser_def ParseCSS1Selector_def read_token_stop)
  have 4: "call_parser sample_collaborators ParseTagNames_fn ?d (option_defs ! TidyInlineTags)
             = Some (doc', False)"
    using p by (simp add: call_parser_def)
  show ?thesis
    using 1 2 by (simp add: o 4 m' 3)
qed

text \<open>An instance: the option wrap is given an empty value.\<close>

theorem parser_failure_witness:
  "parser (option_defs ! TidyWrapLen) = Some ParseInt_fn
   \<and> call_parser sample_collaborators ParseInt_fn (empty_input new_doc) (option_defs ! TidyWrapLen)
       = Some (ReportBadArgument (empty_input new_doc) ''wrap'', False)
   \<and> value' (config (ReportBadArgument (empty_input new_doc) ''wrap''))
       = value' (config (empty_input new_doc))
   \<and> messages (ReportBadArgument (empty_input new_doc) ''wrap'') = [BadArgument ''wrap'']"
proof -
  have o: "parser (option_defs ! TidyWrapLen) = Some ParseInt_fn"
    "name (option_defs ! TidyWrapLen) = ''wrap''"
    by (simp_all add: option_defs_def)
  have c: "call_parser sample_collaborators ParseInt_fn (empty_input new_doc)
             (option_defs ! TidyWrapLen)
           = Some (ReportBadArgument (empty_input new_doc) ''wrap'', False)"
    by (simp add: call_parser_def ParseInt_def ParseInt_loop_stop o)
  show ?thesis
    using parser_failure [OF _ o(1) c] o c by simp
qed

end
